theory Spec2Isabelle
  imports Main "HOL-Library.AList"
begin

section \<open>JavaScript values\<close>

text \<open>
  The values that travel through the tools are JSON documents (tool arguments, response
  bodies, tool results), together with \<^verbatim>\<open>undefined\<close>. Objects list their own
  properties in insertion order. Numbers are modelled by integers: the only arithmetic of
  the modelled code is on lengths of arrays.
\<close>

datatype jsval =
    JUndefined
  | JNull
  | JBool bool
  | JNum int
  | JStr string
  | JArr "jsval list"
  | JObj "(string \<times> jsval) list"

text \<open>Truthiness, as used by \<^verbatim>\<open>!x\<close>, \<^verbatim>\<open>x || y\<close> and \<^verbatim>\<open>x ? a : b\<close>.\<close>

fun truthy :: "jsval \<Rightarrow> bool" where
  "truthy JUndefined = False"
| "truthy JNull = False"
| "truthy (JBool b) = b"
| "truthy (JNum n) = (n \<noteq> 0)"
| "truthy (JStr s) = (s \<noteq> [])"
| "truthy (JArr xs) = True"
| "truthy (JObj kvs) = True"

text \<open>\<^verbatim>\<open>a || b\<close> on values.\<close>

definition js_or :: "jsval \<Rightarrow> jsval \<Rightarrow> jsval" where
  "js_or a b = (if truthy a then a else b)"

text \<open>
  Every \<^verbatim>\<open>throw\<close> of the source, and every exception raised by the runtime or by a
  library, is a value of type \<open>error\<close>. A validation error carries the issues found; each
  issue has a code and the path of the offending value.
\<close>

datatype path_elem = Key string | Index nat

datatype zod_issue = ZodIssue (code: string) (path: "path_elem list")

datatype error =
    Error string
  | TypeError string
  | ZodError "zod_issue list"
  | AxiosError string

text \<open>
  Reading a property \<^verbatim>\<open>v.k\<close> or \<^verbatim>\<open>v[k]\<close>: a \<^verbatim>\<open>TypeError\<close> on
  \<^verbatim>\<open>undefined\<close> and \<^verbatim>\<open>null\<close>, the own property of an object, the
  \<^verbatim>\<open>length\<close> of an array or a string, and \<^verbatim>\<open>undefined\<close> otherwise. The
  source reads the keys \<^verbatim>\<open>items\<close> and \<^verbatim>\<open>length\<close> of response bodies and the
  keys of its own schemas from arguments; none of them is inherited from a built-in
  prototype, except \<^verbatim>\<open>length\<close>, which is written out.
\<close>

fun member :: "jsval \<Rightarrow> string \<Rightarrow> error + jsval" where
  "member JUndefined k =
     Inl (TypeError (''Cannot read properties of undefined (reading '' @ k @ '')''))"
| "member JNull k =
     Inl (TypeError (''Cannot read properties of null (reading '' @ k @ '')''))"
| "member (JObj kvs) k = Inr (case map_of kvs k of Some v \<Rightarrow> v | None \<Rightarrow> JUndefined)"
| "member (JArr xs) k = Inr (if k = ''length'' then JNum (int (length xs)) else JUndefined)"
| "member (JStr s) k = Inr (if k = ''length'' then JNum (int (length s)) else JUndefined)"
| "member (JBool b) k = Inr JUndefined"
| "member (JNum n) k = Inr JUndefined"

text \<open>The same read on a value already known not to be \<^verbatim>\<open>undefined\<close> or \<^verbatim>\<open>null\<close>.\<close>

definition field :: "jsval \<Rightarrow> string \<Rightarrow> jsval" where
  "field v k = (case member v k of Inr x \<Rightarrow> x | Inl e \<Rightarrow> JUndefined)"

section \<open>Schema validation\<close>

text \<open>
  The tools validate their arguments with the zod library (version 3):
  \<^verbatim>\<open>z.object({...}).parse(args)\<close> returns the validated value or throws a
  \<^verbatim>\<open>ZodError\<close>. The schema constructors the tools use are modelled after the
  library: an object schema rejects everything that is not a plain object (arrays and
  \<^verbatim>\<open>null\<close> included), validates the keys of its shape in order, collects the issues
  of all of them, and drops the keys it does not know; \<^verbatim>\<open>.optional()\<close> accepts
  \<^verbatim>\<open>undefined\<close>; \<^verbatim>\<open>.default(d)\<close> validates \<open>d\<close> in place of
  \<^verbatim>\<open>undefined\<close>.
\<close>

datatype zod =
    ZString
  | ZNumber
  | ZBoolean
  | ZAny
  | ZEnum "string list"
  | ZArray zod
  | ZObject "(string \<times> zod) list"
  | ZOptional zod
  | ZDefault zod jsval

definition issues_of :: "('i list + 'v) list \<Rightarrow> 'i list" where
  "issues_of rs = concat (map (\<lambda>r. case r of Inl is \<Rightarrow> is | Inr v \<Rightarrow> []) rs)"

definition values_of :: "('i list + 'v) list \<Rightarrow> 'v list" where
  "values_of rs = concat (map (\<lambda>r. case r of Inl is \<Rightarrow> [] | Inr v \<Rightarrow> [v]) rs)"

text \<open>
  The keys of the validated object: a key of the shape is set when its validated value is
  not \<^verbatim>\<open>undefined\<close> or when the key is present in the input.
\<close>

fun final_entry ::
  "(string \<times> jsval) list \<Rightarrow> string \<times> (zod_issue list + jsval) \<Rightarrow> (string \<times> jsval) list" where
  "final_entry input (k, Inl issues) = []"
| "final_entry input (k, Inr v) =
     (if v \<noteq> JUndefined \<or> k \<in> fst ` set input then [(k, v)] else [])"

definition finalObject ::
  "(string \<times> jsval) list \<Rightarrow> (string \<times> (zod_issue list + jsval)) list \<Rightarrow> jsval" where
  "finalObject input pairs = JObj (concat (map (final_entry input) pairs))"

fun zod_parse :: "zod \<Rightarrow> path_elem list \<Rightarrow> jsval \<Rightarrow> zod_issue list + jsval" where
  "zod_parse ZString p v =
     (case v of JStr s \<Rightarrow> Inr v | _ \<Rightarrow> Inl [ZodIssue ''invalid_type'' p])"
| "zod_parse ZNumber p v =
     (case v of JNum n \<Rightarrow> Inr v | _ \<Rightarrow> Inl [ZodIssue ''invalid_type'' p])"
| "zod_parse ZBoolean p v =
     (case v of JBool b \<Rightarrow> Inr v | _ \<Rightarrow> Inl [ZodIssue ''invalid_type'' p])"
| "zod_parse ZAny p v = Inr v"
| "zod_parse (ZEnum vs) p v =
     (case v of
        JStr s \<Rightarrow> if s \<in> set vs then Inr v else Inl [ZodIssue ''invalid_enum_value'' p]
      | _ \<Rightarrow> Inl [ZodIssue ''invalid_type'' p])"
| "zod_parse (ZArray z) p v =
     (case v of
        JArr xs \<Rightarrow>
          (let rs = map (\<lambda>(i, x). zod_parse z (p @ [Index i]) x) (enumerate 0 xs)
           in if issues_of rs = [] then Inr (JArr (values_of rs)) else Inl (issues_of rs))
      | _ \<Rightarrow> Inl [ZodIssue ''invalid_type'' p])"
| "zod_parse (ZObject shape) p v =
     (case v of
        JObj kvs \<Rightarrow>
          (let pairs = map (\<lambda>(k, z). (k, zod_parse z (p @ [Key k]) (field v k))) shape
           in if issues_of (map snd pairs) = [] then Inr (finalObject kvs pairs)
              else Inl (issues_of (map snd pairs)))
      | _ \<Rightarrow> Inl [ZodIssue ''invalid_type'' p])"
| "zod_parse (ZOptional z) p v = (if v = JUndefined then Inr JUndefined else zod_parse z p v)"
| "zod_parse (ZDefault z d) p v = (if v = JUndefined then zod_parse z p d else zod_parse z p v)"

text \<open>\<^verbatim>\<open>schema.parse(args)\<close>: the validated value, or the \<^verbatim>\<open>ZodError\<close> thrown.\<close>

definition parse :: "zod \<Rightarrow> jsval \<Rightarrow> error + jsval" where
  "parse schema args =
     (case zod_parse schema [] args of Inl is \<Rightarrow> Inl (ZodError is) | Inr v \<Rightarrow> Inr v)"

section \<open>Tool registries as JavaScript objects\<close>

text \<open>
  A \<^verbatim>\<open>Record<string, T>\<close> of the source is an object whose own enumerable properties
  are listed by \<^verbatim>\<open>Object.entries\<close> in insertion order (the tool names are not array
  indices). It is modelled by the list of its entries; an object never holds a key twice,
  which is the condition \<open>distinct (map fst obj)\<close>. Writing a property
  (\<^verbatim>\<open>obj[k] = v\<close>, or defining it through an object spread) replaces the value of an
  existing key in place and appends a new key at the end: this is \<open>AList.update\<close>.
\<close>

type_synonym 'v js_object = "(string \<times> 'v) list"

definition own_keys :: "'v js_object \<Rightarrow> string set" where
  "own_keys obj = fst ` set obj"

text \<open>The literal name list of \<^verbatim>\<open>filterInfoOnlyTools\<close> (index.ts).\<close>

definition infoOnlyToolNames :: "string list" where
  "infoOnlyToolNames =
    [''abp_get_info'',
     ''abp_get_documentation'',
     ''abp_get_help'',
     ''abp_list_available_modules'',
     ''abp_list_ui_frameworks'',
     ''abp_list_database_providers'',
     ''abp_get_cli_commands'',
     ''abp_get_best_practices'',
     ''abp_get_troubleshooting_guide'',
     ''abp_generate_component'',
     ''abp_get_themes'',
     ''abp_generate_form'',
     ''abp_get_ui_examples'']"

text \<open>
  \<^verbatim>\<open>filterInfoOnlyTools\<close>: start from the empty object and visit the entries of
  \<open>allTools\<close> in order, copying an entry when its name is on the list.
\<close>

definition filterInfoOnlyTools :: "'v js_object \<Rightarrow> 'v js_object" where
  "filterInfoOnlyTools allTools =
     fold (\<lambda>(name, handler) infoOnlyTools.
             if name \<in> set infoOnlyToolNames
             then AList.update name handler infoOnlyTools
             else infoOnlyTools)
          allTools []"

text \<open>
  The selection of the operative tool set in \<^verbatim>\<open>main\<close>:
  \<^verbatim>\<open>options.infoOnlyMode ? filterInfoOnlyTools(allToolHandlers) : allToolHandlers\<close>.
\<close>

definition toolHandlers :: "bool \<Rightarrow> 'v js_object \<Rightarrow> 'v js_object" where
  "toolHandlers infoOnlyMode allToolHandlers =
     (if infoOnlyMode then filterInfoOnlyTools allToolHandlers else allToolHandlers)"

text \<open>
  An object literal made of spreads, \<^verbatim>\<open>{...a, ...b, ...}\<close>: the own properties of each
  source are defined on the new object in turn, source after source, entry after entry.
\<close>

definition assign :: "'v js_object \<Rightarrow> 'v js_object \<Rightarrow> 'v js_object" where
  "assign source target = fold (\<lambda>(key, val) obj. AList.update key val obj) source target"

definition object_spread :: "'v js_object list \<Rightarrow> 'v js_object" where
  "object_spread sources = fold assign sources []"

section \<open>The API client\<close>

text \<open>
  The remote collaborator is reached through one axios instance. A request either yields
  a response, of which the client reads only the body \<^verbatim>\<open>response.data\<close>, or is
  rejected with an error. What the remote side answers is not in the hands of the
  program: it is the field \<open>client\<close> of the API client, an arbitrary function of the
  request. A computation that may throw and may call the remote side returns its outcome
  together with the requests it has sent, in order (\<open>io\<close>); an empty list means that no
  network call was made.
\<close>

datatype http_method = GET | POST | PUT | DELETE

record http_request =
  req_method :: http_method
  req_url :: string
  req_params :: jsval
  req_data :: jsval

type_synonym 'a io = "(error + 'a) \<times> http_request list"

definition return_io :: "'a \<Rightarrow> 'a io" where
  "return_io v = (Inr v, [])"

definition throw_io :: "error \<Rightarrow> 'a io" where
  "throw_io e = (Inl e, [])"

definition lift_io :: "error + 'a \<Rightarrow> 'a io" where
  "lift_io r = (r, [])"

text \<open>Sequencing: an error of the first computation ends the whole.\<close>

definition bind_io :: "'a io \<Rightarrow> ('a \<Rightarrow> 'b io) \<Rightarrow> 'b io" where
  "bind_io m f =
     (case m of
        (Inl e, sent) \<Rightarrow> (Inl e, sent)
      | (Inr v, sent) \<Rightarrow> (case f v of (r, sent') \<Rightarrow> (r, sent @ sent')))"

text \<open>\<^verbatim>\<open>try { m } catch (error) { h(error) }\<close>.\<close>

definition try_catch :: "'a io \<Rightarrow> (error \<Rightarrow> 'a io) \<Rightarrow> 'a io" where
  "try_catch m h =
     (case m of
        (Inl e, sent) \<Rightarrow> (case h e of (r, sent') \<Rightarrow> (r, sent @ sent'))
      | (Inr v, sent) \<Rightarrow> (Inr v, sent))"

record abp_api_client_config =
  baseUrl :: string
  apiKey :: string
  timeout :: "nat option"

record abp_api_client =
  config :: abp_api_client_config
  client :: "http_request \<Rightarrow> error + jsval"

text \<open>
  \<^verbatim>\<open>this.client.get(url, { params })\<close>, \<^verbatim>\<open>this.client.post(url, data)\<close>: one request
  is sent, and the body of the response comes back.
\<close>

definition client_get :: "abp_api_client \<Rightarrow> string \<Rightarrow> jsval \<Rightarrow> jsval io" where
  "client_get c u ps =
     (let r = \<lparr>req_method = GET, req_url = u, req_params = ps, req_data = JUndefined\<rparr>
      in (client c r, [r]))"

definition client_post :: "abp_api_client \<Rightarrow> string \<Rightarrow> jsval \<Rightarrow> jsval io" where
  "client_post c u d =
     (let r = \<lparr>req_method = POST, req_url = u, req_params = JUndefined, req_data = d\<rparr>
      in (client c r, [r]))"

text \<open>
  The two ways the list endpoints unwrap a body:
  \<^verbatim>\<open>response.data.items || response.data\<close> and \<^verbatim>\<open>response.data.items || []\<close>.
\<close>

definition items_or_data :: "jsval \<Rightarrow> jsval io" where
  "items_or_data data = bind_io (lift_io (member data ''items'')) (\<lambda>items. return_io (js_or items data))"

definition items_or_empty :: "jsval \<Rightarrow> jsval io" where
  "items_or_empty data = bind_io (lift_io (member data ''items'')) (\<lambda>items. return_io (js_or items (JArr [])))"

text \<open>\<^verbatim>\<open>x ? { k: x } : {}\<close> and \<^verbatim>\<open>if (x) params.k = x\<close>.\<close>

definition set_if_truthy :: "string \<Rightarrow> jsval \<Rightarrow> (string \<times> jsval) list \<Rightarrow> (string \<times> jsval) list" where
  "set_if_truthy k x params = (if truthy x then AList.update k x params else params)"

definition getApplications :: "abp_api_client \<Rightarrow> jsval io" where
  "getApplications c = bind_io (client_get c ''/api/app/applications'' JUndefined) items_or_data"

definition getModules :: "abp_api_client \<Rightarrow> jsval io" where
  "getModules c = bind_io (client_get c ''/api/app/modules'' JUndefined) items_or_data"

definition getEntities :: "abp_api_client \<Rightarrow> jsval \<Rightarrow> jsval io" where
  "getEntities c namespace =
     bind_io (client_get c ''/api/app/entities'' (JObj (set_if_truthy ''namespace'' namespace [])))
       items_or_data"

definition getPermissions :: "abp_api_client \<Rightarrow> jsval \<Rightarrow> jsval \<Rightarrow> jsval io" where
  "getPermissions c providerName providerKey =
     bind_io (client_get c ''/api/app/permissions''
                (JObj (set_if_truthy ''providerKey'' providerKey
                        (set_if_truthy ''providerName'' providerName []))))
       items_or_data"

definition getPermissionsByGroup :: "abp_api_client \<Rightarrow> string \<Rightarrow> jsval io" where
  "getPermissionsByGroup c groupName =
     bind_io (client_get c (''/api/app/permissions/groups/'' @ groupName) JUndefined) items_or_data"

definition getUsers :: "abp_api_client \<Rightarrow> jsval \<Rightarrow> jsval \<Rightarrow> jsval io" where
  "getUsers c filter' maxResultCount =
     bind_io (client_get c ''/api/identity/users''
                (JObj (set_if_truthy ''maxResultCount'' maxResultCount
                        (set_if_truthy ''filter'' filter' []))))
       items_or_data"

definition getTenants :: "abp_api_client \<Rightarrow> jsval \<Rightarrow> jsval io" where
  "getTenants c filter' =
     bind_io (client_get c ''/api/saas/tenants'' (JObj (set_if_truthy ''filter'' filter' [])))
       items_or_data"

definition getAuditLogs :: "abp_api_client \<Rightarrow> jsval \<Rightarrow> jsval \<Rightarrow> jsval \<Rightarrow> jsval io" where
  "getAuditLogs c startDate endDate userId =
     bind_io (client_get c ''/api/audit-logging/audit-logs''
                (JObj (set_if_truthy ''userId'' userId
                        (set_if_truthy ''endDate'' endDate
                          (set_if_truthy ''startDate'' startDate [])))))
       items_or_data"

definition getBackgroundJobs :: "abp_api_client \<Rightarrow> jsval \<Rightarrow> jsval io" where
  "getBackgroundJobs c jobType =
     bind_io (client_get c ''/api/background-jobs'' (JObj (set_if_truthy ''jobType'' jobType [])))
       items_or_data"

definition getThemes :: "abp_api_client \<Rightarrow> jsval io" where
  "getThemes c = bind_io (client_get c ''/api/themes'' JUndefined) items_or_empty"

definition getLayouts :: "abp_api_client \<Rightarrow> jsval io" where
  "getLayouts c = bind_io (client_get c ''/api/ui/layouts'' JUndefined) items_or_empty"

definition getMenus :: "abp_api_client \<Rightarrow> jsval io" where
  "getMenus c = bind_io (client_get c ''/api/ui/navigation/menus'' JUndefined) items_or_empty"

definition getWidgets :: "abp_api_client \<Rightarrow> jsval io" where
  "getWidgets c = bind_io (client_get c ''/api/ui/widgets'' JUndefined) items_or_empty"

definition getLocalizationResources :: "abp_api_client \<Rightarrow> jsval io" where
  "getLocalizationResources c =
     bind_io (client_get c ''/api/localization/resources'' JUndefined) items_or_empty"

definition getSupportedCultures :: "abp_api_client \<Rightarrow> jsval io" where
  "getSupportedCultures c =
     bind_io (client_get c ''/api/localization/cultures'' JUndefined) items_or_empty"

text \<open>The calls behind the tools modelled below.\<close>

definition grantPermission :: "abp_api_client \<Rightarrow> jsval \<Rightarrow> jsval \<Rightarrow> jsval \<Rightarrow> unit io" where
  "grantPermission c providerName providerKey permissionName =
     bind_io (client_post c ''/api/app/permissions/grant''
                (JObj [(''providerName'', providerName),
                       (''providerKey'', providerKey),
                       (''permissionName'', permissionName)]))
       (\<lambda>data. return_io ())"

definition generateComponent :: "abp_api_client \<Rightarrow> jsval \<Rightarrow> jsval io" where
  "generateComponent c componentData = client_post c ''/api/suite/components'' componentData"

definition generateForm :: "abp_api_client \<Rightarrow> jsval \<Rightarrow> jsval io" where
  "generateForm c formData = client_post c ''/api/suite/forms'' formData"

section \<open>Strings built from values\<close>

text \<open>
  The static generators build their texts with template literals. Strings are modelled
  as lists of ASCII characters. \<^verbatim>\<open>toLowerCase\<close> maps the letters A to Z.
\<close>

definition toLowerCase :: "string \<Rightarrow> string" where
  "toLowerCase s =
     map (\<lambda>c. let n = (of_char c :: nat) in if 65 \<le> n \<and> n \<le> 90 then char_of (n + 32) else c) s"

text \<open>Decimal digits of a number.\<close>

fun show_nat :: "nat \<Rightarrow> string" where
  "show_nat n = (if n < 10 then [char_of (48 + n)] else show_nat (n div 10) @ [char_of (48 + n mod 10)])"

definition show_int :: "int \<Rightarrow> string" where
  "show_int i = (if i < 0 then ''-'' @ show_nat (nat (- i)) else show_nat (nat i))"

text \<open>\<^verbatim>\<open>xs.join(sep)\<close> on strings.\<close>

fun join :: "string \<Rightarrow> string list \<Rightarrow> string" where
  "join sep [] = []"
| "join sep [x] = x"
| "join sep (x # y # ys) = x @ sep @ join sep (y # ys)"

text \<open>The first error of a list of outcomes, or all their values.\<close>

fun all_or_first_error :: "('e + 'a) list \<Rightarrow> 'e + 'a list" where
  "all_or_first_error [] = Inr []"
| "all_or_first_error (Inl e # rs) = Inl e"
| "all_or_first_error (Inr v # rs) =
     (case all_or_first_error rs of Inl e \<Rightarrow> Inl e | Inr vs \<Rightarrow> Inr (v # vs))"

text \<open>
  The conversion of a value to a string, as a template literal \<^verbatim>\<open>`${v}`\<close> performs it.
  An array is joined with commas, \<^verbatim>\<open>null\<close> and \<^verbatim>\<open>undefined\<close> elements giving
  the empty string. An object is converted by calling its \<^verbatim>\<open>toString\<close> and then its
  \<^verbatim>\<open>valueOf\<close> property when they are functions: an object that came out of a JSON
  document inherits both from \<^verbatim>\<open>Object.prototype\<close> and yields
  \<^verbatim>\<open>[object Object]\<close>, unless it has a key \<^verbatim>\<open>toString\<close> of its own. Then that
  property is not a function, \<^verbatim>\<open>valueOf\<close> (own or inherited) gives no primitive
  value either, and the conversion throws a \<^verbatim>\<open>TypeError\<close>.
\<close>

fun to_String :: "jsval \<Rightarrow> error + string" where
  "to_String JUndefined = Inr ''undefined''"
| "to_String JNull = Inr ''null''"
| "to_String (JBool b) = Inr (if b then ''true'' else ''false'')"
| "to_String (JNum n) = Inr (show_int n)"
| "to_String (JStr s) = Inr s"
| "to_String (JArr xs) =
     (case all_or_first_error
             (map (\<lambda>x. if x = JUndefined \<or> x = JNull then Inr [] else to_String x) xs) of
        Inl e \<Rightarrow> Inl e
      | Inr strs \<Rightarrow> Inr (join '','' strs))"
| "to_String (JObj kvs) =
     (if ''toString'' \<in> fst ` set kvs
      then Inl (TypeError ''Cannot convert object to primitive value'')
      else Inr ''[object Object]'')"

text \<open>
  \<^verbatim>\<open>JSON.stringify(v)\<close> without indentation, as interpolated into a template literal.
  It does not throw on a value that came out of a JSON document.
\<close>

definition json_escape_char :: "char \<Rightarrow> string" where
  "json_escape_char c =
     (let n = (of_char c :: nat) in
      if n = 34 then [CHR 0x5C, CHR 0x22]
      else if n = 92 then [CHR 0x5C, CHR 0x5C]
      else if n = 8 then [CHR 0x5C, CHR ''b'']
      else if n = 9 then [CHR 0x5C, CHR ''t'']
      else if n = 10 then [CHR 0x5C, CHR ''n'']
      else if n = 12 then [CHR 0x5C, CHR ''f'']
      else if n = 13 then [CHR 0x5C, CHR ''r'']
      else if n < 32 then [CHR 0x5C, CHR ''u'', CHR ''0'', CHR ''0'',
                            ''0123456789abcdef'' ! (n div 16), ''0123456789abcdef'' ! (n mod 16)]
      else [c])"

definition json_quote :: "string \<Rightarrow> string" where
  "json_quote s = [CHR 0x22] @ concat (map json_escape_char s) @ [CHR 0x22]"

fun JSON_stringify :: "jsval \<Rightarrow> string" where
  "JSON_stringify JUndefined = ''undefined''"
| "JSON_stringify JNull = ''null''"
| "JSON_stringify (JBool b) = (if b then ''true'' else ''false'')"
| "JSON_stringify (JNum n) = show_int n"
| "JSON_stringify (JStr s) = json_quote s"
| "JSON_stringify (JArr xs) =
     ''['' @ join '','' (map (\<lambda>x. if x = JUndefined then ''null'' else JSON_stringify x) xs) @ '']''"
| "JSON_stringify (JObj kvs) =
     ''{'' @ join '',''
              (map (\<lambda>(k, v). json_quote k @ '':'' @ JSON_stringify v)
                   (filter (\<lambda>(k, v). v \<noteq> JUndefined) kvs)) @ ''}''"

section \<open>The hybrid tools: static generators\<close>

text \<open>
  Computations that may throw but never call the remote side have type \<open>error + 'a\<close>.
\<close>

definition bind_res :: "error + 'a \<Rightarrow> ('a \<Rightarrow> error + 'b) \<Rightarrow> error + 'b" where
  "bind_res m f = (case m of Inl e \<Rightarrow> Inl e | Inr v \<Rightarrow> f v)"

text \<open>
  A template literal: its pieces are evaluated from left to right and concatenated; the
  first piece that throws ends the evaluation. \<open>lit\<close> is a piece of literal text,
  \<open>interp obj k\<close> is \<^verbatim>\<open>${obj.k}\<close> and \<open>interp_lower obj k\<close> is
  \<^verbatim>\<open>${obj.k.toLowerCase()}\<close>.
\<close>

definition template :: "(error + string) list \<Rightarrow> error + string" where
  "template pieces = bind_res (all_or_first_error pieces) (\<lambda>strs. Inr (concat strs))"

definition lit :: "string \<Rightarrow> error + string" where
  "lit s = Inr s"

definition interp :: "jsval \<Rightarrow> string \<Rightarrow> error + string" where
  "interp obj k = bind_res (member obj k) to_String"

fun toLowerCase_of :: "jsval \<Rightarrow> error + string" where
  "toLowerCase_of (JStr s) = Inr (toLowerCase s)"
| "toLowerCase_of JUndefined =
     Inl (TypeError ''Cannot read properties of undefined (reading toLowerCase)'')"
| "toLowerCase_of JNull =
     Inl (TypeError ''Cannot read properties of null (reading toLowerCase)'')"
| "toLowerCase_of v = Inl (TypeError ''toLowerCase is not a function'')"

definition interp_lower :: "jsval \<Rightarrow> string \<Rightarrow> error + string" where
  "interp_lower obj k = bind_res (member obj k) toLowerCase_of"

text \<open>\<^verbatim>\<open>xs.map(f)\<close>: a \<^verbatim>\<open>TypeError\<close> unless \<open>xs\<close> is an array.\<close>

fun js_map :: "jsval \<Rightarrow> (jsval \<Rightarrow> error + 'a) \<Rightarrow> error + 'a list" where
  "js_map (JArr xs) f = all_or_first_error (map f xs)"
| "js_map JUndefined f = Inl (TypeError ''Cannot read properties of undefined (reading map)'')"
| "js_map JNull f = Inl (TypeError ''Cannot read properties of null (reading map)'')"
| "js_map v f = Inl (TypeError ''map is not a function'')"

text \<open>An object literal: the values of its properties are evaluated in order.\<close>

definition object_of :: "(string \<times> (error + jsval)) list \<Rightarrow> error + jsval" where
  "object_of props =
     bind_res (all_or_first_error (map snd props)) (\<lambda>vals. Inr (JObj (zip (map fst props) vals)))"

definition js_str :: "error + string \<Rightarrow> error + jsval" where
  "js_str r = bind_res r (\<lambda>s. Inr (JStr s))"

definition generateAngularTemplate :: "jsval \<Rightarrow> error + string" where
  "generateAngularTemplate args =
     bind_res (member args ''type'') (\<lambda>type.
       if type = JStr ''modal''
       then template
         [lit (''<div class=\"modal-header\">\<newline>'' @
               ''  <h4 class=\"modal-title\">''),
          interp args ''name'',
          lit (''</h4>\<newline>'' @
               ''</div>\<newline>'' @
               ''<div class=\"modal-body\">\<newline>'' @
               ''  <!-- Add your content here -->\<newline>'' @
               ''</div>\<newline>'' @
               ''<div class=\"modal-footer\">\<newline>'' @
               ''  <button type=\"button\" class=\"btn btn-secondary\" (click)=\"onCancel()\">Cancel</button>\<newline>'' @
               ''  <button type=\"button\" class=\"btn btn-primary\" (click)=\"onSave()\">Save</button>\<newline>'' @
               ''</div>'')]
       else template
         [lit ''<div class=\"'',
          interp_lower args ''name'',
          lit (''-container\">\<newline>'' @
               ''  <h3>''),
          interp args ''name'',
          lit (''</h3>\<newline>'' @
               ''  <!-- Add your content here -->\<newline>'' @
               ''</div>'')])"

definition generateBlazorTemplate :: "jsval \<Rightarrow> error + string" where
  "generateBlazorTemplate args =
     bind_res (member args ''type'') (\<lambda>type.
       if type = JStr ''modal''
       then template
         [lit (''<div class=\"modal-header\">\<newline>'' @
               ''    <h4 class=\"modal-title\">''),
          interp args ''name'',
          lit (''</h4>\<newline>'' @
               ''</div>\<newline>'' @
               ''<div class=\"modal-body\">\<newline>'' @
               ''    <!-- Add your content here -->\<newline>'' @
               ''</div>\<newline>'' @
               ''<div class=\"modal-footer\">\<newline>'' @
               ''    <button type=\"button\" class=\"btn btn-secondary\" @onclick=\"OnCancel\">Cancel</button>\<newline>'' @
               ''    <button type=\"button\" class=\"btn btn-primary\" @onclick=\"OnSave\">Save</button>\<newline>'' @
               ''</div>'')]
       else template
         [lit ''<div class=\"'',
          interp_lower args ''name'',
          lit (''-container\">\<newline>'' @
               ''    <h3>''),
          interp args ''name'',
          lit (''</h3>\<newline>'' @
               ''    <!-- Add your content here -->\<newline>'' @
               ''</div>'')])"

definition generateMvcTemplate :: "jsval \<Rightarrow> error + string" where
  "generateMvcTemplate args =
     bind_res (member args ''type'') (\<lambda>type.
       if type = JStr ''modal''
       then template
         [lit (''<div class=\"modal-header\">\<newline>'' @
               ''    <h4 class=\"modal-title\">''),
          interp args ''name'',
          lit (''</h4>\<newline>'' @
               ''</div>\<newline>'' @
               ''<div class=\"modal-body\">\<newline>'' @
               ''    <!-- Add your content here -->\<newline>'' @
               ''</div>\<newline>'' @
               ''<div class=\"modal-footer\">\<newline>'' @
               ''    <button type=\"button\" class=\"btn btn-secondary\" data-dismiss=\"modal\">Cancel</button>\<newline>'' @
               ''    <button type=\"button\" class=\"btn btn-primary\">Save</button>\<newline>'' @
               ''</div>'')]
       else template
         [lit ''<div class=\"'',
          interp_lower args ''name'',
          lit (''-container\">\<newline>'' @
               ''    <h3>''),
          interp args ''name'',
          lit (''</h3>\<newline>'' @
               ''    <!-- Add your content here -->\<newline>'' @
               ''</div>'')])"

definition generateAngularComponent :: "jsval \<Rightarrow> error + jsval" where
  "generateAngularComponent args =
     bind_res (member args ''properties'') (\<lambda>properties.
     let props = js_or properties (JArr []) in
     bind_res (js_map props (\<lambda>p. template
         [lit ''@Input() '',
          interp p ''name'',
          bind_res (member p ''required'') (\<lambda>required. Inr (if truthy required then '''' else ''?'')),
          lit '': '',
          interp p ''type'',
          lit '';''])) (\<lambda>lines.
     let inputs = join ''\<newline>  '' lines in
     object_of
       [(''typescript'', js_str (template
          [lit (''import { Component, Input } from '' @ [CHR 0x27] @ ''@angular/core'' @ [CHR 0x27] @ '';\<newline>'' @
                ''\<newline>'' @
                ''@Component({\<newline>'' @
                ''  selector: '' @ [CHR 0x27] @ ''app-''),
           interp_lower args ''name'',
           lit ([CHR 0x27] @ '',\<newline>'' @
                ''  templateUrl: '' @ [CHR 0x27] @ ''./''),
           interp_lower args ''name'',
           lit (''.component.html'' @ [CHR 0x27] @ '',\<newline>'' @
                ''  styleUrls: ['' @ [CHR 0x27] @ ''./''),
           interp_lower args ''name'',
           lit (''.component.scss'' @ [CHR 0x27] @ '']\<newline>'' @
                ''})\<newline>'' @
                ''export class ''),
           interp args ''name'',
           lit (''Component {\<newline>'' @
                ''  ''),
           lit inputs,
           lit (''\<newline>'' @
                ''  \<newline>'' @
                ''  constructor() { }\<newline>'' @
                ''  \<newline>'' @
                ''  ''),
           bind_res (member args ''type'') (\<lambda>type. Inr
             (if type = JStr ''modal''
              then (''\<newline>'' @
                    ''  onSave() {\<newline>'' @
                    ''    // Handle save logic\<newline>'' @
                    ''  }\<newline>'' @
                    ''  \<newline>'' @
                    ''  onCancel() {\<newline>'' @
                    ''    // Handle cancel logic\<newline>'' @
                    ''  }'')
              else '''')),
           lit (''\<newline>'' @
                ''}'')])),
        (''html'', bind_res (member args ''template'') (\<lambda>tpl.
           if truthy tpl then Inr tpl else js_str (generateAngularTemplate args))),
        (''scss'', js_str (template
          [lit ''/* '',
           interp args ''name'',
           lit ('' component styles */\<newline>'' @
                ''.''),
           interp_lower args ''name'',
           lit (''-container {\<newline>'' @
                ''  /* Add your styles here */\<newline>'' @
                ''}'')]))]))"

definition generateBlazorComponent :: "jsval \<Rightarrow> error + jsval" where
  "generateBlazorComponent args =
     bind_res (member args ''properties'') (\<lambda>properties.
     let props = js_or properties (JArr []) in
     bind_res (js_map props (\<lambda>p. template
         [lit ''[Parameter] public '',
          interp p ''type'',
          lit '' '',
          interp p ''name'',
          lit '' { get; set; }'',
          bind_res (member p ''defaultValue'') (\<lambda>defaultValue.
            if truthy defaultValue
            then template
              [lit '' = '',
               lit (JSON_stringify defaultValue),
               lit '';'']
            else Inr '''')])) (\<lambda>lines.
     let parameters = join ''\<newline>    '' lines in
     object_of
       [(''razor'', js_str (template
          [lit ''@* '',
           interp args ''name'',
           lit '' '',
           interp args ''type'',
           lit ('' component *@\<newline>'' @
                ''\<newline>''),
           (if parameters \<noteq> []
            then template
              [lit (''@code {\<newline>'' @
                    ''    ''),
               lit parameters,
               lit (''\<newline>'' @
                    ''}'')]
            else Inr ''''),
           lit (''\<newline>'' @
                ''\<newline>''),
           bind_res (member args ''template'') (\<lambda>tpl.
             if truthy tpl then to_String tpl else generateBlazorTemplate args)])),
        (''csharp'', bind_res (member args ''type'') (\<lambda>type.
           if type = JStr ''widget''
           then js_str (template
             [lit (''using Microsoft.AspNetCore.Mvc;\<newline>'' @
                   ''using Volo.Abp.AspNetCore.Mvc.UI.Widgets;\<newline>'' @
                   ''\<newline>'' @
                   ''namespace YourApp.Web.Components.''),
              interp args ''name'',
              lit (''\<newline>'' @
                   ''{\<newline>'' @
                   ''    [Widget(\<newline>'' @
                   ''        AutoInitialize = true,\<newline>'' @
                   ''        RefreshUrl = \"/Widgets/''),
              interp args ''name'',
              lit (''/Refresh\"\<newline>'' @
                   ''    )]\<newline>'' @
                   ''    public class ''),
              interp args ''name'',
              lit (''WidgetViewComponent : AbpViewComponent\<newline>'' @
                   ''    {\<newline>'' @
                   ''        public IViewComponentResult Invoke()\<newline>'' @
                   ''        {\<newline>'' @
                   ''            return View();\<newline>'' @
                   ''        }\<newline>'' @
                   ''    }\<newline>'' @
                   ''}'')])
           else Inr JNull))]))"

definition generateMvcComponent :: "jsval \<Rightarrow> error + jsval" where
  "generateMvcComponent args =
     object_of
       [(''csharp'', js_str (template
          [lit (''using Microsoft.AspNetCore.Mvc;\<newline>'' @
                ''using Volo.Abp.AspNetCore.Mvc;\<newline>'' @
                ''\<newline>'' @
                ''namespace YourApp.Web.Components.''),
           interp args ''name'',
           lit (''\<newline>'' @
                ''{\<newline>'' @
                ''    public class ''),
           interp args ''name'',
           lit (''ViewComponent : AbpViewComponent\<newline>'' @
                ''    {\<newline>'' @
                ''        public IViewComponentResult Invoke()\<newline>'' @
                ''        {\<newline>'' @
                ''            return View();\<newline>'' @
                ''        }\<newline>'' @
                ''    }\<newline>'' @
                ''}'')])),
        (''html'', bind_res (member args ''template'') (\<lambda>tpl.
           if truthy tpl then Inr tpl else js_str (generateMvcTemplate args))),
        (''css'', js_str (template
          [lit ''/* '',
           interp args ''name'',
           lit ('' component styles */\<newline>'' @
                ''.''),
           interp_lower args ''name'',
           lit (''-container {\<newline>'' @
                ''    /* Add your styles here */\<newline>'' @
                ''}'')]))]"

text \<open>
  \<^verbatim>\<open>generateStaticComponent\<close> builds the templates of all frameworks and picks the
  one named by \<^verbatim>\<open>args.framework\<close>, a key of the \<^verbatim>\<open>templates\<close> object once the
  arguments are validated.
\<close>

definition generateStaticComponent :: "jsval \<Rightarrow> error + jsval" where
  "generateStaticComponent args =
     bind_res (object_of
         [(''angular'', generateAngularComponent args),
          (''blazor'', generateBlazorComponent args),
          (''mvc'', generateMvcComponent args),
          (''blazor-server'', generateBlazorComponent args)]) (\<lambda>templates.
     object_of
       [(''success'', Inr (JBool True)),
        (''data'', object_of
           [(''name'', member args ''name''),
            (''type'', member args ''type''),
            (''framework'', member args ''framework''),
            (''code'', bind_res (interp args ''framework'') (\<lambda>key. member templates key)),
            (''properties'', bind_res (member args ''properties'') (\<lambda>properties.
               Inr (js_or properties (JArr []))))]),
        (''message'', js_str (template
           [lit ''Static '',
            interp args ''type'',
            lit '' component template generated for '',
            interp args ''framework''])),
        (''mode'', Inr (JStr ''static'')),
        (''usage'', Inr (JStr ''Copy this code to your project and customize as needed''))])"

definition generateAngularFormTemplate :: "jsval \<Rightarrow> error + string" where
  "generateAngularFormTemplate args =
     bind_res (member args ''fields'') (\<lambda>fields_arg.
     bind_res (js_map fields_arg (\<lambda>field.
       bind_res (member field ''type'') (\<lambda>type.
         if type = JStr ''select'' then template
           [lit (''<div class=\"form-group\">\<newline>'' @
                 ''  <label for=\"''),
            interp field ''name'',
            lit ''\">'',
            interp field ''label'',
            lit (''</label>\<newline>'' @
                 ''  <select id=\"''),
            interp field ''name'',
            lit ''\" formControlName=\"'',
            interp field ''name'',
            lit (''\" class=\"form-control\">\<newline>'' @
                 ''    ''),
            bind_res (member field ''options'') (\<lambda>options.
              if options = JUndefined \<or> options = JNull then Inr ''''
              else bind_res (js_map options (\<lambda>opt. template
                  [lit ''<option value=\"'',
                   interp opt ''value'',
                   lit ''\">'',
                   interp opt ''label'',
                   lit ''</option>''])) (\<lambda>opts.
                Inr (join ''\<newline>    '' opts))),
            lit (''\<newline>'' @
                 ''  </select>\<newline>'' @
                 ''</div>'')]
         else if type = JStr ''textarea'' then template
           [lit (''<div class=\"form-group\">\<newline>'' @
                 ''  <label for=\"''),
            interp field ''name'',
            lit ''\">'',
            interp field ''label'',
            lit (''</label>\<newline>'' @
                 ''  <textarea id=\"''),
            interp field ''name'',
            lit ''\" formControlName=\"'',
            interp field ''name'',
            lit (''\" class=\"form-control\" rows=\"3\"></textarea>\<newline>'' @
                 ''</div>'')]
         else if type = JStr ''checkbox'' then template
           [lit (''<div class=\"form-check\">\<newline>'' @
                 ''  <input type=\"checkbox\" id=\"''),
            interp field ''name'',
            lit ''\" formControlName=\"'',
            interp field ''name'',
            lit (''\" class=\"form-check-input\">\<newline>'' @
                 ''  <label for=\"''),
            interp field ''name'',
            lit ''\" class=\"form-check-label\">'',
            interp field ''label'',
            lit (''</label>\<newline>'' @
                 ''</div>'')]
         else template
           [lit (''<div class=\"form-group\">\<newline>'' @
                 ''  <label for=\"''),
            interp field ''name'',
            lit ''\">'',
            interp field ''label'',
            lit (''</label>\<newline>'' @
                 ''  <input type=\"''),
            interp field ''type'',
            lit ''\" id=\"'',
            interp field ''name'',
            lit ''\" formControlName=\"'',
            interp field ''name'',
            lit (''\" class=\"form-control\">\<newline>'' @
                 ''</div>'')]))) (\<lambda>blocks.
     let fields = join ''\<newline>'' blocks in
     template
       [lit ''<form [formGroup]=\"form\" (ngSubmit)=\"onSubmit()\" class=\"form-'',
        interp args ''layout'',
        lit (''\">\<newline>'' @
             ''  <h3>''),
        interp args ''name'',
        lit (''</h3>\<newline>'' @
             ''  \<newline>'' @
             ''  ''),
        lit fields,
        lit (''\<newline>'' @
             ''  \<newline>'' @
             ''  <div class=\"form-actions\">\<newline>'' @
             ''    <button type=\"submit\" class=\"btn btn-primary\" [disabled]=\"!form.valid\">Submit</button>\<newline>'' @
             ''    <button type=\"button\" class=\"btn btn-secondary\" (click)=\"onCancel()\">Cancel</button>\<newline>'' @
             ''  </div>\<newline>'' @
             ''</form>'')]))"

definition generateAngularForm :: "jsval \<Rightarrow> error + jsval" where
  "generateAngularForm args =
     bind_res (member args ''fields'') (\<lambda>fields_arg.
     bind_res (js_map fields_arg (\<lambda>field. template
         [interp field ''name'',
          lit ('': ['' @ [CHR 0x27]),
          bind_res (member field ''defaultValue'') (\<lambda>defaultValue.
            to_String (js_or defaultValue (JStr ''''))),
          lit ([CHR 0x27] @ '', ''),
          bind_res (member field ''required'') (\<lambda>required.
            Inr (if truthy required then ''Validators.required'' else '''')),
          lit '']''])) (\<lambda>controls.
     let formControls = join '',\<newline>      '' controls in
     object_of
       [(''typescript'', js_str (template
          [lit (''import { Component, OnInit } from '' @ [CHR 0x27] @ ''@angular/core'' @ [CHR 0x27] @ '';\<newline>'' @
                ''import { FormBuilder, FormGroup, Validators } from '' @ [CHR 0x27] @ ''@angular/forms'' @ [CHR 0x27] @ '';\<newline>'' @
                ''\<newline>'' @
                ''@Component({\<newline>'' @
                ''  selector: '' @ [CHR 0x27] @ ''app-''),
           interp_lower args ''name'',
           lit ([CHR 0x27] @ '',\<newline>'' @
                ''  templateUrl: '' @ [CHR 0x27] @ ''./''),
           interp_lower args ''name'',
           lit (''.component.html'' @ [CHR 0x27] @ ''\<newline>'' @
                ''})\<newline>'' @
                ''export class ''),
           interp args ''name'',
           lit (''Component implements OnInit {\<newline>'' @
                ''  form: FormGroup;\<newline>'' @
                ''\<newline>'' @
                ''  constructor(private fb: FormBuilder) {}\<newline>'' @
                ''\<newline>'' @
                ''  ngOnInit() {\<newline>'' @
                ''    this.form = this.fb.group({\<newline>'' @
                ''      ''),
           lit formControls,
           lit (''\<newline>'' @
                ''    });\<newline>'' @
                ''  }\<newline>'' @
                ''\<newline>'' @
                ''  onSubmit() {\<newline>'' @
                ''    if (this.form.valid) {\<newline>'' @
                ''      console.log('' @ [CHR 0x27] @ ''Form Data:'' @ [CHR 0x27] @ '', this.form.value);\<newline>'' @
                ''      // Handle form submission\<newline>'' @
                ''    }\<newline>'' @
                ''  }\<newline>'' @
                ''\<newline>'' @
                ''  onCancel() {\<newline>'' @
                ''    // Handle cancel\<newline>'' @
                ''  }\<newline>'' @
                ''}'')])),
        (''html'', js_str (generateAngularFormTemplate args))]))"

definition generateBlazorForm :: "jsval \<Rightarrow> error + jsval" where
  "generateBlazorForm args =
     js_str (template
       [lit ''<!-- Blazor form template for '',
        interp args ''name'',
        lit ('' -->\<newline>'' @
             ''<EditForm Model=\"model\" OnValidSubmit=\"OnSubmit\">\<newline>'' @
             ''    <DataAnnotationsValidator />\<newline>'' @
             ''    <ValidationSummary />\<newline>'' @
             ''    \<newline>'' @
             ''    <!-- Add form fields here -->\<newline>'' @
             ''    \<newline>'' @
             ''    <div class=\"form-actions\">\<newline>'' @
             ''        <button type=\"submit\" class=\"btn btn-primary\">Submit</button>\<newline>'' @
             ''        <button type=\"button\" class=\"btn btn-secondary\" @onclick=\"OnCancel\">Cancel</button>\<newline>'' @
             ''    </div>\<newline>'' @
             ''</EditForm>'')])"

definition generateMvcForm :: "jsval \<Rightarrow> error + jsval" where
  "generateMvcForm args =
     js_str (template
       [lit ''<!-- MVC form template for '',
        interp args ''name'',
        lit ('' -->\<newline>'' @
             ''@model YourApp.ViewModels.''),
        interp args ''name'',
        lit (''ViewModel\<newline>'' @
             ''\<newline>'' @
             ''<form asp-action=\"Create\" method=\"post\" class=\"form-''),
        interp args ''layout'',
        lit (''\">\<newline>'' @
             ''    <h3>''),
        interp args ''name'',
        lit (''</h3>\<newline>'' @
             ''    \<newline>'' @
             ''    <!-- Add form fields here -->\<newline>'' @
             ''    \<newline>'' @
             ''    <div class=\"form-actions\">\<newline>'' @
             ''        <button type=\"submit\" class=\"btn btn-primary\">Submit</button>\<newline>'' @
             ''        <a asp-action=\"Index\" class=\"btn btn-secondary\">Cancel</a>\<newline>'' @
             ''    </div>\<newline>'' @
             ''</form>'')])"

text \<open>
  \<^verbatim>\<open>generateStaticForm\<close> builds the form of every framework and returns the Angular
  one (\<^verbatim>\<open>templates.angular\<close>).
\<close>

definition generateStaticForm :: "jsval \<Rightarrow> error + jsval" where
  "generateStaticForm args =
     bind_res (object_of
         [(''angular'', generateAngularForm args),
          (''blazor'', generateBlazorForm args),
          (''mvc'', generateMvcForm args),
          (''blazor-server'', generateBlazorForm args)]) (\<lambda>templates.
     object_of
       [(''success'', Inr (JBool True)),
        (''data'', object_of
           [(''name'', member args ''name''),
            (''fields'', member args ''fields''),
            (''layout'', member args ''layout''),
            (''code'', member templates ''angular'')]),
        (''message'', js_str (template
           [lit ''Static form template generated for '',
            interp args ''name''])),
        (''mode'', Inr (JStr ''static'')),
        (''usage'', Inr (JStr ''Copy this code to your project and customize as needed''))])"

definition getStaticThemeInfo :: jsval where
  "getStaticThemeInfo =
    JObj
     [(''success'', JBool True),
      (''data'', JObj
         [(''availableThemes'', JArr
             [JObj
               [(''name'', JStr ''LeptonX''),
                (''description'', JStr ''Modern, professional theme with multiple layouts''),
                (''features'', JArr
                   [JStr ''Multiple layouts'',
                    JStr ''Dark/light mode'',
                    JStr ''RTL support'',
                    JStr ''Customizable colors'']),
                (''frameworks'', JArr [JStr ''Angular'', JStr ''Blazor'', JStr ''MVC'']),
                (''documentation'', JStr ''https://abp.io/docs/latest/ui-themes/leptonx'')],
              JObj
               [(''name'', JStr ''Basic''),
                (''description'', JStr ''Simple, clean theme for basic applications''),
                (''features'', JArr
                   [JStr ''Bootstrap based'',
                    JStr ''Responsive'',
                    JStr ''Clean design'',
                    JStr ''Easy to customize'']),
                (''frameworks'', JArr [JStr ''Angular'', JStr ''Blazor'', JStr ''MVC'']),
                (''documentation'', JStr ''https://abp.io/docs/latest/ui-themes/basic'')]]),
          (''customization'', JObj
             [(''colors'', JObj
                 [(''primary'', JStr ''#007bff''),
                  (''secondary'', JStr ''#6c757d''),
                  (''success'', JStr ''#28a745''),
                  (''info'', JStr ''#17a2b8''),
                  (''warning'', JStr ''#ffc107''),
                  (''danger'', JStr ''#dc3545'')]),
              (''variables'', JObj
                 [(''font-family'', JStr ''Roboto, sans-serif''),
                  (''border-radius'', JStr ''0.25rem''),
                  (''box-shadow'', JStr ''0 0.125rem 0.25rem rgba(0, 0, 0, 0.075)'')])])]),
      (''message'', JStr ''Static theme information (use API for applying themes to actual applications)''),
      (''mode'', JStr ''static'')]"

definition examples :: jsval where
  "examples =
    JObj
     [(''forms'', JObj
         [(''title'', JStr ''Form Examples''),
          (''examples'', JArr
             [JObj
               [(''name'', JStr ''Basic Form''),
                (''description'', JStr ''Simple form with validation''),
                (''code'', JStr ''Basic form template code here...'')],
              JObj
               [(''name'', JStr ''Dynamic Form''),
                (''description'', JStr ''Form with dynamic fields''),
                (''code'', JStr ''Dynamic form template code here...'')]])]),
      (''tables'', JObj
         [(''title'', JStr ''Table Examples''),
          (''examples'', JArr
             [JObj
               [(''name'', JStr ''Data Grid''),
                (''description'', JStr ''Sortable, filterable data table''),
                (''code'', JStr ''Data grid template code here...'')]])]),
      (''modals'', JObj
         [(''title'', JStr ''Modal Examples''),
          (''examples'', JArr
             [JObj
               [(''name'', JStr ''Confirmation Modal''),
                (''description'', JStr ''Simple confirmation dialog''),
                (''code'', JStr ''Modal template code here...'')]])])]"

text \<open>
  \<^verbatim>\<open>Object.values(examples).reduce((sum, cat) => sum + cat.examples.length, 0)\<close>.
\<close>

definition totalExamples :: "jsval \<Rightarrow> int" where
  "totalExamples catalogue =
     (case catalogue of
        JObj cats \<Rightarrow>
          fold (\<lambda>cat sum. sum + (case field (field cat ''examples'') ''length'' of
                                       JNum n \<Rightarrow> n | _ \<Rightarrow> 0))
               (map snd cats) 0
      | _ \<Rightarrow> 0)"

definition getUiExamples :: "jsval \<Rightarrow> jsval \<Rightarrow> error + jsval" where
  "getUiExamples framework category =
     (if category = JStr ''all''
      then object_of
        [(''success'', Inr (JBool True)),
         (''data'', Inr (JObj
            [(''framework'', framework),
             (''categories'', examples),
             (''totalExamples'', JNum (totalExamples examples))])),
         (''message'', js_str (template
            [lit ''UI examples for '',
             to_String framework,
             lit '' framework''])),
         (''mode'', Inr (JStr ''static''))]
      else object_of
        [(''success'', Inr (JBool True)),
         (''data'', object_of
            [(''framework'', Inr framework),
             (''category'', Inr category),
             (''examples'', bind_res (to_String category) (\<lambda>key.
                bind_res (member examples key) (\<lambda>found.
                  Inr (js_or found
                         (JObj [(''title'', JStr ''No examples found''), (''examples'', JArr [])])))))]),
         (''message'', js_str (template
            [to_String category,
             lit '' examples for '',
             to_String framework,
             lit '' framework''])),
         (''mode'', Inr (JStr ''static''))])"

section \<open>Tool handlers\<close>

text \<open>
  A \<^verbatim>\<open>ToolHandler\<close>: name, description, the JSON schema announced to the caller, and
  the function that runs the tool.
\<close>

record tool_handler =
  name :: string
  description :: string
  inputSchema :: jsval
  execute :: "jsval \<Rightarrow> jsval io"

type_synonym tool_handlers = "tool_handler js_object"

section \<open>The hybrid tools\<close>

text \<open>
  \<^verbatim>\<open>isInfoOnlyMode\<close>: \<^verbatim>\<open>!apiClient || !apiClient.config?.apiKey\<close>. The client may
  be missing, and an empty key is no key.
\<close>

definition isInfoOnlyMode :: "abp_api_client option \<Rightarrow> bool" where
  "isInfoOnlyMode apiClient =
     (case apiClient of None \<Rightarrow> True | Some c \<Rightarrow> apiKey (config c) = [])"

text \<open>A method call on the client, which throws when there is no client.\<close>

definition with_client :: "abp_api_client option \<Rightarrow> (abp_api_client \<Rightarrow> 'a io) \<Rightarrow> 'a io" where
  "with_client apiClient call =
     (case apiClient of
        None \<Rightarrow> throw_io (TypeError ''Cannot read properties of null'')
      | Some c \<Rightarrow> call c)"

text \<open>
  The own enumerable properties that an object spread \<^verbatim>\<open>{...v}\<close> copies, and the
  literal \<^verbatim>\<open>{...v, k: x}\<close>.
\<close>

fun own_properties :: "jsval \<Rightarrow> (string \<times> jsval) list" where
  "own_properties (JObj kvs) = kvs"
| "own_properties (JArr xs) = map (\<lambda>(i, x). (show_nat i, x)) (enumerate 0 xs)"
| "own_properties (JStr s) = map (\<lambda>(i, c). (show_nat i, JStr [c])) (enumerate 0 s)"
| "own_properties v = []"

definition spread_with :: "jsval \<Rightarrow> string \<Rightarrow> jsval \<Rightarrow> jsval" where
  "spread_with v k x = JObj (AList.update k x (own_properties v))"

definition hybrid_generate_component_schema :: zod where
  "hybrid_generate_component_schema =
     ZObject
      [(''name'', ZString),
       (''type'', ZEnum [''widget'', ''modal'', ''partial'', ''directive'', ''pipe'']),
       (''framework'', ZEnum [''mvc'', ''angular'', ''blazor'', ''blazor-server'']),
       (''properties'', ZOptional (ZArray (ZObject
          [(''name'', ZString),
           (''type'', ZString),
           (''required'', ZDefault ZBoolean (JBool False)),
           (''defaultValue'', ZOptional ZAny)]))),
       (''template'', ZOptional ZString)]"

definition form_field_schema :: zod where
  "form_field_schema =
     ZObject
      [(''name'', ZString),
       (''type'', ZEnum [''text'', ''email'', ''password'', ''number'', ''date'', ''datetime'',
                        ''select'', ''multiselect'', ''checkbox'', ''textarea'', ''file'']),
       (''label'', ZString),
       (''required'', ZOptional ZBoolean),
       (''validation'', ZOptional (ZObject
          [(''minLength'', ZOptional ZNumber),
           (''maxLength'', ZOptional ZNumber),
           (''pattern'', ZOptional ZString),
           (''min'', ZOptional ZNumber),
           (''max'', ZOptional ZNumber)])),
       (''options'', ZOptional (ZArray (ZObject
          [(''value'', ZAny),
           (''label'', ZString)]))),
       (''defaultValue'', ZOptional ZAny)]"

definition hybrid_generate_form_schema :: zod where
  "hybrid_generate_form_schema =
     ZObject
      [(''name'', ZString),
       (''fields'', ZArray form_field_schema),
       (''layout'', ZDefault (ZEnum [''horizontal'', ''vertical'', ''inline'']) (JStr ''vertical'')),
       (''submitAction'', ZOptional ZString),
       (''cancelAction'', ZOptional ZString),
       (''entityId'', ZOptional ZString)]"

definition get_ui_examples_schema :: zod where
  "get_ui_examples_schema =
     ZObject
      [(''framework'',
          ZDefault (ZEnum [''mvc'', ''angular'', ''blazor'', ''blazor-server'', ''all'']) (JStr ''all'')),
       (''category'',
          ZDefault (ZEnum [''forms'', ''tables'', ''modals'', ''widgets'', ''navigation'', ''all''])
                   (JStr ''all''))]"

text \<open>A destructuring default, \<^verbatim>\<open>const { k = d } = v\<close>.\<close>

definition or_default :: "jsval \<Rightarrow> jsval \<Rightarrow> jsval" where
  "or_default v d = (if v = JUndefined then d else v)"

definition hybrid_generate_component_execute :: "abp_api_client option \<Rightarrow> jsval \<Rightarrow> jsval io" where
  "hybrid_generate_component_execute apiClient args =
     bind_io (lift_io (parse hybrid_generate_component_schema args)) (\<lambda>validatedArgs.
       if isInfoOnlyMode apiClient
       then lift_io (generateStaticComponent validatedArgs)
       else try_catch
         (bind_io (with_client apiClient (\<lambda>c. generateComponent c validatedArgs)) (\<lambda>result.
            lift_io (object_of
              [(''success'', Inr (JBool True)),
               (''data'', Inr result),
               (''message'', js_str (template
                  [interp validatedArgs ''type'',
                   lit ('' component '' @ [CHR 0x27]),
                   interp validatedArgs ''name'',
                   lit ([CHR 0x27] @ '' generated successfully via API'')])),
               (''mode'', Inr (JStr ''api''))])))
         (\<lambda>error.
            bind_io (lift_io (generateStaticComponent validatedArgs)) (\<lambda>staticResult.
              return_io (spread_with staticResult ''warning''
                (JStr ''API call failed, generated static template instead'')))))"

definition hybrid_get_themes_execute :: "abp_api_client option \<Rightarrow> jsval \<Rightarrow> jsval io" where
  "hybrid_get_themes_execute apiClient args =
     (if isInfoOnlyMode apiClient
      then return_io getStaticThemeInfo
      else try_catch
        (bind_io (with_client apiClient getThemes) (\<lambda>themes.
           lift_io (object_of
             [(''success'', Inr (JBool True)),
              (''data'', Inr themes),
              (''count'', member themes ''length''),
              (''mode'', Inr (JStr ''api''))])))
        (\<lambda>error.
           return_io (spread_with getStaticThemeInfo ''warning''
             (JStr ''API call failed, showing static theme information instead''))))"

definition hybrid_generate_form_execute :: "abp_api_client option \<Rightarrow> jsval \<Rightarrow> jsval io" where
  "hybrid_generate_form_execute apiClient args =
     bind_io (lift_io (parse hybrid_generate_form_schema args)) (\<lambda>validatedArgs.
       if isInfoOnlyMode apiClient
       then lift_io (generateStaticForm validatedArgs)
       else try_catch
         (bind_io (with_client apiClient (\<lambda>c. generateForm c validatedArgs)) (\<lambda>result.
            lift_io (object_of
              [(''success'', Inr (JBool True)),
               (''data'', Inr result),
               (''message'', js_str (template
                  [lit (''Form '' @ [CHR 0x27]),
                   interp validatedArgs ''name'',
                   lit ([CHR 0x27] @ '' generated successfully via API'')])),
               (''mode'', Inr (JStr ''api''))])))
         (\<lambda>error.
            bind_io (lift_io (generateStaticForm validatedArgs)) (\<lambda>staticResult.
              return_io (spread_with staticResult ''warning''
                (JStr ''API call failed, generated static template instead'')))))"

definition hybrid_get_ui_examples_execute :: "jsval \<Rightarrow> jsval io" where
  "hybrid_get_ui_examples_execute args =
     bind_io (lift_io (parse get_ui_examples_schema args)) (\<lambda>validatedArgs.
     bind_io (lift_io (member validatedArgs ''framework'')) (\<lambda>framework.
     bind_io (lift_io (member validatedArgs ''category'')) (\<lambda>category.
       lift_io (getUiExamples (or_default framework (JStr ''all''))
                              (or_default category (JStr ''all''))))))"

definition hybrid_generate_component_inputSchema :: jsval where
  "hybrid_generate_component_inputSchema =
    JObj
     [(''type'', JStr ''object''),
      (''properties'', JObj
         [(''name'', JObj
             [(''type'', JStr ''string''),
              (''description'', JStr ''The component name'')]),
          (''type'', JObj
             [(''type'', JStr ''string''),
              (''description'', JStr ''The component type''),
              (''enum'', JArr
                 [JStr ''widget'',
                  JStr ''modal'',
                  JStr ''partial'',
                  JStr ''directive'',
                  JStr ''pipe''])]),
          (''framework'', JObj
             [(''type'', JStr ''string''),
              (''description'', JStr ''The UI framework''),
              (''enum'', JArr
                 [JStr ''mvc'',
                  JStr ''angular'',
                  JStr ''blazor'',
                  JStr ''blazor-server''])]),
          (''properties'', JObj
             [(''type'', JStr ''array''),
              (''description'', JStr ''Component properties/inputs''),
              (''items'', JObj
                 [(''type'', JStr ''object''),
                  (''properties'', JObj
                     [(''name'', JObj [(''type'', JStr ''string'')]),
                      (''type'', JObj [(''type'', JStr ''string'')]),
                      (''required'', JObj [(''type'', JStr ''boolean'')]),
                      (''defaultValue'', JObj [])]),
                  (''required'', JArr [JStr ''name'', JStr ''type''])])]),
          (''template'', JObj
             [(''type'', JStr ''string''),
              (''description'', JStr ''Custom template/HTML for the component'')])]),
      (''required'', JArr [JStr ''name'', JStr ''type'', JStr ''framework''])]"

definition hybrid_generate_form_inputSchema :: jsval where
  "hybrid_generate_form_inputSchema =
    JObj
     [(''type'', JStr ''object''),
      (''properties'', JObj
         [(''name'', JObj
             [(''type'', JStr ''string''),
              (''description'', JStr ''The form name'')]),
          (''fields'', JObj
             [(''type'', JStr ''array''),
              (''description'', JStr ''Form fields''),
              (''items'', JObj
                 [(''type'', JStr ''object''),
                  (''properties'', JObj
                     [(''name'', JObj [(''type'', JStr ''string'')]),
                      (''type'', JObj
                         [(''type'', JStr ''string''),
                          (''enum'', JArr
                             [JStr ''text'',
                              JStr ''email'',
                              JStr ''password'',
                              JStr ''number'',
                              JStr ''date'',
                              JStr ''datetime'',
                              JStr ''select'',
                              JStr ''multiselect'',
                              JStr ''checkbox'',
                              JStr ''textarea'',
                              JStr ''file''])]),
                      (''label'', JObj [(''type'', JStr ''string'')]),
                      (''required'', JObj [(''type'', JStr ''boolean''), (''default'', JBool False)]),
                      (''validation'', JObj
                         [(''type'', JStr ''object''),
                          (''properties'', JObj
                             [(''minLength'', JObj [(''type'', JStr ''number'')]),
                              (''maxLength'', JObj [(''type'', JStr ''number'')]),
                              (''pattern'', JObj [(''type'', JStr ''string'')]),
                              (''min'', JObj [(''type'', JStr ''number'')]),
                              (''max'', JObj [(''type'', JStr ''number'')])])]),
                      (''options'', JObj
                         [(''type'', JStr ''array''),
                          (''items'', JObj
                             [(''type'', JStr ''object''),
                              (''properties'', JObj
                                 [(''value'', JObj []),
                                  (''label'', JObj [(''type'', JStr ''string'')])]),
                              (''required'', JArr [JStr ''value'', JStr ''label''])])]),
                      (''defaultValue'', JObj [])]),
                  (''required'', JArr [JStr ''name'', JStr ''type'', JStr ''label''])])]),
          (''layout'', JObj
             [(''type'', JStr ''string''),
              (''description'', JStr ''Form layout''),
              (''enum'', JArr [JStr ''horizontal'', JStr ''vertical'', JStr ''inline'']),
              (''default'', JStr ''vertical'')]),
          (''submitAction'', JObj
             [(''type'', JStr ''string''),
              (''description'', JStr ''Submit action URL or method name'')]),
          (''cancelAction'', JObj
             [(''type'', JStr ''string''),
              (''description'', JStr ''Cancel action URL or method name'')]),
          (''entityId'', JObj
             [(''type'', JStr ''string''),
              (''description'', JStr ''Related entity ID (optional)'')])]),
      (''required'', JArr [JStr ''name'', JStr ''fields''])]"

definition get_ui_examples_inputSchema :: jsval where
  "get_ui_examples_inputSchema =
    JObj
     [(''type'', JStr ''object''),
      (''properties'', JObj
         [(''framework'', JObj
             [(''type'', JStr ''string''),
              (''description'', JStr ''UI framework''),
              (''enum'', JArr
                 [JStr ''mvc'',
                  JStr ''angular'',
                  JStr ''blazor'',
                  JStr ''blazor-server'',
                  JStr ''all'']),
              (''default'', JStr ''all'')]),
          (''category'', JObj
             [(''type'', JStr ''string''),
              (''description'', JStr ''Example category''),
              (''enum'', JArr
                 [JStr ''forms'',
                  JStr ''tables'',
                  JStr ''modals'',
                  JStr ''widgets'',
                  JStr ''navigation'',
                  JStr ''all'']),
              (''default'', JStr ''all'')])]),
      (''required'', JArr [])]"

definition no_arguments_inputSchema :: jsval where
  "no_arguments_inputSchema =
    JObj
     [(''type'', JStr ''object''),
      (''properties'', JObj []),
      (''required'', JArr [])]"

definition hybridUiTools :: "abp_api_client option \<Rightarrow> tool_handlers" where
  "hybridUiTools apiClient =
     [(''abp_generate_component'',
        \<lparr>name = ''abp_generate_component'',
         description = ''Generate reusable UI components (widgets, modals, partials, directives, pipes) - Works in info-only mode with static templates'',
         inputSchema = hybrid_generate_component_inputSchema,
         execute = hybrid_generate_component_execute apiClient\<rparr>),
      (''abp_get_themes'',
        \<lparr>name = ''abp_get_themes'',
         description = ''Get available ABP themes - Works in info-only mode with theme information'',
         inputSchema = no_arguments_inputSchema,
         execute = hybrid_get_themes_execute apiClient\<rparr>),
      (''abp_generate_form'',
        \<lparr>name = ''abp_generate_form'',
         description = ''Generate complex forms with validation - Works in info-only mode with static templates'',
         inputSchema = hybrid_generate_form_inputSchema,
         execute = hybrid_generate_form_execute apiClient\<rparr>),
      (''abp_get_ui_examples'',
        \<lparr>name = ''abp_get_ui_examples'',
         description = ''Get UI code examples and snippets for different frameworks'',
         inputSchema = get_ui_examples_inputSchema,
         execute = hybrid_get_ui_examples_execute\<rparr>)]"

section \<open>The tool groups of the registry\<close>

text \<open>
  The registry is put together from nine groups. The handlers that the properties below
  inspect are modelled in full: the three tools of \<^verbatim>\<open>uiTools\<close> that share their
  names with hybrid tools, and \<^verbatim>\<open>abp_grant_permission\<close>. Every other handler is
  listed under its name, in the order of the source; what it does is left open: it is
  \<open>others n\<close>, for an arbitrary function \<open>others\<close> from tool names to handlers, so
  that whatever is proved holds for every behaviour of those handlers.
\<close>

definition declared :: "(string \<Rightarrow> tool_handler) \<Rightarrow> string \<Rightarrow> string \<times> tool_handler" where
  "declared others n = (n, (others n)\<lparr>name := n\<rparr>)"

definition ui_get_themes_execute :: "abp_api_client \<Rightarrow> jsval \<Rightarrow> jsval io" where
  "ui_get_themes_execute apiClient args =
     bind_io (getThemes apiClient) (\<lambda>themes.
       lift_io (object_of
         [(''success'', Inr (JBool True)),
          (''data'', Inr themes),
          (''count'', member themes ''length'')]))"

definition ui_generate_component_schema :: zod where
  "ui_generate_component_schema =
     ZObject
      [(''name'', ZString),
       (''type'', ZEnum [''widget'', ''modal'', ''partial'', ''directive'', ''pipe'']),
       (''framework'', ZEnum [''mvc'', ''angular'', ''blazor'', ''blazor-server'']),
       (''properties'', ZOptional (ZArray (ZObject
          [(''name'', ZString),
           (''type'', ZString),
           (''required'', ZOptional ZBoolean),
           (''defaultValue'', ZOptional ZAny)]))),
       (''template'', ZOptional ZString)]"

definition ui_generate_component_execute :: "abp_api_client \<Rightarrow> jsval \<Rightarrow> jsval io" where
  "ui_generate_component_execute apiClient args =
     bind_io (lift_io (parse ui_generate_component_schema args)) (\<lambda>validatedArgs.
     bind_io (generateComponent apiClient validatedArgs) (\<lambda>result.
       lift_io (object_of
         [(''success'', Inr (JBool True)),
          (''data'', Inr result),
          (''message'', js_str (template
             [interp validatedArgs ''type'',
              lit ('' component '' @ [CHR 0x27]),
              interp validatedArgs ''name'',
              lit ([CHR 0x27] @ '' generated successfully'')]))])))"

definition ui_generate_form_schema :: zod where
  "ui_generate_form_schema =
     ZObject
      [(''name'', ZString),
       (''entityId'', ZOptional ZString),
       (''fields'', ZArray form_field_schema),
       (''layout'', ZDefault (ZEnum [''horizontal'', ''vertical'', ''inline'']) (JStr ''vertical'')),
       (''submitAction'', ZOptional ZString),
       (''cancelAction'', ZOptional ZString)]"

definition ui_generate_form_execute :: "abp_api_client \<Rightarrow> jsval \<Rightarrow> jsval io" where
  "ui_generate_form_execute apiClient args =
     bind_io (lift_io (parse ui_generate_form_schema args)) (\<lambda>validatedArgs.
     bind_io (generateForm apiClient validatedArgs) (\<lambda>result.
       lift_io (object_of
         [(''success'', Inr (JBool True)),
          (''data'', Inr result),
          (''message'', js_str (template
             [lit (''Form '' @ [CHR 0x27]),
              interp validatedArgs ''name'',
              lit ([CHR 0x27] @ '' generated successfully with ''),
              bind_res (member validatedArgs ''fields'') (\<lambda>fields. interp fields ''length''),
              lit '' fields'']))])))"

definition ui_generate_component_inputSchema :: jsval where
  "ui_generate_component_inputSchema =
    JObj
     [(''type'', JStr ''object''),
      (''properties'', JObj
         [(''name'', JObj
             [(''type'', JStr ''string''),
              (''description'', JStr ''The component name'')]),
          (''type'', JObj
             [(''type'', JStr ''string''),
              (''description'', JStr ''The component type''),
              (''enum'', JArr
                 [JStr ''widget'',
                  JStr ''modal'',
                  JStr ''partial'',
                  JStr ''directive'',
                  JStr ''pipe''])]),
          (''framework'', JObj
             [(''type'', JStr ''string''),
              (''description'', JStr ''The UI framework''),
              (''enum'', JArr
                 [JStr ''mvc'',
                  JStr ''angular'',
                  JStr ''blazor'',
                  JStr ''blazor-server''])]),
          (''properties'', JObj
             [(''type'', JStr ''array''),
              (''description'', JStr ''Component properties/inputs''),
              (''items'', JObj
                 [(''type'', JStr ''object''),
                  (''properties'', JObj
                     [(''name'', JObj [(''type'', JStr ''string'')]),
                      (''type'', JObj [(''type'', JStr ''string'')]),
                      (''required'', JObj [(''type'', JStr ''boolean'')]),
                      (''defaultValue'', JObj [])]),
                  (''required'', JArr [JStr ''name'', JStr ''type''])])]),
          (''template'', JObj
             [(''type'', JStr ''string''),
              (''description'', JStr ''Custom template/HTML for the component'')])]),
      (''required'', JArr [JStr ''name'', JStr ''type'', JStr ''framework''])]"

definition ui_generate_form_inputSchema :: jsval where
  "ui_generate_form_inputSchema =
    JObj
     [(''type'', JStr ''object''),
      (''properties'', JObj
         [(''name'', JObj
             [(''type'', JStr ''string''),
              (''description'', JStr ''The form name'')]),
          (''entityId'', JObj
             [(''type'', JStr ''string''),
              (''description'', JStr ''Related entity ID (optional)'')]),
          (''fields'', JObj
             [(''type'', JStr ''array''),
              (''description'', JStr ''Form fields''),
              (''items'', JObj
                 [(''type'', JStr ''object''),
                  (''properties'', JObj
                     [(''name'', JObj [(''type'', JStr ''string'')]),
                      (''type'', JObj
                         [(''type'', JStr ''string''),
                          (''enum'', JArr
                             [JStr ''text'',
                              JStr ''email'',
                              JStr ''password'',
                              JStr ''number'',
                              JStr ''date'',
                              JStr ''datetime'',
                              JStr ''select'',
                              JStr ''multiselect'',
                              JStr ''checkbox'',
                              JStr ''textarea'',
                              JStr ''file''])]),
                      (''label'', JObj [(''type'', JStr ''string'')]),
                      (''required'', JObj [(''type'', JStr ''boolean'')]),
                      (''validation'', JObj
                         [(''type'', JStr ''object''),
                          (''properties'', JObj
                             [(''minLength'', JObj [(''type'', JStr ''number'')]),
                              (''maxLength'', JObj [(''type'', JStr ''number'')]),
                              (''pattern'', JObj [(''type'', JStr ''string'')]),
                              (''min'', JObj [(''type'', JStr ''number'')]),
                              (''max'', JObj [(''type'', JStr ''number'')])])]),
                      (''options'', JObj
                         [(''type'', JStr ''array''),
                          (''items'', JObj
                             [(''type'', JStr ''object''),
                              (''properties'', JObj
                                 [(''value'', JObj []),
                                  (''label'', JObj [(''type'', JStr ''string'')])]),
                              (''required'', JArr [JStr ''value'', JStr ''label''])])]),
                      (''defaultValue'', JObj [])]),
                  (''required'', JArr [JStr ''name'', JStr ''type'', JStr ''label''])])]),
          (''layout'', JObj
             [(''type'', JStr ''string''),
              (''description'', JStr ''Form layout''),
              (''enum'', JArr [JStr ''horizontal'', JStr ''vertical'', JStr ''inline'']),
              (''default'', JStr ''vertical'')]),
          (''submitAction'', JObj
             [(''type'', JStr ''string''),
              (''description'', JStr ''Submit action URL or method name'')]),
          (''cancelAction'', JObj
             [(''type'', JStr ''string''),
              (''description'', JStr ''Cancel action URL or method name'')])]),
      (''required'', JArr [JStr ''name'', JStr ''fields''])]"

definition uiTools :: "(string \<Rightarrow> tool_handler) \<Rightarrow> abp_api_client \<Rightarrow> tool_handlers" where
  "uiTools others apiClient =
     [declared others ''abp_generate_page'',
      (''abp_get_themes'',
        \<lparr>name = ''abp_get_themes'',
         description = ''Get all available ABP themes'',
         inputSchema = no_arguments_inputSchema,
         execute = ui_get_themes_execute apiClient\<rparr>),
      declared others ''abp_get_theme'',
      declared others ''abp_apply_theme'',
      (''abp_generate_component'',
        \<lparr>name = ''abp_generate_component'',
         description = ''Generate reusable UI components (widgets, modals, partials, directives, pipes)'',
         inputSchema = ui_generate_component_inputSchema,
         execute = ui_generate_component_execute apiClient\<rparr>),
      declared others ''abp_get_layouts'',
      declared others ''abp_get_layout'',
      declared others ''abp_update_layout'',
      declared others ''abp_get_menus'',
      declared others ''abp_get_menu'',
      declared others ''abp_add_menu_item'',
      declared others ''abp_remove_menu_item'',
      declared others ''abp_get_widgets'',
      declared others ''abp_get_widget'',
      declared others ''abp_create_widget'',
      declared others ''abp_update_widget'',
      declared others ''abp_delete_widget'',
      (''abp_generate_form'',
        \<lparr>name = ''abp_generate_form'',
         description = ''Generate complex forms with validation'',
         inputSchema = ui_generate_form_inputSchema,
         execute = ui_generate_form_execute apiClient\<rparr>),
      declared others ''abp_get_localization_resources'',
      declared others ''abp_get_localization_resource'',
      declared others ''abp_update_localization_text'',
      declared others ''abp_get_supported_cultures'']"

definition grant_permission_schema :: zod where
  "grant_permission_schema =
     ZObject
      [(''providerName'', ZEnum [''R'', ''U'']),
       (''providerKey'', ZString),
       (''permissionName'', ZString)]"

definition abp_grant_permission_execute :: "abp_api_client \<Rightarrow> jsval \<Rightarrow> jsval io" where
  "abp_grant_permission_execute apiClient args =
     bind_io (lift_io (parse grant_permission_schema args)) (\<lambda>validated.
     bind_io (lift_io (member validated ''providerName'')) (\<lambda>providerName.
     bind_io (lift_io (member validated ''providerKey'')) (\<lambda>providerKey.
     bind_io (lift_io (member validated ''permissionName'')) (\<lambda>permissionName.
     bind_io (grantPermission apiClient providerName providerKey permissionName) (\<lambda>done.
       lift_io (object_of
         [(''success'', Inr (JBool True)),
          (''message'', js_str (template
             [lit (''Permission '' @ [CHR 0x27]),
              to_String permissionName,
              lit ([CHR 0x27] @ '' granted to ''),
              lit (if providerName = JStr ''R'' then ''role'' else ''user''),
              lit ('' '' @ [CHR 0x27]),
              to_String providerKey,
              lit [CHR 0x27]]))]))))))"

definition grant_permission_inputSchema :: jsval where
  "grant_permission_inputSchema =
    JObj
     [(''type'', JStr ''object''),
      (''properties'', JObj
         [(''providerName'', JObj
             [(''type'', JStr ''string''),
              (''description'', JStr ''Permission provider name (\"R\" for role, \"U\" for user)''),
              (''enum'', JArr [JStr ''R'', JStr ''U''])]),
          (''providerKey'', JObj
             [(''type'', JStr ''string''),
              (''description'', JStr ''Provider key (role name or user ID)'')]),
          (''permissionName'', JObj
             [(''type'', JStr ''string''),
              (''description'', JStr ''The permission name to grant'')])]),
      (''required'', JArr [JStr ''providerName'', JStr ''providerKey'', JStr ''permissionName''])]"

definition permissionTools :: "(string \<Rightarrow> tool_handler) \<Rightarrow> abp_api_client \<Rightarrow> tool_handlers" where
  "permissionTools others apiClient =
     [declared others ''abp_get_permissions'',
      declared others ''abp_get_permissions_by_group'',
      (''abp_grant_permission'',
        \<lparr>name = ''abp_grant_permission'',
         description = ''Grant a permission to a user or role'',
         inputSchema = grant_permission_inputSchema,
         execute = abp_grant_permission_execute apiClient\<rparr>),
      declared others ''abp_revoke_permission'']"

definition applicationTools :: "(string \<Rightarrow> tool_handler) \<Rightarrow> abp_api_client \<Rightarrow> tool_handlers" where
  "applicationTools others apiClient =
     map (declared others)
       [''abp_get_applications'', ''abp_get_application'', ''abp_create_application'',
        ''abp_update_application'', ''abp_delete_application'']"

definition moduleTools :: "(string \<Rightarrow> tool_handler) \<Rightarrow> abp_api_client \<Rightarrow> tool_handlers" where
  "moduleTools others apiClient =
     map (declared others)
       [''abp_get_modules'', ''abp_get_module'', ''abp_install_module'',
        ''abp_uninstall_module'', ''abp_get_popular_modules'']"

definition entityTools :: "(string \<Rightarrow> tool_handler) \<Rightarrow> abp_api_client \<Rightarrow> tool_handlers" where
  "entityTools others apiClient =
     map (declared others)
       [''abp_get_entities'', ''abp_get_entity'', ''abp_create_entity'', ''abp_generate_crud'']"

definition userTools :: "(string \<Rightarrow> tool_handler) \<Rightarrow> abp_api_client \<Rightarrow> tool_handlers" where
  "userTools others apiClient =
     map (declared others)
       [''abp_get_users'', ''abp_get_user'', ''abp_create_user'', ''abp_update_user'',
        ''abp_delete_user'']"

definition tenantTools :: "(string \<Rightarrow> tool_handler) \<Rightarrow> abp_api_client \<Rightarrow> tool_handlers" where
  "tenantTools others apiClient =
     map (declared others)
       [''abp_get_tenants'', ''abp_get_tenant'', ''abp_create_tenant'', ''abp_update_tenant'',
        ''abp_delete_tenant'']"

definition auditTools :: "(string \<Rightarrow> tool_handler) \<Rightarrow> abp_api_client \<Rightarrow> tool_handlers" where
  "auditTools others apiClient =
     map (declared others)
       [''abp_get_audit_logs'', ''abp_get_audit_log'', ''abp_get_audit_summary'']"

definition backgroundJobTools :: "(string \<Rightarrow> tool_handler) \<Rightarrow> abp_api_client \<Rightarrow> tool_handlers" where
  "backgroundJobTools others apiClient =
     map (declared others)
       [''abp_get_background_jobs'', ''abp_get_background_job'', ''abp_enqueue_background_job'',
        ''abp_delete_background_job'', ''abp_get_common_job_types'']"


definition tool_groups :: "(string \<Rightarrow> tool_handler) \<Rightarrow> abp_api_client \<Rightarrow> tool_handlers list" where
  "tool_groups others apiClient =
     [applicationTools others apiClient,
      moduleTools others apiClient,
      entityTools others apiClient,
      userTools others apiClient,
      tenantTools others apiClient,
      permissionTools others apiClient,
      auditTools others apiClient,
      backgroundJobTools others apiClient,
      uiTools others apiClient]"

definition abpTools :: "(string \<Rightarrow> tool_handler) \<Rightarrow> abp_api_client \<Rightarrow> tool_handlers" where
  "abpTools others apiClient = object_spread (tool_groups others apiClient)"

section \<open>The dispatch of a tool call\<close>

text \<open>
  The command-line options: \<^verbatim>\<open>--api-key\<close> may be missing, \<^verbatim>\<open>--base-url\<close> has a
  default, the two flags are set or not.
\<close>

record options =
  optApiKey :: "string option"
  optBaseUrl :: string
  infoOnlyMode :: bool
  stdio :: bool

text \<open>
  The result of a tool call: text items and the optional \<^verbatim>\<open>isError\<close> mark. A text
  is literal, or the serialisation \<^verbatim>\<open>JSON.stringify(result, null, 2)\<close> of a tool
  result, or \<^verbatim>\<open>Error: \<close> followed by the message of the error caught.
\<close>

datatype result_text = Literal string | Stringified jsval | ErrorMessage error

datatype content = TextContent result_text

record call_tool_result =
  content :: "content list"
  isError :: "bool option"

text \<open>
  Reading \<^verbatim>\<open>toolHandlers[name]\<close> follows the prototype chain: a name that is not a
  key of the object itself but a property of \<^verbatim>\<open>Object.prototype\<close> yields that
  built-in value, which is a function or an object and hence truthy; any other name yields
  \<^verbatim>\<open>undefined\<close>.
\<close>

definition object_prototype_names :: "string list" where
  "object_prototype_names =
     [''constructor'', ''__defineGetter__'', ''__defineSetter__'', ''hasOwnProperty'',
      ''__lookupGetter__'', ''__lookupSetter__'', ''isPrototypeOf'', ''propertyIsEnumerable'',
      ''toString'', ''valueOf'', ''__proto__'', ''toLocaleString'']"

datatype 'v property = Own 'v | Inherited string | Absent

definition get_property :: "'v js_object \<Rightarrow> string \<Rightarrow> 'v property" where
  "get_property obj k =
     (case map_of obj k of
        Some v \<Rightarrow> Own v
      | None \<Rightarrow> if k \<in> set object_prototype_names then Inherited k else Absent)"

text \<open>
  The handler of \<^verbatim>\<open>CallToolRequestSchema\<close>, for the request
  \<^verbatim>\<open>{ name, arguments: args }\<close> and the operative tool set. A built-in value found
  under \<open>name\<close> has no \<^verbatim>\<open>execute\<close> property, and calling it throws inside the
  \<^verbatim>\<open>try\<close> block.
\<close>

definition credential_required :: call_tool_result where
  "credential_required =
     \<lparr>content = [TextContent (Literal ''Error: ABP.IO API key is required. Please configure --api-key parameter or use --info-only-mode for informational tools only.'')],
      isError = Some True\<rparr>"

definition call_tool :: "options \<Rightarrow> tool_handlers \<Rightarrow> string \<Rightarrow> jsval \<Rightarrow> call_tool_result io" where
  "call_tool opts handlers nm args =
     (case get_property handlers nm of
        Absent \<Rightarrow> throw_io (Error (''Unknown tool: '' @ nm))
      | handler \<Rightarrow>
          if \<not> infoOnlyMode opts \<and> (optApiKey opts = None \<or> optApiKey opts = Some [])
          then return_io credential_required
          else try_catch
            (bind_io
               (case handler of
                  Own h \<Rightarrow> execute h (js_or args (JObj []))
                | _ \<Rightarrow> throw_io (TypeError ''handler.execute is not a function''))
               (\<lambda>result. return_io \<lparr>content = [TextContent (Stringified result)], isError = None\<rparr>))
            (\<lambda>error. return_io \<lparr>content = [TextContent (ErrorMessage error)], isError = Some True\<rparr>))"

text \<open>
  The wiring of \<^verbatim>\<open>main\<close>: the API client is built from the options (with the network
  behind it), the registry from the client, the operative tool set from the registry and
  the mode.
\<close>

definition main_apiClient :: "options \<Rightarrow> (http_request \<Rightarrow> error + jsval) \<Rightarrow> abp_api_client" where
  "main_apiClient opts network =
     \<lparr>config =
        \<lparr>baseUrl = (if optBaseUrl opts \<noteq> [] then optBaseUrl opts else ''http://localhost:44300''),
         apiKey = (case optApiKey opts of Some k \<Rightarrow> k | None \<Rightarrow> []),
         timeout = None\<rparr>,
      client = network\<rparr>"

definition main_toolHandlers ::
  "(string \<Rightarrow> tool_handler) \<Rightarrow> options \<Rightarrow> (http_request \<Rightarrow> error + jsval) \<Rightarrow> tool_handlers" where
  "main_toolHandlers others opts network =
     toolHandlers (infoOnlyMode opts) (abpTools others (main_apiClient opts network))"

definition server_call_tool ::
  "(string \<Rightarrow> tool_handler) \<Rightarrow> options \<Rightarrow> (http_request \<Rightarrow> error + jsval)
     \<Rightarrow> string \<Rightarrow> jsval \<Rightarrow> call_tool_result io" where
  "server_call_tool others opts network nm args =
     call_tool opts (main_toolHandlers others opts network) nm args"

section \<open>Concrete inputs\<close>

text \<open>
  Inputs at which the properties below are evaluated: a network that rejects every
  request, a network that answers every request with a bare array, a client with a given
  key, command-line options, and an instance of the handlers left open.
\<close>

definition offline :: "http_request \<Rightarrow> error + jsval" where
  "offline r = Inl (AxiosError ''Network Error'')"

definition bare_array_network :: "http_request \<Rightarrow> error + jsval" where
  "bare_array_network r = Inr (JArr [JObj [(''name'', JStr ''LeptonX'')]])"

definition sample_client :: "string \<Rightarrow> (http_request \<Rightarrow> error + jsval) \<Rightarrow> abp_api_client" where
  "sample_client key network =
     \<lparr>config = \<lparr>baseUrl = ''http://localhost:44300'', apiKey = key, timeout = None\<rparr>,
      client = network\<rparr>"

definition sample_options :: "string option \<Rightarrow> bool \<Rightarrow> options" where
  "sample_options key restricted =
     \<lparr>optApiKey = key, optBaseUrl = ''http://localhost:44300'',
      infoOnlyMode = restricted, stdio = True\<rparr>"

definition sample_others :: "string \<Rightarrow> tool_handler" where
  "sample_others n =
     \<lparr>name = n, description = [], inputSchema = JObj [], execute = (\<lambda>args. return_io JNull)\<rparr>"

definition sample_component_args :: jsval where
  "sample_component_args =
     JObj [(''name'', JStr ''Card''), (''type'', JStr ''widget''), (''framework'', JStr ''blazor'')]"

definition sample_form_args :: jsval where
  "sample_form_args =
     JObj [(''name'', JStr ''Login''),
           (''fields'', JArr [JObj [(''name'', JStr ''user''), (''type'', JStr ''text''),
                                    (''label'', JStr ''User'')]])]"

text \<open>
  Arguments that pass the schema of \<^verbatim>\<open>abp_generate_form\<close> (\<^verbatim>\<open>defaultValue\<close> is
  \<^verbatim>\<open>z.any()\<close>) and whose default value cannot be converted to a string.
\<close>

definition unprintable_form_args :: jsval where
  "unprintable_form_args =
     JObj [(''name'', JStr ''Login''),
           (''fields'', JArr [JObj [(''name'', JStr ''user''), (''type'', JStr ''text''),
                                    (''label'', JStr ''User''),
                                    (''defaultValue'', JObj [(''toString'', JNum 1)])]])]"

definition unprintable_form_validated :: jsval where
  "unprintable_form_validated =
     JObj [(''name'', JStr ''Login''),
           (''fields'', JArr [JObj [(''name'', JStr ''user''), (''type'', JStr ''text''),
                                    (''label'', JStr ''User''),
                                    (''defaultValue'', JObj [(''toString'', JNum 1)])]]),
           (''layout'', JStr ''vertical'')]"

definition sample_form_validated :: jsval where
  "sample_form_validated =
     JObj [(''name'', JStr ''Login''),
           (''fields'', JArr [JObj [(''name'', JStr ''user''), (''type'', JStr ''text''),
                                    (''label'', JStr ''User'')]]),
           (''layout'', JStr ''vertical'')]"

text \<open>The names of the registry, group after group.\<close>

definition registry_names :: "string list" where
  "registry_names =
    [''abp_get_applications'', ''abp_get_application'', ''abp_create_application'',
     ''abp_update_application'', ''abp_delete_application'',
     ''abp_get_modules'', ''abp_get_module'', ''abp_install_module'',
     ''abp_uninstall_module'', ''abp_get_popular_modules'',
     ''abp_get_entities'', ''abp_get_entity'', ''abp_create_entity'', ''abp_generate_crud'',
     ''abp_get_users'', ''abp_get_user'', ''abp_create_user'', ''abp_update_user'',
     ''abp_delete_user'',
     ''abp_get_tenants'', ''abp_get_tenant'', ''abp_create_tenant'', ''abp_update_tenant'',
     ''abp_delete_tenant'',
     ''abp_get_permissions'', ''abp_get_permissions_by_group'', ''abp_grant_permission'',
     ''abp_revoke_permission'',
     ''abp_get_audit_logs'', ''abp_get_audit_log'', ''abp_get_audit_summary'',
     ''abp_get_background_jobs'', ''abp_get_background_job'', ''abp_enqueue_background_job'',
     ''abp_delete_background_job'', ''abp_get_common_job_types'',
     ''abp_generate_page'', ''abp_get_themes'', ''abp_get_theme'', ''abp_apply_theme'',
     ''abp_generate_component'', ''abp_get_layouts'', ''abp_get_layout'', ''abp_update_layout'',
     ''abp_get_menus'', ''abp_get_menu'', ''abp_add_menu_item'', ''abp_remove_menu_item'',
     ''abp_get_widgets'', ''abp_get_widget'', ''abp_create_widget'', ''abp_update_widget'',
     ''abp_delete_widget'', ''abp_generate_form'', ''abp_get_localization_resources'',
     ''abp_get_localization_resource'', ''abp_update_localization_text'',
     ''abp_get_supported_cultures'']"


section \<open>What validation guarantees\<close>

text \<open>
  A value is of the type a schema describes (\<open>conforms\<close>). The schemas of the tools give
  every key of an object once (\<open>wf_zod\<close>); for such a schema the value that
  \<open>zod_parse\<close> returns conforms to it, which is what the code after
  \<^verbatim>\<open>schema.parse(args)\<close> relies on.
\<close>

fun conforms :: "zod \<Rightarrow> jsval \<Rightarrow> bool" where
  "conforms ZString v = (case v of JStr s \<Rightarrow> True | _ \<Rightarrow> False)"
| "conforms ZNumber v = (case v of JNum n \<Rightarrow> True | _ \<Rightarrow> False)"
| "conforms ZBoolean v = (case v of JBool b \<Rightarrow> True | _ \<Rightarrow> False)"
| "conforms ZAny v = True"
| "conforms (ZEnum vs) v = (case v of JStr s \<Rightarrow> s \<in> set vs | _ \<Rightarrow> False)"
| "conforms (ZArray z) v = (case v of JArr xs \<Rightarrow> list_all (conforms z) xs | _ \<Rightarrow> False)"
| "conforms (ZObject shape) v =
     (case v of JObj kvs \<Rightarrow> list_all (\<lambda>(k, z). conforms z (field v k)) shape | _ \<Rightarrow> False)"
| "conforms (ZOptional z) v = (v = JUndefined \<or> conforms z v)"
| "conforms (ZDefault z d) v = conforms z v"

fun wf_zod :: "zod \<Rightarrow> bool" where
  "wf_zod (ZArray z) = wf_zod z"
| "wf_zod (ZObject shape) = (distinct (map fst shape) \<and> list_all (\<lambda>(k, z). wf_zod z) shape)"
| "wf_zod (ZOptional z) = wf_zod z"
| "wf_zod (ZDefault z d) = wf_zod z"
| "wf_zod z = True"

text \<open>
  A value that the conversion to a string accepts: no object reached by the conversion
  has a key \<^verbatim>\<open>toString\<close> of its own.
\<close>

fun printable :: "jsval \<Rightarrow> bool" where
  "printable (JArr xs) = list_all printable xs"
| "printable (JObj kvs) = (''toString'' \<notin> fst ` set kvs)"
| "printable v = True"

text \<open>
  The arguments of \<^verbatim>\<open>abp_generate_form\<close> whose values the static form generator can
  convert: the default value of every field, and the option values of the
  \<^verbatim>\<open>select\<close> fields.
\<close>

definition printable_field :: "jsval \<Rightarrow> bool" where
  "printable_field f =
     (printable (field f ''defaultValue'') \<and>
      (if field f ''type'' = JStr ''select''
       then (case field f ''options'' of
               JArr opts \<Rightarrow> list_all (\<lambda>opt. printable (field opt ''value'')) opts
             | _ \<Rightarrow> True)
       else True))"

definition printable_form :: "jsval \<Rightarrow> bool" where
  "printable_form v =
     (case field v ''fields'' of JArr fs \<Rightarrow> list_all printable_field fs | _ \<Rightarrow> True)"

section \<open>Unfolding rules\<close>

lemmas io_defs = return_io_def throw_io_def lift_io_def bind_io_def try_catch_def

lemmas res_defs = bind_res_def template_def lit_def interp_def interp_lower_def object_of_def
  js_str_def

lemmas group_defs = applicationTools_def moduleTools_def entityTools_def userTools_def
  tenantTools_def permissionTools_def auditTools_def backgroundJobTools_def uiTools_def

section \<open>The restricted-mode filter\<close>

lemma filter_fold_keys:
  "fst ` set (fold (\<lambda>(name, handler) acc.
             if name \<in> A then AList.update name handler acc else acc) xs acc0)
   = fst ` set acc0 \<union> (fst ` set xs \<inter> A)"
proof (induction xs arbitrary: acc0)
  case Nil
  then show ?case by simp
next
  case (Cons x xs)
  obtain k v where x: "x = (k, v)" by (cases x)
  show ?case
    by (auto simp: x Cons.IH AList.dom_update)
qed

lemma filter_fold_lookup:
  assumes "distinct (map fst xs)"
  shows "map_of (fold (\<lambda>(name, handler) acc.
             if name \<in> A then AList.update name handler acc else acc) xs acc0) n
   = (if n \<in> A \<and> n \<in> fst ` set xs then map_of xs n else map_of acc0 n)"
  using assms
proof (induction xs arbitrary: acc0)
  case Nil
  then show ?case by simp
next
  case (Cons x xs)
  obtain k v where x: "x = (k, v)" by (cases x)
  from Cons.prems have d: "distinct (map fst xs)" and k: "k \<notin> fst ` set xs"
    by (auto simp: x)
  show ?case
    using k by (auto simp: x Cons.IH [OF d] AList.update_conv')
qed

lemma own_keys_filterInfoOnlyTools:
  "own_keys (filterInfoOnlyTools allTools) = own_keys allTools \<inter> set infoOnlyToolNames"
  by (simp add: own_keys_def filterInfoOnlyTools_def filter_fold_keys)

lemma map_of_filterInfoOnlyTools:
  "distinct (map fst allTools) \<Longrightarrow>
   map_of (filterInfoOnlyTools allTools) n =
     (if n \<in> set infoOnlyToolNames then map_of allTools n else None)"
proof (cases "n \<in> fst ` set allTools")
  case True
  assume "distinct (map fst allTools)"
  with True show ?thesis
    by (simp add: filterInfoOnlyTools_def filter_fold_lookup)
next
  case False
  assume d: "distinct (map fst allTools)"
  from False have "map_of allTools n = None"
    by (simp add: map_of_eq_None_iff)
  with False d show ?thesis
    by (simp add: filterInfoOnlyTools_def filter_fold_lookup)
qed

section \<open>Object spread\<close>

lemma map_of_assign:
  assumes "distinct (map fst source)"
  shows "map_of (assign source target) n =
           (case map_of source n of Some v \<Rightarrow> Some v | None \<Rightarrow> map_of target n)"
  using assms unfolding assign_def
proof (induction source arbitrary: target)
  case Nil
  then show ?case by simp
next
  case (Cons e source)
  obtain k v where e: "e = (k, v)" by (cases e)
  from Cons.prems have d: "distinct (map fst source)" and k: "k \<notin> fst ` set source"
    by (auto simp: e)
  from k have none: "map_of source k = None"
    by (simp add: map_of_eq_None_iff)
  show ?case
    using none by (auto simp: e Cons.IH [OF d] AList.update_conv' split: option.splits)
qed

lemma object_spread_snoc:
  "object_spread (sources @ [source]) = assign source (object_spread sources)"
  by (simp add: object_spread_def)

lemma map_of_object_spread_last:
  assumes "\<forall>g \<in> set groups. distinct (map fst g)"
    and "j < length groups"
    and "n \<in> own_keys (groups ! j)"
    and "\<forall>k. j < k \<and> k < length groups \<longrightarrow> n \<notin> own_keys (groups ! k)"
  shows "map_of (object_spread groups) n = map_of (groups ! j) n"
  using assms
proof (induction groups rule: rev_induct)
  case Nil
  then show ?case by simp
next
  case (snoc g groups)
  from snoc.prems(1) have dg: "distinct (map fst g)" by simp
  show ?case
  proof (cases "j = length groups")
    case True
    with snoc.prems(3) have "n \<in> fst ` set g"
      by (simp add: own_keys_def)
    then obtain v where "map_of g n = Some v"
      by (metis map_of_eq_None_iff not_Some_eq)
    with True show ?thesis
      by (simp add: object_spread_snoc map_of_assign [OF dg])
  next
    case False
    with snoc.prems(2) have j: "j < length groups" by simp
    from snoc.prems(4) have
      "j < length groups \<and> length groups < length (groups @ [g])
         \<longrightarrow> n \<notin> own_keys ((groups @ [g]) ! length groups)"
      by blast
    with j have "n \<notin> own_keys g"
      by simp
    then have none: "map_of g n = None"
      by (simp add: own_keys_def map_of_eq_None_iff)
    have later: "\<forall>k. j < k \<and> k < length groups \<longrightarrow> n \<notin> own_keys (groups ! k)"
    proof (intro allI impI)
      fix k assume k: "j < k \<and> k < length groups"
      from snoc.prems(4) have
        "j < k \<and> k < length (groups @ [g]) \<longrightarrow> n \<notin> own_keys ((groups @ [g]) ! k)"
        by blast
      with k have "n \<notin> own_keys ((groups @ [g]) ! k)" by simp
      with k show "n \<notin> own_keys (groups ! k)" by (simp add: nth_append)
    qed
    from snoc.prems(3) j have here: "n \<in> own_keys (groups ! j)"
      by (simp add: nth_append)
    from snoc.prems(1) have "\<forall>g \<in> set groups. distinct (map fst g)" by simp
    from snoc.IH [OF this j here later] none j show ?thesis
      by (simp add: object_spread_snoc map_of_assign [OF dg] nth_append)
  qed
qed

lemma own_keys_assign: "own_keys (assign source target) = own_keys target \<union> own_keys source"
  unfolding assign_def own_keys_def
proof (induction source arbitrary: target)
  case Nil
  then show ?case by simp
next
  case (Cons e source)
  obtain k v where e: "e = (k, v)" by (cases e)
  show ?case by (auto simp: e Cons.IH AList.dom_update)
qed

lemma own_keys_object_spread: "own_keys (object_spread groups) = (\<Union>g \<in> set groups. own_keys g)"
proof (induction groups rule: rev_induct)
  case Nil
  then show ?case by (simp add: object_spread_def own_keys_def)
next
  case (snoc g groups)
  then show ?case by (auto simp: object_spread_snoc own_keys_assign)
qed

lemma distinct_assign:
  "distinct (map fst target) \<Longrightarrow> distinct (map fst (assign source target))"
  unfolding assign_def
proof (induction source arbitrary: target)
  case Nil
  then show ?case by simp
next
  case (Cons e source)
  obtain k v where e: "e = (k, v)" by (cases e)
  from Cons.prems have "distinct (map fst (AList.update k v target))"
    by (simp add: AList.distinct_update)
  from Cons.IH [OF this] show ?case by (simp add: e)
qed

lemma distinct_object_spread: "distinct (map fst (object_spread groups))"
proof (induction groups rule: rev_induct)
  case Nil
  then show ?case by (simp add: object_spread_def)
next
  case (snoc g groups)
  then show ?case by (simp add: object_spread_snoc distinct_assign)
qed

section \<open>Validation\<close>

lemma issues_of_Cons_Inl: "issues_of (Inl is # rs) = is @ issues_of rs"
  by (simp add: issues_of_def)

lemma issues_of_Cons_Inr: "issues_of (Inr v # rs) = issues_of rs"
  by (simp add: issues_of_def)

lemma issues_of_Nil: "issues_of [] = []"
  by (simp add: issues_of_def)

lemma issues_of_nonempty: "Inl iss \<in> set rs \<Longrightarrow> iss \<noteq> [] \<Longrightarrow> issues_of rs \<noteq> []"
  by (force simp: issues_of_def)

lemma zod_parse_object_field_fails:
  assumes "(k, z) \<in> set shape"
    and "zod_parse z (p @ [Key k]) (field v k) = Inl iss"
    and "iss \<noteq> []"
  shows "\<exists>issues. zod_parse (ZObject shape) p v = Inl issues"
proof (cases v)
  case (JObj kvs)
  let ?pairs = "map (\<lambda>(k, z). (k, zod_parse z (p @ [Key k]) (field v k))) shape"
  from assms(1,2) have "(k, Inl iss) \<in> set ?pairs"
    by force
  then have "Inl iss \<in> set (map snd ?pairs)"
    by force
  from issues_of_nonempty [OF this assms(3)]
  have "issues_of (map snd ?pairs) \<noteq> []" .
  then have "zod_parse (ZObject shape) p (JObj kvs) = Inl (issues_of (map snd ?pairs))"
    unfolding JObj by (simp add: Let_def del: map_map)
  then show ?thesis
    by (simp add: JObj)
qed simp_all

lemma grant_permission_rejects:
  assumes "field args ''providerName'' \<noteq> JStr ''R''"
    and "field args ''providerName'' \<noteq> JStr ''U''"
  shows "\<exists>issues. parse grant_permission_schema args = Inl (ZodError issues)"
proof -
  have "\<exists>iss. zod_parse (ZEnum [''R'', ''U'']) ([] @ [Key ''providerName'']) (field args ''providerName'')
          = Inl iss \<and> iss \<noteq> []"
    using assms by (cases "field args ''providerName''") auto
  then obtain iss where
    "zod_parse (ZEnum [''R'', ''U'']) ([] @ [Key ''providerName'']) (field args ''providerName'') = Inl iss"
    and "iss \<noteq> []" by blast
  from zod_parse_object_field_fails [OF _ this, of "[(''providerName'', ZEnum [''R'', ''U'']),
       (''providerKey'', ZString), (''permissionName'', ZString)]"]
  obtain issues where "zod_parse grant_permission_schema [] args = Inl issues"
    by (auto simp: grant_permission_schema_def)
  then show ?thesis
    by (simp add: parse_def)
qed

section \<open>List endpoints\<close>

lemma items_or_data_bare_array: "items_or_data (JArr xs) = (Inr (JArr xs), [])"
  by (simp add: items_or_data_def io_defs js_or_def)

lemma items_or_data_envelope:
  "map_of body ''items'' = Some (JArr xs) \<Longrightarrow> items_or_data (JObj body) = (Inr (JArr xs), [])"
  by (simp add: items_or_data_def io_defs js_or_def)

lemma items_or_empty_envelope:
  "map_of body ''items'' = Some (JArr xs) \<Longrightarrow> items_or_empty (JObj body) = (Inr (JArr xs), [])"
  by (simp add: items_or_empty_def io_defs js_or_def)

lemma items_or_empty_bare_array: "items_or_empty (JArr xs) = (Inr (JArr []), [])"
  by (simp add: items_or_empty_def io_defs js_or_def)
section \<open>Requests sent\<close>

lemma snd_bind_lift_io: "snd (bind_io m (\<lambda>x. lift_io (f x))) = snd m"
  by (cases m) (auto simp: io_defs split: sum.splits)

lemma bind_io_lift_Inr [simp]: "bind_io (lift_io (Inr v)) f = f v"
  by (cases "f v") (simp add: io_defs)

lemma bind_io_lift_Inl [simp]: "bind_io (lift_io (Inl e)) f = (Inl e, [])"
  by (simp add: io_defs)

lemma snd_client_post:
  "snd (client_post c u d) = [\<lparr>req_method = POST, req_url = u, req_params = JUndefined, req_data = d\<rparr>]"
  by (simp add: client_post_def Let_def)

lemma snd_client_get:
  "snd (client_get c u ps) = [\<lparr>req_method = GET, req_url = u, req_params = ps, req_data = JUndefined\<rparr>]"
  by (simp add: client_get_def Let_def)

lemma snd_getThemes:
  "snd (getThemes c) = [\<lparr>req_method = GET, req_url = ''/api/themes'', req_params = JUndefined,
                          req_data = JUndefined\<rparr>]"
  by (cases "client c \<lparr>req_method = GET, req_url = ''/api/themes'', req_params = JUndefined,
                          req_data = JUndefined\<rparr>")
     (auto simp: getThemes_def client_get_def items_or_empty_def io_defs Let_def split: sum.splits)

lemmas parse_eval = parse_def issues_of_def values_of_def finalObject_def field_def Let_def

lemma lift_io_Inr_eq: "lift_io r = (r, [])"
  by (simp add: lift_io_def)

lemma bind_io_pure_Inr [simp]: "bind_io (Inr v, []) f = f v"
  by (cases "f v") (simp add: bind_io_def)

lemma bind_io_pure_Inl [simp]: "bind_io (Inl e, []) f = (Inl e, [])"
  by (simp add: bind_io_def)

section \<open>The registry built by abpTools\<close>

lemma fst_declared [simp]: "fst (declared others n) = n"
  by (simp add: declared_def)

lemma keys_uiTools:
  "map fst (uiTools others apiClient) =
    [''abp_generate_page'', ''abp_get_themes'', ''abp_get_theme'', ''abp_apply_theme'',
     ''abp_generate_component'', ''abp_get_layouts'', ''abp_get_layout'', ''abp_update_layout'',
     ''abp_get_menus'', ''abp_get_menu'', ''abp_add_menu_item'', ''abp_remove_menu_item'',
     ''abp_get_widgets'', ''abp_get_widget'', ''abp_create_widget'', ''abp_update_widget'',
     ''abp_delete_widget'', ''abp_generate_form'', ''abp_get_localization_resources'',
     ''abp_get_localization_resource'', ''abp_update_localization_text'',
     ''abp_get_supported_cultures'']"
  by (simp add: uiTools_def)

lemma distinct_uiTools: "distinct (map fst (uiTools others apiClient))"
  unfolding keys_uiTools by simp

lemma own_keys_abpTools: "own_keys (abpTools others apiClient) = set registry_names"
  unfolding abpTools_def own_keys_object_spread tool_groups_def
  by (simp add: own_keys_def group_defs registry_names_def insert_commute Un_insert_left)

lemma distinct_tool_groups: "\<forall>g \<in> set (tool_groups others apiClient). distinct (map fst g)"
  by (simp add: tool_groups_def group_defs)

lemma map_of_abpTools_uiTools:
  assumes "n \<in> own_keys (uiTools others apiClient)"
  shows "map_of (abpTools others apiClient) n = map_of (uiTools others apiClient) n"
proof -
  have len9: "length (tool_groups others apiClient) = 9"
    by (simp add: tool_groups_def)
  then have len: "8 < length (tool_groups others apiClient)"
    by simp
  have nth: "tool_groups others apiClient ! 8 = uiTools others apiClient"
    by (simp add: tool_groups_def)
  have last: "\<forall>k. 8 < k \<and> k < length (tool_groups others apiClient)
                \<longrightarrow> n \<notin> own_keys (tool_groups others apiClient ! k)"
    unfolding len9 by auto
  from map_of_object_spread_last [OF distinct_tool_groups len _ last] assms show ?thesis
    by (simp add: abpTools_def nth)
qed

lemma own_keys_visible_abpTools:
  "own_keys (filterInfoOnlyTools (abpTools others apiClient))
     = {''abp_generate_component'', ''abp_get_themes'', ''abp_generate_form''}"
  unfolding own_keys_filterInfoOnlyTools own_keys_abpTools
  by (simp add: registry_names_def infoOnlyToolNames_def) 

lemma distinct_abpTools: "distinct (map fst (abpTools others apiClient))"
  by (simp add: abpTools_def distinct_object_spread)


lemma map_of_visible_abpTools:
  assumes "n \<in> {''abp_generate_component'', ''abp_get_themes'', ''abp_generate_form''}"
  shows "map_of (filterInfoOnlyTools (abpTools others apiClient)) n
           = map_of (uiTools others apiClient) n"
proof -
  from assms have "n \<in> set infoOnlyToolNames" and "n \<in> own_keys (uiTools others apiClient)"
    by (auto simp: infoOnlyToolNames_def own_keys_def keys_uiTools simp flip: set_map)
  then show ?thesis
    by (simp add: map_of_filterInfoOnlyTools [OF distinct_abpTools] map_of_abpTools_uiTools)
qed

section \<open>Dispatch\<close>

lemma call_tool_absent:
  assumes "map_of handlers n = None" and "n \<notin> set object_prototype_names"
  shows "call_tool opts handlers n args = (Inl (Error (''Unknown tool: '' @ n)), [])"
  using assms by (simp add: call_tool_def get_property_def throw_io_def)

lemma call_tool_credential_required:
  assumes "map_of handlers n = Some h" and "\<not> infoOnlyMode opts"
    and "optApiKey opts = None \<or> optApiKey opts = Some []"
  shows "call_tool opts handlers n args = (Inr credential_required, [])"
  using assms by (auto simp add: call_tool_def get_property_def return_io_def)

lemma call_tool_builtin:
  assumes "map_of handlers n = None" and "n \<in> set object_prototype_names"
  shows "call_tool opts handlers n args =
    (if \<not> infoOnlyMode opts \<and> (optApiKey opts = None \<or> optApiKey opts = Some [])
     then (Inr credential_required, [])
     else (Inr \<lparr>content = [TextContent (ErrorMessage (TypeError ''handler.execute is not a function''))],
               isError = Some True\<rparr>, []))"
  using assms by (simp add: call_tool_def get_property_def io_defs)

lemma map_of_visible_restricted:
  "map_of (main_toolHandlers others opts network) n =
     (if infoOnlyMode opts
      then (if n \<in> {''abp_generate_component'', ''abp_get_themes'', ''abp_generate_form''}
            then map_of (uiTools others (main_apiClient opts network)) n else None)
      else map_of (abpTools others (main_apiClient opts network)) n)"
proof (cases "infoOnlyMode opts")
  case False
  then show ?thesis by (simp add: main_toolHandlers_def toolHandlers_def)
next
  case True
  let ?c = "main_apiClient opts network"
  show ?thesis
  proof (cases "n \<in> {''abp_generate_component'', ''abp_get_themes'', ''abp_generate_form''}")
    case in3: True
    then have "n \<in> set infoOnlyToolNames" and "n \<in> own_keys (uiTools others ?c)"
      by (auto simp: infoOnlyToolNames_def own_keys_def keys_uiTools simp flip: set_map)
    with True in3 show ?thesis
      by (simp add: main_toolHandlers_def toolHandlers_def
            map_of_filterInfoOnlyTools [OF distinct_abpTools] map_of_abpTools_uiTools)
  next
    case out3: False
    then have "n \<notin> own_keys (filterInfoOnlyTools (abpTools others ?c))"
      by (simp add: own_keys_visible_abpTools)
    then have "map_of (filterInfoOnlyTools (abpTools others ?c)) n = None"
      by (simp add: own_keys_def map_of_eq_None_iff)
    with True out3 show ?thesis
      by (simp add: main_toolHandlers_def toolHandlers_def)
  qed
qed

text \<open>
  The names of the hybrid tools, called through the server without a credential. In
  restricted mode \<^verbatim>\<open>abp_get_themes\<close> is the handler of \<^verbatim>\<open>uiTools\<close> and sends
  its request, and \<^verbatim>\<open>abp_get_ui_examples\<close> is unknown; outside restricted mode the
  three registered names ask for an API key.
\<close>

lemma snd_try_catch_return:
  "snd (try_catch (bind_io m (\<lambda>x. return_io (f x))) (\<lambda>e. return_io (g e))) = snd m"
  by (cases m) (auto simp: io_defs split: sum.splits)

lemma server_get_themes_restricted:
  assumes "infoOnlyMode opts"
  shows "snd (server_call_tool others opts network ''abp_get_themes'' args)
           = [\<lparr>req_method = GET, req_url = ''/api/themes'', req_params = JUndefined,
               req_data = JUndefined\<rparr>]"
proof -
  have "map_of (main_toolHandlers others opts network) ''abp_get_themes''
          = Some \<lparr>name = ''abp_get_themes'',
                   description = ''Get all available ABP themes'',
                   inputSchema = no_arguments_inputSchema,
                   execute = ui_get_themes_execute (main_apiClient opts network)\<rparr>"
    using assms by (simp add: map_of_visible_restricted uiTools_def declared_def)
  with assms show ?thesis
    by (simp add: server_call_tool_def call_tool_def get_property_def snd_try_catch_return
          ui_get_themes_execute_def snd_bind_lift_io snd_getThemes)
qed

lemma server_get_ui_examples_restricted:
  assumes "infoOnlyMode opts"
  shows "server_call_tool others opts network ''abp_get_ui_examples'' args
           = (Inl (Error ''Unknown tool: abp_get_ui_examples''), [])"
proof -
  from assms have "map_of (main_toolHandlers others opts network) ''abp_get_ui_examples'' = None"
    by (simp add: map_of_visible_restricted)
  from call_tool_absent [OF this] show ?thesis
    by (simp add: server_call_tool_def object_prototype_names_def)
qed

lemma server_hybrid_name_unrestricted:
  assumes "\<not> infoOnlyMode opts" and "optApiKey opts = None \<or> optApiKey opts = Some []"
    and "n \<in> {''abp_generate_component'', ''abp_get_themes'', ''abp_generate_form''}"
  shows "server_call_tool others opts network n args = (Inr credential_required, [])"
proof -
  from assms(3) have "n \<in> own_keys (uiTools others (main_apiClient opts network))"
    by (auto simp: own_keys_def keys_uiTools simp flip: set_map)
  then have "n \<in> fst ` set (uiTools others (main_apiClient opts network))"
    by (simp add: own_keys_def)
  then obtain h where "map_of (uiTools others (main_apiClient opts network)) n = Some h"
    by (metis map_of_eq_None_iff not_Some_eq)
  with assms(1) \<open>n \<in> own_keys (uiTools others (main_apiClient opts network))\<close>
  have "map_of (main_toolHandlers others opts network) n = Some h"
    by (simp add: map_of_visible_restricted map_of_abpTools_uiTools)
  from call_tool_credential_required [OF this assms(1,2)] show ?thesis
    by (simp add: server_call_tool_def)
qed

section \<open>Validated values conform to the schema\<close>

lemma zod_parse_Inl_nonempty: "zod_parse z p v = Inl iss \<Longrightarrow> iss \<noteq> []"
proof (induction z p v arbitrary: iss rule: zod_parse.induct)
  case (6 z p v)
  then show ?case by (auto simp: Let_def split: jsval.splits if_splits)
next
  case (7 shape p v)
  then show ?case by (auto simp: Let_def split: jsval.splits if_splits)
qed (auto split: jsval.splits if_splits)

lemma issues_of_empty_Inr:
  assumes "issues_of rs = []" and "r \<in> set rs" and "\<And>iss. r = Inl iss \<Longrightarrow> iss \<noteq> []"
  shows "\<exists>x. r = Inr x"
proof (cases r)
  case (Inl iss)
  with assms(3) have "iss \<noteq> []" by simp
  from assms(2) Inl have "Inl iss \<in> set rs" by simp
  from issues_of_nonempty [OF this \<open>iss \<noteq> []\<close>] have "issues_of rs \<noteq> []" .
  with assms(1) show ?thesis by simp
qed simp

lemma values_of_all_Inr:
  assumes "\<forall>r \<in> set rs. \<exists>x. r = Inr x"
  shows "rs = map Inr (values_of rs)"
  using assms by (induction rs) (auto simp: values_of_def)

lemma field_finalObject:
  assumes "distinct (map fst pairs)" and "(k, Inr x) \<in> set pairs"
  shows "field (finalObject input pairs) k = x"
proof -
  have "map_of (concat (map (final_entry input) pairs)) k
          = (if x \<noteq> JUndefined \<or> k \<in> fst ` set input then Some x else None)"
    using assms
  proof (induction pairs)
    case Nil
    then show ?case by simp
  next
    case (Cons e pairs)
    obtain k' r where e: "e = (k', r)" by (cases e)
    show ?case
    proof (cases "k' = k")
      case True
      with Cons.prems e have r: "r = Inr x"
        by (auto simp: image_iff)
      from Cons.prems e True have "k \<notin> fst ` set pairs" by auto
      moreover have "fst ` set (concat (map (final_entry input) pairs)) \<subseteq> fst ` set pairs"
      proof
        fix a assume "a \<in> fst ` set (concat (map (final_entry input) pairs))"
        then obtain b q where q: "q \<in> set pairs" and ab: "(a, b) \<in> set (final_entry input q)"
          by auto
        obtain qk qr where "q = (qk, qr)" by (cases q)
        with ab have "a = qk" by (cases qr) (auto split: if_splits)
        with q \<open>q = (qk, qr)\<close> show "a \<in> fst ` set pairs" by force
      qed
      ultimately have "k \<notin> fst ` set (concat (map (final_entry input) pairs))"
        by blast
      then have "map_of (concat (map (final_entry input) pairs)) k = None"
        by (simp add: map_of_eq_None_iff)
      with True r e show ?thesis by simp
    next
      case False
      with Cons.prems e have "(k, Inr x) \<in> set pairs" and "distinct (map fst pairs)"
        by auto
      from Cons.IH [OF this(2) this(1)] False e show ?thesis
        by (cases r) auto
    qed
  qed
  then show ?thesis
    by (simp add: field_def finalObject_def)
qed

lemma zod_parse_conforms:
  "zod_parse z p v = Inr out \<Longrightarrow> wf_zod z \<Longrightarrow> conforms z out"
proof (induction z p v arbitrary: out rule: zod_parse.induct)
  case (6 z p v)
  from "6.prems"(1) obtain xs where v: "v = JArr xs"
    by (auto split: jsval.splits)
  let ?rs = "map (\<lambda>(i, x). zod_parse z (p @ [Index i]) x) (enumerate 0 xs)"
  from "6.prems"(1) v have empty: "issues_of ?rs = []" and out: "out = JArr (values_of ?rs)"
    by (auto simp: Let_def split: if_splits)
  have all: "\<forall>r \<in> set ?rs. \<exists>x. r = Inr x"
    using issues_of_empty_Inr [OF empty] zod_parse_Inl_nonempty by (metis (no_types, lifting) imageE list.set_map prod.case_eq_if)
  have "conforms z y" if "y \<in> set (values_of ?rs)" for y
  proof -
    from that values_of_all_Inr [OF all] have "Inr y \<in> set ?rs"
      by (metis (no_types, lifting) image_eqI list.set_map)
    then obtain i x where ix: "(i, x) \<in> set (enumerate 0 xs)"
      and r: "zod_parse z (p @ [Index i]) x = Inr y"
      by auto
    from "6.prems"(2) have "wf_zod z" by simp
    from "6.IH" [OF v ix refl r this] show ?thesis .
  qed
  with out show ?case
    by (simp add: list_all_iff)
next
  case (7 shape p v)
  from "7.prems"(1) obtain kvs where v: "v = JObj kvs"
    by (auto split: jsval.splits)
  let ?pairs = "map (\<lambda>(k, z). (k, zod_parse z (p @ [Key k]) (field v k))) shape"
  from "7.prems"(1) v have empty: "issues_of (map snd ?pairs) = []"
    and out: "out = finalObject kvs ?pairs"
    by (auto simp: Let_def split: if_splits)
  from "7.prems"(2) have dist: "distinct (map fst ?pairs)"
    by (simp add: comp_def case_prod_unfold)
  have "conforms z' (field out k)" if kz: "(k, z') \<in> set shape" for k z'
  proof -
    let ?r = "zod_parse z' (p @ [Key k]) (field v k)"
    from kz have mem: "(k, ?r) \<in> set ?pairs" by force
    then have "?r \<in> set (map snd ?pairs)" by force
    from issues_of_empty_Inr [OF empty this] zod_parse_Inl_nonempty
    obtain x where x: "?r = Inr x" by blast
    with mem have "(k, Inr x) \<in> set ?pairs" by simp
    from field_finalObject [OF dist this] out have "field out k = x" by simp
    moreover from "7.prems"(2) kz have "wf_zod z'"
      by (auto simp: list_all_iff)
    ultimately show ?thesis
      using "7.IH" [OF v kz refl x] by simp
  qed
  with out show ?case
    by (auto simp: list_all_iff finalObject_def)
qed (auto split: jsval.splits if_splits)

section \<open>Computations that return\<close>

lemma bind_res_Inr [simp]: "bind_res (Inr x) f = f x"
  by (simp add: bind_res_def)

lemma bind_res_Inl [simp]: "bind_res (Inl e) f = Inl e"
  by (simp add: bind_res_def)

lemma isl_all_or_first_error: "isl (all_or_first_error rs) \<longleftrightarrow> (\<exists>r \<in> set rs. isl r)"
proof (induction rs)
  case Nil
  then show ?case by simp
next
  case (Cons r rs)
  then show ?case by (cases r) (auto split: sum.splits)
qed

lemma ok_bind_res: "\<not> isl (bind_res m f) \<longleftrightarrow> \<not> isl m \<and> \<not> isl (f (projr m))"
  by (cases m) simp_all

lemma ok_template: "\<not> isl (template pieces) \<longleftrightarrow> (\<forall>p \<in> set pieces. \<not> isl p)"
  by (cases "all_or_first_error pieces")
     (use isl_all_or_first_error [of pieces] in \<open>auto simp: template_def\<close>)

lemma ok_lit [simp]: "\<not> isl (lit s)"
  by (simp add: lit_def)

lemma ok_js_str [simp]: "isl (js_str r) = isl r"
  by (cases r) (simp_all add: js_str_def)

lemma ok_object_of: "\<not> isl (object_of props) \<longleftrightarrow> (\<forall>r \<in> set (map snd props). \<not> isl r)"
  by (cases "all_or_first_error (map snd props)")
     (use isl_all_or_first_error [of "map snd props"] in \<open>auto simp: object_of_def\<close>)

lemma ok_js_map_JArr: "\<not> isl (js_map (JArr xs) f) \<longleftrightarrow> (\<forall>x \<in> set xs. \<not> isl (f x))"
  using isl_all_or_first_error [of "map f xs"] by auto

lemma member_JObj: "member (JObj kvs) k = Inr (field (JObj kvs) k)"
  by (simp add: field_def)

lemma interp_JObj: "interp (JObj kvs) k = to_String (field (JObj kvs) k)"
  by (simp add: interp_def member_JObj del: member.simps)

lemma interp_lower_JObj: "interp_lower (JObj kvs) k = toLowerCase_of (field (JObj kvs) k)"
  by (simp add: interp_lower_def member_JObj del: member.simps)

lemma ok_to_String: "\<not> isl (to_String v) \<longleftrightarrow> printable v"
proof (induction v rule: to_String.induct)
  case (6 xs)
  define f where "f = (\<lambda>x. if x = JUndefined \<or> x = JNull then Inr [] else to_String x)"
  have each: "\<not> isl (f x) \<longleftrightarrow> printable x" if "x \<in> set xs" for x
  proof (cases "x = JUndefined \<or> x = JNull")
    case True
    then show ?thesis by (auto simp: f_def)
  next
    case False
    from "6.IH" [OF that False] False show ?thesis by (simp add: f_def)
  qed
  have "isl (all_or_first_error (map f xs)) \<longleftrightarrow> (\<exists>x \<in> set xs. isl (f x))"
    unfolding isl_all_or_first_error by simp
  with each have ok: "\<not> isl (all_or_first_error (map f xs)) \<longleftrightarrow> (\<forall>x \<in> set xs. printable x)"
    by blast
  have "to_String (JArr xs) =
          (case all_or_first_error (map f xs) of Inl e \<Rightarrow> Inl e | Inr strs \<Rightarrow> Inr (join '','' strs))"
    by (simp add: f_def)
  with ok show ?case
    by (cases "all_or_first_error (map f xs)") (simp_all add: list_all_iff)
qed simp_all

lemma conforms_ZString [simp]: "conforms ZString x \<longleftrightarrow> (\<exists>s. x = JStr s)"
  by (cases x) simp_all

lemma conforms_ZBoolean [simp]: "conforms ZBoolean x \<longleftrightarrow> (\<exists>b. x = JBool b)"
  by (cases x) simp_all

lemma conforms_ZNumber [simp]: "conforms ZNumber x \<longleftrightarrow> (\<exists>n. x = JNum n)"
  by (cases x) simp_all

lemma conforms_ZEnum [simp]: "conforms (ZEnum vs) x \<longleftrightarrow> (\<exists>s \<in> set vs. x = JStr s)"
  by (cases x) simp_all

lemma conforms_ZArray [simp]:
  "conforms (ZArray z) x \<longleftrightarrow> (\<exists>xs. x = JArr xs \<and> (\<forall>y \<in> set xs. conforms z y))"
  by (cases x) (simp_all add: list_all_iff)

lemma conforms_ZObject [simp]:
  "conforms (ZObject shape) x \<longleftrightarrow>
     (\<exists>kvs. x = JObj kvs \<and> (\<forall>(k, z) \<in> set shape. conforms z (field x k)))"
  by (cases x) (simp_all add: list_all_iff)

lemmas [simp del] = conforms.simps(1,2,3,5,6,7)

lemma parse_conforms:
  assumes "parse schema args = Inr v" and "wf_zod schema"
  shows "conforms schema v"
proof -
  from assms(1) have "zod_parse schema [] args = Inr v"
    by (simp add: parse_def split: sum.splits)
  from zod_parse_conforms [OF this assms(2)] show ?thesis .
qed

section \<open>The static component generator returns on validated arguments\<close>

lemma wf_component_schema: "wf_zod hybrid_generate_component_schema"
  by (simp add: hybrid_generate_component_schema_def)

lemma component_argsD:
  assumes "conforms hybrid_generate_component_schema v"
  obtains kvs name type framework where "v = JObj kvs"
    and "field v ''name'' = JStr name"
    and "field v ''type'' = JStr type"
    and "field v ''framework'' = JStr framework"
    and "framework \<in> {''mvc'', ''angular'', ''blazor'', ''blazor-server''}"
    and "field v ''properties'' = JUndefined \<or>
         (\<exists>ps. field v ''properties'' = JArr ps \<and>
            (\<forall>p \<in> set ps. \<exists>pkvs pname ptype. p = JObj pkvs \<and> field p ''name'' = JStr pname
                \<and> field p ''type'' = JStr ptype))"
    and "field v ''template'' = JUndefined \<or> (\<exists>t. field v ''template'' = JStr t)"
  using assms unfolding hybrid_generate_component_schema_def
  by (auto simp: conforms.simps(8)) 

lemma ok_all_map: "\<not> isl (all_or_first_error (map f xs)) \<longleftrightarrow> (\<forall>x \<in> set xs. \<not> isl (f x))"
  using isl_all_or_first_error [of "map f xs"] by auto

lemmas ok_simps = member_JObj interp_JObj interp_lower_JObj ok_bind_res ok_template ok_object_of
  ok_all_map ok_to_String

lemma ok_generateAngularTemplate:
  "field (JObj kvs) ''name'' = JStr s \<Longrightarrow> \<not> isl (generateAngularTemplate (JObj kvs))"
  by (simp add: generateAngularTemplate_def ok_simps del: member.simps)

lemma ok_generateBlazorTemplate:
  "field (JObj kvs) ''name'' = JStr s \<Longrightarrow> \<not> isl (generateBlazorTemplate (JObj kvs))"
  by (simp add: generateBlazorTemplate_def ok_simps del: member.simps)

lemma ok_generateMvcTemplate:
  "field (JObj kvs) ''name'' = JStr s \<Longrightarrow> \<not> isl (generateMvcTemplate (JObj kvs))"
  by (simp add: generateMvcTemplate_def ok_simps del: member.simps)

lemma props_cases:
  assumes "field v ''properties'' = JUndefined \<or>
         (\<exists>ps. field v ''properties'' = JArr ps \<and>
            (\<forall>p \<in> set ps. \<exists>pkvs pname ptype. p = JObj pkvs \<and> field p ''name'' = JStr pname
                \<and> field p ''type'' = JStr ptype))"
  obtains ps where "js_or (field v ''properties'') (JArr []) = JArr ps"
    and "\<forall>p \<in> set ps. \<exists>pkvs pname ptype. p = JObj pkvs \<and> field p ''name'' = JStr pname
                \<and> field p ''type'' = JStr ptype"
  using assms by (auto simp: js_or_def)

lemma ok_generateAngularComponent:
  assumes "field (JObj kvs) ''name'' = JStr s"
    and "field (JObj kvs) ''template'' = JUndefined \<or> (\<exists>t. field (JObj kvs) ''template'' = JStr t)"
    and "js_or (field (JObj kvs) ''properties'') (JArr []) = JArr ps"
    and "\<forall>p \<in> set ps. \<exists>pkvs pname ptype. p = JObj pkvs \<and> field p ''name'' = JStr pname
                \<and> field p ''type'' = JStr ptype"
  shows "\<not> isl (generateAngularComponent (JObj kvs))"
proof -
  have lines: "\<not> isl (template
         [lit ''@Input() '',
          interp p ''name'',
          bind_res (member p ''required'') (\<lambda>required. Inr (if truthy required then [] else ''?'')),
          lit '': '',
          interp p ''type'',
          lit '';''])" if "p \<in> set ps" for p
  proof -
    from assms(4) that obtain pkvs pname ptype where "p = JObj pkvs"
      and "field p ''name'' = JStr pname" and "field p ''type'' = JStr ptype"
      by blast
    then show ?thesis
      by (simp add: ok_simps del: member.simps)
  qed
  from assms(2) have html: "\<not> isl (if truthy (field (JObj kvs) ''template'')
            then Inr (field (JObj kvs) ''template'')
            else js_str (generateAngularTemplate (JObj kvs)))"
    using ok_generateAngularTemplate [OF assms(1)] by auto
  show ?thesis
    using assms(1,3) lines html
    by (simp add: generateAngularComponent_def Let_def ok_simps del: member.simps)
qed

lemma ok_generateBlazorComponent:
  assumes "field (JObj kvs) ''name'' = JStr s"
    and "field (JObj kvs) ''type'' = JStr ty"
    and "field (JObj kvs) ''template'' = JUndefined \<or> (\<exists>t. field (JObj kvs) ''template'' = JStr t)"
    and "js_or (field (JObj kvs) ''properties'') (JArr []) = JArr ps"
    and "\<forall>p \<in> set ps. \<exists>pkvs pname ptype. p = JObj pkvs \<and> field p ''name'' = JStr pname
                \<and> field p ''type'' = JStr ptype"
  shows "\<not> isl (generateBlazorComponent (JObj kvs))"
proof -
  have lines: "\<not> isl (template
         [lit ''[Parameter] public '',
          interp p ''type'',
          lit '' '',
          interp p ''name'',
          lit '' { get; set; }'',
          bind_res (member p ''defaultValue'') (\<lambda>defaultValue.
            if truthy defaultValue
            then template [lit '' = '', lit (JSON_stringify defaultValue), lit '';'']
            else Inr [])])" if "p \<in> set ps" for p
  proof -
    from assms(5) that obtain pkvs pname ptype where "p = JObj pkvs"
      and "field p ''name'' = JStr pname" and "field p ''type'' = JStr ptype"
      by blast
    then show ?thesis
      by (simp add: ok_simps del: member.simps)
  qed
  from assms(3) have body: "\<not> isl (if truthy (field (JObj kvs) ''template'')
            then to_String (field (JObj kvs) ''template'')
            else generateBlazorTemplate (JObj kvs))"
    using ok_generateBlazorTemplate [OF assms(1)] by auto
  show ?thesis
    using assms(1,2,4) lines body
    by (simp add: generateBlazorComponent_def Let_def ok_simps del: member.simps)
qed

lemma ok_generateMvcComponent:
  assumes "field (JObj kvs) ''name'' = JStr s"
    and "field (JObj kvs) ''template'' = JUndefined \<or> (\<exists>t. field (JObj kvs) ''template'' = JStr t)"
  shows "\<not> isl (generateMvcComponent (JObj kvs))"
proof -
  from assms(2) have html: "\<not> isl (if truthy (field (JObj kvs) ''template'')
            then Inr (field (JObj kvs) ''template'')
            else js_str (generateMvcTemplate (JObj kvs)))"
    using ok_generateMvcTemplate [OF assms(1)] by auto
  show ?thesis
    using assms(1) html
    by (simp add: generateMvcComponent_def ok_simps del: member.simps)
qed

lemma object_of_Inr:
  assumes "object_of props = Inr r"
  obtains vals where "all_or_first_error (map snd props) = Inr vals"
    and "r = JObj (zip (map fst props) vals)"
  using assms by (cases "all_or_first_error (map snd props)") (auto simp: object_of_def)

lemma all_or_first_error_Cons:
  "all_or_first_error (r # rs) = Inr vals \<longleftrightarrow>
     (\<exists>v vs. r = Inr v \<and> all_or_first_error rs = Inr vs \<and> vals = v # vs)"
  by (cases r) (auto split: sum.splits)

lemma ok_generateStaticComponent:
  assumes "conforms hybrid_generate_component_schema v"
  shows "\<exists>r. generateStaticComponent v = Inr r
           \<and> field r ''success'' = JBool True \<and> field r ''mode'' = JStr ''static''"
proof -
  from assms obtain kvs name type framework where v: "v = JObj kvs"
    and name: "field v ''name'' = JStr name"
    and type: "field v ''type'' = JStr type"
    and framework: "field v ''framework'' = JStr framework"
    and fw: "framework \<in> {''mvc'', ''angular'', ''blazor'', ''blazor-server''}"
    and props: "field v ''properties'' = JUndefined \<or>
         (\<exists>ps. field v ''properties'' = JArr ps \<and>
            (\<forall>p \<in> set ps. \<exists>pkvs pname ptype. p = JObj pkvs \<and> field p ''name'' = JStr pname
                \<and> field p ''type'' = JStr ptype))"
    and tpl: "field v ''template'' = JUndefined \<or> (\<exists>t. field v ''template'' = JStr t)"
    by (rule component_argsD)
  from props obtain ps where ps: "js_or (field v ''properties'') (JArr []) = JArr ps"
    and each: "\<forall>p \<in> set ps. \<exists>pkvs pname ptype. p = JObj pkvs \<and> field p ''name'' = JStr pname
                \<and> field p ''type'' = JStr ptype"
    by (rule props_cases)
  have angular: "\<not> isl (generateAngularComponent v)"
    using ok_generateAngularComponent name tpl ps each unfolding v by blast
  have blazor: "\<not> isl (generateBlazorComponent v)"
    using ok_generateBlazorComponent name type tpl ps each unfolding v by blast
  have mvc: "\<not> isl (generateMvcComponent v)"
    using ok_generateMvcComponent name tpl unfolding v by blast
  let ?templates = "object_of
         [(''angular'', generateAngularComponent v),
          (''blazor'', generateBlazorComponent v),
          (''mvc'', generateMvcComponent v),
          (''blazor-server'', generateBlazorComponent v)]"
  from angular blazor mvc have "\<not> isl ?templates"
    by (simp add: ok_object_of)
  then obtain templates where templates: "?templates = Inr templates"
    by (cases ?templates) auto
  then obtain tkvs where tkvs: "templates = JObj tkvs"
    by (auto elim: object_of_Inr)
  let ?result = "object_of
       [(''success'', Inr (JBool True)),
        (''data'', object_of
           [(''name'', member v ''name''),
            (''type'', member v ''type''),
            (''framework'', member v ''framework''),
            (''code'', bind_res (interp v ''framework'') (\<lambda>key. member templates key)),
            (''properties'', bind_res (member v ''properties'') (\<lambda>properties.
               Inr (js_or properties (JArr []))))]),
        (''message'', js_str (template
           [lit ''Static '',
            interp v ''type'',
            lit '' component template generated for '',
            interp v ''framework''])),
        (''mode'', Inr (JStr ''static'')),
        (''usage'', Inr (JStr ''Copy this code to your project and customize as needed''))]"
  have "\<not> isl ?result"
    using name type framework unfolding v tkvs
    by (simp add: ok_simps del: member.simps)
  then obtain r where r: "?result = Inr r"
    by (cases ?result) auto
  then have "field r ''success'' = JBool True \<and> field r ''mode'' = JStr ''static''"
    by (auto simp: object_of_def all_or_first_error_Cons field_def bind_res_def
          split: sum.splits)
  moreover from templates r have "generateStaticComponent v = Inr r"
    by (simp add: generateStaticComponent_def)
  ultimately show ?thesis by blast
qed

section \<open>The static form generator returns on validated, convertible arguments\<close>

lemma wf_form_schema: "wf_zod hybrid_generate_form_schema"
  by (simp add: hybrid_generate_form_schema_def form_field_schema_def)

lemma conforms_ZObjectD:
  "conforms (ZObject shape) v \<Longrightarrow> (k, z) \<in> set shape \<Longrightarrow> conforms z (field v k)"
  by auto

lemma conforms_ZObject_obj: "conforms (ZObject shape) v \<Longrightarrow> \<exists>kvs. v = JObj kvs"
  by auto

lemma form_fieldD:
  assumes "conforms form_field_schema f"
  obtains fkvs fname ftype flabel where "f = JObj fkvs"
    and "field f ''name'' = JStr fname"
    and "field f ''type'' = JStr ftype"
    and "field f ''label'' = JStr flabel"
    and "field f ''options'' = JUndefined \<or>
         (\<exists>opts. field f ''options'' = JArr opts \<and>
            (\<forall>opt \<in> set opts. \<exists>okvs olabel. opt = JObj okvs \<and> field opt ''label'' = JStr olabel))"
proof -
  note c = assms [unfolded form_field_schema_def]
  from conforms_ZObject_obj [OF c] obtain fkvs where 1: "f = JObj fkvs" by blast
  have "conforms ZString (field f ''name'')"
    by (rule conforms_ZObjectD [OF c]) simp
  then obtain fname where 2: "field f ''name'' = JStr fname" by auto
  have "conforms (ZEnum [''text'', ''email'', ''password'', ''number'', ''date'', ''datetime'',
                        ''select'', ''multiselect'', ''checkbox'', ''textarea'', ''file''])
          (field f ''type'')"
    by (rule conforms_ZObjectD [OF c]) simp
  then obtain ftype where 3: "field f ''type'' = JStr ftype"
    unfolding conforms_ZEnum by blast
  have "conforms ZString (field f ''label'')"
    by (rule conforms_ZObjectD [OF c]) simp
  then obtain flabel where 4: "field f ''label'' = JStr flabel" by auto
  have "conforms (ZOptional (ZArray (ZObject [(''value'', ZAny), (''label'', ZString)])))
          (field f ''options'')"
    by (rule conforms_ZObjectD [OF c]) simp
  then have 5: "field f ''options'' = JUndefined \<or>
         (\<exists>opts. field f ''options'' = JArr opts \<and>
            (\<forall>opt \<in> set opts. \<exists>okvs olabel. opt = JObj okvs \<and> field opt ''label'' = JStr olabel))"
    by (auto simp: conforms.simps(8))
  from 1 2 3 4 5 show ?thesis by (rule that)
qed

lemma form_argsD:
  assumes "conforms hybrid_generate_form_schema v"
  obtains kvs nm layout fs where "v = JObj kvs"
    and "field v ''name'' = JStr nm"
    and "field v ''layout'' = JStr layout"
    and "field v ''fields'' = JArr fs"
    and "\<forall>f \<in> set fs. conforms form_field_schema f"
proof -
  note c = assms [unfolded hybrid_generate_form_schema_def]
  from conforms_ZObject_obj [OF c] obtain kvs where 1: "v = JObj kvs" by blast
  have "conforms ZString (field v ''name'')"
    by (rule conforms_ZObjectD [OF c]) simp
  then obtain nm where 2: "field v ''name'' = JStr nm" by auto
  have "conforms (ZDefault (ZEnum [''horizontal'', ''vertical'', ''inline'']) (JStr ''vertical''))
          (field v ''layout'')"
    by (rule conforms_ZObjectD [OF c]) simp
  then obtain layout where 3: "field v ''layout'' = JStr layout"
    unfolding conforms.simps(9) conforms_ZEnum by blast
  have "conforms (ZArray form_field_schema) (field v ''fields'')"
    by (rule conforms_ZObjectD [OF c]) simp
  then obtain fs where 4: "field v ''fields'' = JArr fs"
    and 5: "\<forall>f \<in> set fs. conforms form_field_schema f"
    unfolding conforms_ZArray by blast
  from 1 2 3 4 5 show ?thesis by (rule that)
qed

lemma lit_cong: "lit s = lit s"
  by (rule refl)

lemma printable_js_or_empty: "printable d \<Longrightarrow> printable (js_or d (JStr []))"
  by (simp add: js_or_def)

lemma ok_form_control:
  assumes "conforms form_field_schema f" and "printable_field f"
  shows "\<not> isl (template
         [interp f ''name'',
          lit ('': ['' @ [CHR 0x27]),
          bind_res (member f ''defaultValue'') (\<lambda>defaultValue.
            to_String (js_or defaultValue (JStr []))),
          lit ([CHR 0x27] @ '', ''),
          bind_res (member f ''required'') (\<lambda>required.
            Inr (if truthy required then ''Validators.required'' else [])),
          lit '']''])"
proof -
  from assms(1) obtain fkvs fname where "f = JObj fkvs" and "field f ''name'' = JStr fname"
    by (auto elim: form_fieldD)
  moreover from assms(2) have "printable (js_or (field f ''defaultValue'') (JStr []))"
    by (simp add: printable_field_def printable_js_or_empty)
  ultimately show ?thesis
    by (simp add: ok_simps del: member.simps)
qed


lemma ok_generateAngularFormTemplate:
  assumes "field (JObj kvs) ''name'' = JStr nm"
    and "field (JObj kvs) ''layout'' = JStr layout"
    and "field (JObj kvs) ''fields'' = JArr fs"
    and "\<forall>f \<in> set fs. conforms form_field_schema f"
    and "\<forall>f \<in> set fs. printable_field f"
  shows "\<not> isl (generateAngularFormTemplate (JObj kvs))"
proof -
  have block: "\<not> isl (bind_res (member f ''type'') (\<lambda>type.
         if type = JStr ''select'' then template
           [lit a0, interp f ''name'', lit a2, interp f ''label'', lit a4, interp f ''name'',
            lit a6, interp f ''name'', lit a8,
            bind_res (member f ''options'') (\<lambda>options.
              if options = JUndefined \<or> options = JNull then Inr []
              else bind_res (js_map options (\<lambda>opt. template
                  [lit o0, interp opt ''value'', lit o2, interp opt ''label'', lit o4])) (\<lambda>opts.
                Inr (join sep opts))),
            lit a10]
         else if type = JStr ''textarea'' then template
           [lit b0, interp f ''name'', lit b2, interp f ''label'', lit b4, interp f ''name'',
            lit b6, interp f ''name'', lit b8]
         else if type = JStr ''checkbox'' then template
           [lit c0, interp f ''name'', lit c2, interp f ''name'', lit c4, interp f ''name'',
            lit c6, interp f ''label'', lit c8]
         else template
           [lit d0, interp f ''name'', lit d2, interp f ''label'', lit d4, interp f ''type'',
            lit d6, interp f ''name'', lit d8, interp f ''name'', lit d10]))"
    if "f \<in> set fs" for f a0 a2 a4 a6 a8 a10 o0 o2 o4 sep b0 b2 b4 b6 b8 c0 c2 c4 c6 c8
        d0 d2 d4 d6 d8 d10
  proof -
    from assms(4) that have "conforms form_field_schema f" by blast
    then obtain fkvs fname ftype flabel where f: "f = JObj fkvs"
      and fname: "field f ''name'' = JStr fname"
      and ftype: "field f ''type'' = JStr ftype"
      and flabel: "field f ''label'' = JStr flabel"
      and opts: "field f ''options'' = JUndefined \<or>
         (\<exists>opts. field f ''options'' = JArr opts \<and>
            (\<forall>opt \<in> set opts. \<exists>okvs olabel. opt = JObj okvs \<and> field opt ''label'' = JStr olabel))"
      by (rule form_fieldD)
    have options: "\<not> isl (if field f ''options'' = JUndefined \<or> field f ''options'' = JNull then Inr []
              else bind_res (js_map (field f ''options'') (\<lambda>opt. template
                  [lit o0, interp opt ''value'', lit o2, interp opt ''label'', lit o4])) (\<lambda>opts.
                Inr (join sep opts)))" if sel: "ftype = ''select''"
    proof (cases "field f ''options'' = JUndefined")
      case True
      then show ?thesis by simp
    next
      case False
      with opts obtain os where os: "field f ''options'' = JArr os"
        and each: "\<forall>opt \<in> set os. \<exists>okvs olabel. opt = JObj okvs \<and> field opt ''label'' = JStr olabel"
        by blast
      from assms(5) \<open>f \<in> set fs\<close> have "printable_field f" by blast
      with sel ftype os have pr: "\<forall>opt \<in> set os. printable (field opt ''value'')"
        by (simp add: printable_field_def list_all_iff)
      have "\<not> isl (template [lit o0, interp opt ''value'', lit o2, interp opt ''label'', lit o4])"
        if "opt \<in> set os" for opt
      proof -
        from each that obtain okvs olabel where "opt = JObj okvs" and "field opt ''label'' = JStr olabel"
          by blast
        moreover from pr that have "printable (field opt ''value'')" by blast
        ultimately show ?thesis
          by (simp add: ok_simps del: member.simps)
      qed
      with os show ?thesis
        by (simp add: ok_simps del: member.simps)
    qed
    show ?thesis
      using fname ftype flabel options unfolding f
      by (simp add: ok_simps del: member.simps)
  qed
  show ?thesis
    using assms(1,2,3) block
    by (simp add: generateAngularFormTemplate_def Let_def ok_simps ok_js_map_JArr
          del: member.simps js_map.simps cong: lit_cong)
qed

lemma ok_generateAngularForm:
  assumes "field (JObj kvs) ''name'' = JStr nm"
    and "field (JObj kvs) ''layout'' = JStr layout"
    and "field (JObj kvs) ''fields'' = JArr fs"
    and "\<forall>f \<in> set fs. conforms form_field_schema f"
    and "\<forall>f \<in> set fs. printable_field f"
  shows "\<not> isl (generateAngularForm (JObj kvs))"
proof -
  have control: "\<not> isl (template
         [interp f ''name'',
          lit ('': ['' @ [CHR 0x27]),
          bind_res (member f ''defaultValue'') (\<lambda>defaultValue.
            to_String (js_or defaultValue (JStr []))),
          lit ([CHR 0x27] @ '', ''),
          bind_res (member f ''required'') (\<lambda>required.
            Inr (if truthy required then ''Validators.required'' else [])),
          lit '']''])" if "f \<in> set fs" for f
    using assms(4,5) that by (intro ok_form_control) auto
  from ok_generateAngularFormTemplate [OF assms]
  have html: "\<not> isl (generateAngularFormTemplate (JObj kvs))" .
  show ?thesis
    using assms(1,3) control html
    by (simp add: generateAngularForm_def Let_def ok_simps ok_js_map_JArr
          del: member.simps js_map.simps cong: lit_cong)
qed

lemma ok_generateBlazorForm:
  "field (JObj kvs) ''name'' = JStr nm \<Longrightarrow> \<not> isl (generateBlazorForm (JObj kvs))"
  by (simp add: generateBlazorForm_def ok_simps del: member.simps cong: lit_cong)

lemma ok_generateMvcForm:
  "field (JObj kvs) ''name'' = JStr nm \<Longrightarrow> field (JObj kvs) ''layout'' = JStr layout
     \<Longrightarrow> \<not> isl (generateMvcForm (JObj kvs))"
  by (simp add: generateMvcForm_def ok_simps del: member.simps cong: lit_cong)

lemma printable_formD:
  "printable_form v \<Longrightarrow> field v ''fields'' = JArr fs \<Longrightarrow> \<forall>f \<in> set fs. printable_field f"
  by (simp add: printable_form_def list_all_iff)

lemma static_result_fields:
  assumes "object_of
       [(''success'', Inr (JBool True)),
        (''data'', d),
        (''message'', m),
        (''mode'', Inr (JStr ''static'')),
        (''usage'', u)] = Inr r"
  shows "field r ''success'' = JBool True \<and> field r ''mode'' = JStr ''static''"
  using assms
  by (auto simp: object_of_def all_or_first_error_Cons field_def bind_res_def split: sum.splits)

lemma ok_generateStaticForm:
  assumes "conforms hybrid_generate_form_schema v" and "printable_form v"
  shows "\<exists>r. generateStaticForm v = Inr r
           \<and> field r ''success'' = JBool True \<and> field r ''mode'' = JStr ''static''"
proof -
  from assms(1) obtain kvs nm layout fs where v: "v = JObj kvs"
    and nm: "field v ''name'' = JStr nm"
    and layout: "field v ''layout'' = JStr layout"
    and fields: "field v ''fields'' = JArr fs"
    and each: "\<forall>f \<in> set fs. conforms form_field_schema f"
    by (rule form_argsD)
  from printable_formD [OF assms(2) fields] have pr: "\<forall>f \<in> set fs. printable_field f" .
  have angular: "\<not> isl (generateAngularForm v)"
    using ok_generateAngularForm nm layout fields each pr unfolding v by blast
  have blazor: "\<not> isl (generateBlazorForm v)"
    using ok_generateBlazorForm nm unfolding v by blast
  have mvc: "\<not> isl (generateMvcForm v)"
    using ok_generateMvcForm nm layout unfolding v by blast
  let ?templates = "object_of
         [(''angular'', generateAngularForm v),
          (''blazor'', generateBlazorForm v),
          (''mvc'', generateMvcForm v),
          (''blazor-server'', generateBlazorForm v)]"
  from angular blazor mvc have "\<not> isl ?templates"
    by (simp add: ok_object_of)
  then obtain templates where templates: "?templates = Inr templates"
    by (cases ?templates) auto
  then obtain tkvs where tkvs: "templates = JObj tkvs"
    by (auto elim: object_of_Inr)
  let ?result = "object_of
       [(''success'', Inr (JBool True)),
        (''data'', object_of
           [(''name'', member v ''name''),
            (''fields'', member v ''fields''),
            (''layout'', member v ''layout''),
            (''code'', member templates ''angular'')]),
        (''message'', js_str (template
           [lit ''Static form template generated for '',
            interp v ''name''])),
        (''mode'', Inr (JStr ''static'')),
        (''usage'', Inr (JStr ''Copy this code to your project and customize as needed''))]"
  have "\<not> isl ?result"
    using nm unfolding v tkvs
    by (simp add: ok_simps del: member.simps)
  then obtain r where r: "?result = Inr r"
    by (cases ?result) auto
  from static_result_fields [OF r]
  have "field r ''success'' = JBool True \<and> field r ''mode'' = JStr ''static''" .
  moreover from templates r have "generateStaticForm v = Inr r"
    by (simp add: generateStaticForm_def)
  ultimately show ?thesis by blast
qed

lemma theme_info_fields:
  "field getStaticThemeInfo ''success'' = JBool True \<and> field getStaticThemeInfo ''mode'' = JStr ''static''"
  by (simp add: getStaticThemeInfo_def field_def)

lemma ok_getUiExamples:
  assumes "framework = JStr fw" and "category = JStr cat"
  shows "\<exists>r. getUiExamples framework category = Inr r
           \<and> field r ''success'' = JBool True \<and> field r ''mode'' = JStr ''static''"
proof -
  have ex: "\<exists>kvs. examples = JObj kvs"
    by (simp add: examples_def)
  then obtain ekvs where ekvs: "examples = JObj ekvs" by blast
  have "\<not> isl (getUiExamples framework category)"
    unfolding assms getUiExamples_def ekvs
    by (simp add: ok_simps del: member.simps)
  then obtain r where r: "getUiExamples framework category = Inr r"
    by (cases "getUiExamples framework category") auto
  then have "field r ''success'' = JBool True \<and> field r ''mode'' = JStr ''static''"
    by (auto simp: getUiExamples_def object_of_def all_or_first_error_Cons field_def bind_res_def
          split: sum.splits if_splits)
  with r show ?thesis by blast
qed

section \<open>The concrete inputs are valid\<close>

lemma sample_component_valid:
  "parse hybrid_generate_component_schema sample_component_args = Inr sample_component_args"
  by (simp add: hybrid_generate_component_schema_def sample_component_args_def parse_eval)

lemma sample_form_valid:
  "parse hybrid_generate_form_schema sample_form_args = Inr sample_form_validated"
  by (simp add: hybrid_generate_form_schema_def form_field_schema_def sample_form_args_def
        sample_form_validated_def parse_eval)

lemma sample_form_printable: "printable_form sample_form_validated"
  by (simp add: printable_form_def printable_field_def sample_form_validated_def field_def)

lemma no_arguments_examples_valid:
  "parse get_ui_examples_schema (JObj [])
     = Inr (JObj [(''framework'', JStr ''all''), (''category'', JStr ''all'')])"
  by (simp add: get_ui_examples_schema_def parse_eval)

lemma unprintable_valid:
  "parse hybrid_generate_form_schema unprintable_form_args = Inr unprintable_form_validated"
  by (simp add: hybrid_generate_form_schema_def form_field_schema_def unprintable_form_args_def
        unprintable_form_validated_def parse_eval)

section \<open>The fallback of the hybrid tools\<close>

lemma field_JBool_obj: "field r k = JBool b \<Longrightarrow> \<exists>kvs. r = JObj kvs"
  by (cases r) (auto simp: field_def split: if_splits)

lemma field_spread_with:
  "field (spread_with (JObj kvs) k x) k' = (if k' = k then x else field (JObj kvs) k')"
  by (simp add: spread_with_def field_def AList.update_conv')

lemma try_catch_Inr [simp]: "try_catch (Inr v, sent) h = (Inr v, sent)"
  by (simp add: try_catch_def)

lemma try_catch_Inl_return [simp]:
  "try_catch (Inl e, sent) (\<lambda>error. (r, [])) = (r, sent)"
  by (simp add: try_catch_def)

lemma static_fallback:
  assumes "static = Inr r" and "field r ''success'' = JBool True"
    and "field r ''mode'' = JStr ''static''"
  shows "\<exists>r'. bind_io (lift_io static) (\<lambda>staticResult. return_io (spread_with staticResult ''warning'' w))
             = (Inr r', [])
           \<and> field r' ''success'' = JBool True \<and> field r' ''mode'' = JStr ''static''
           \<and> field r' ''warning'' = w"
proof -
  from field_JBool_obj [OF assms(2)] obtain kvs where "r = JObj kvs" by blast
  with assms show ?thesis
    by (simp add: return_io_def field_spread_with)
qed

lemma api_or_fallback:
  assumes ok: "\<And>result. \<exists>r. api result = Inr r \<and> field r ''success'' = JBool True
                          \<and> field r ''mode'' = JStr ''api''"
    and static: "static = Inr s" "field s ''success'' = JBool True" "field s ''mode'' = JStr ''static''"
  shows "\<exists>r sent. try_catch (bind_io call (\<lambda>result. lift_io (api result)))
                     (\<lambda>error. bind_io (lift_io static)
                        (\<lambda>staticResult. return_io (spread_with staticResult ''warning'' w)))
             = (Inr r, sent)
           \<and> field r ''success'' = JBool True
           \<and> (field r ''mode'' = JStr ''api''
               \<or> field r ''mode'' = JStr ''static'' \<and> field r ''warning'' = w)"
proof -
  obtain outcome sent where call: "call = (outcome, sent)" by (cases call)
  from static_fallback [OF static, of w] obtain r' where
    fb: "bind_io (lift_io static) (\<lambda>staticResult. return_io (spread_with staticResult ''warning'' w))
             = (Inr r', [])"
    and r': "field r' ''success'' = JBool True" "field r' ''mode'' = JStr ''static''"
       "field r' ''warning'' = w"
    by blast
  show ?thesis
  proof (cases outcome)
    case (Inl e)
    with call fb r' show ?thesis
      by (simp add: bind_io_def)
  next
    case (Inr result)
    from ok [of result] obtain r where "api result = Inr r"
      and "field r ''success'' = JBool True" and "field r ''mode'' = JStr ''api''"
      by blast
    with call Inr show ?thesis
      by (simp add: bind_io_def lift_io_def)
  qed
qed

lemma api_result_fields:
  assumes "object_of
       [(''success'', Inr (JBool True)),
        (''data'', d),
        (''message'', m),
        (''mode'', Inr (JStr ''api''))] = Inr r"
  shows "field r ''success'' = JBool True \<and> field r ''mode'' = JStr ''api''"
  using assms
  by (auto simp: object_of_def all_or_first_error_Cons field_def bind_res_def split: sum.splits)

lemma themes_result_fields:
  assumes "object_of
       [(''success'', Inr (JBool True)),
        (''data'', d),
        (''count'', m),
        (''mode'', Inr (JStr ''api''))] = Inr r"
  shows "field r ''success'' = JBool True \<and> field r ''mode'' = JStr ''api''"
  using assms
  by (auto simp: object_of_def all_or_first_error_Cons field_def bind_res_def split: sum.splits)

lemma hybrid_generate_component_absorbs:
  assumes "\<not> isInfoOnlyMode apiClient"
    and "parse hybrid_generate_component_schema args = Inr v"
  shows "\<exists>r sent. hybrid_generate_component_execute apiClient args = (Inr r, sent)
           \<and> field r ''success'' = JBool True
           \<and> (field r ''mode'' = JStr ''api''
               \<or> field r ''mode'' = JStr ''static''
                 \<and> field r ''warning'' = JStr ''API call failed, generated static template instead'')"
proof -
  from parse_conforms [OF assms(2) wf_component_schema]
  have c: "conforms hybrid_generate_component_schema v" .
  from ok_generateStaticComponent [OF c] obtain s where
    static: "generateStaticComponent v = Inr s" "field s ''success'' = JBool True"
      "field s ''mode'' = JStr ''static''"
    by blast
  from c obtain kvs nm ty where v: "v = JObj kvs"
    and nm: "field v ''name'' = JStr nm" and ty: "field v ''type'' = JStr ty"
    by (auto elim: component_argsD)
  have api: "\<exists>r. object_of
              [(''success'', Inr (JBool True)),
               (''data'', Inr result),
               (''message'', js_str (template
                  [interp v ''type'',
                   lit ('' component '' @ [CHR 0x27]),
                   interp v ''name'',
                   lit ([CHR 0x27] @ '' generated successfully via API'')])),
               (''mode'', Inr (JStr ''api''))] = Inr r
            \<and> field r ''success'' = JBool True \<and> field r ''mode'' = JStr ''api''" for result
  proof -
    let ?o = "object_of
              [(''success'', Inr (JBool True)),
               (''data'', Inr result),
               (''message'', js_str (template
                  [interp v ''type'',
                   lit ('' component '' @ [CHR 0x27]),
                   interp v ''name'',
                   lit ([CHR 0x27] @ '' generated successfully via API'')])),
               (''mode'', Inr (JStr ''api''))]"
    have "\<not> isl ?o"
      using nm ty unfolding v by (simp add: ok_simps del: member.simps cong: lit_cong)
    then obtain r where r: "?o = Inr r" by (cases ?o) auto
    from api_result_fields [OF r] r show ?thesis by blast
  qed
  from api_or_fallback [of _ "generateStaticComponent v", OF api static]
  show ?thesis
    using assms by (simp add: hybrid_generate_component_execute_def)
qed

lemma hybrid_generate_form_absorbs:
  assumes "\<not> isInfoOnlyMode apiClient"
    and "parse hybrid_generate_form_schema args = Inr v"
    and "printable_form v"
  shows "\<exists>r sent. hybrid_generate_form_execute apiClient args = (Inr r, sent)
           \<and> field r ''success'' = JBool True
           \<and> (field r ''mode'' = JStr ''api''
               \<or> field r ''mode'' = JStr ''static''
                 \<and> field r ''warning'' = JStr ''API call failed, generated static template instead'')"
proof -
  from parse_conforms [OF assms(2) wf_form_schema]
  have c: "conforms hybrid_generate_form_schema v" .
  from ok_generateStaticForm [OF c assms(3)] obtain s where
    static: "generateStaticForm v = Inr s" "field s ''success'' = JBool True"
      "field s ''mode'' = JStr ''static''"
    by blast
  from c obtain kvs nm where v: "v = JObj kvs" and nm: "field v ''name'' = JStr nm"
    by (auto elim: form_argsD)
  have api: "\<exists>r. object_of
              [(''success'', Inr (JBool True)),
               (''data'', Inr result),
               (''message'', js_str (template
                  [lit (''Form '' @ [CHR 0x27]),
                   interp v ''name'',
                   lit ([CHR 0x27] @ '' generated successfully via API'')])),
               (''mode'', Inr (JStr ''api''))] = Inr r
            \<and> field r ''success'' = JBool True \<and> field r ''mode'' = JStr ''api''" for result
  proof -
    let ?o = "object_of
              [(''success'', Inr (JBool True)),
               (''data'', Inr result),
               (''message'', js_str (template
                  [lit (''Form '' @ [CHR 0x27]),
                   interp v ''name'',
                   lit ([CHR 0x27] @ '' generated successfully via API'')])),
               (''mode'', Inr (JStr ''api''))]"
    have "\<not> isl ?o"
      using nm unfolding v by (simp add: ok_simps del: member.simps cong: lit_cong)
    then obtain r where r: "?o = Inr r" by (cases ?o) auto
    from api_result_fields [OF r] r show ?thesis by blast
  qed
  from api_or_fallback [of _ "generateStaticForm v", OF api static]
  show ?thesis
    using assms by (simp add: hybrid_generate_form_execute_def)
qed

lemma hybrid_get_themes_absorbs:
  "\<exists>r sent. hybrid_get_themes_execute apiClient args = (Inr r, sent)
           \<and> field r ''success'' = JBool True
           \<and> (field r ''mode'' = JStr ''api''
               \<or> field r ''mode'' = JStr ''static'')"
proof (cases "isInfoOnlyMode apiClient")
  case True
  then show ?thesis
    using theme_info_fields by (simp add: hybrid_get_themes_execute_def return_io_def)
next
  case False
  obtain outcome sent where call: "with_client apiClient getThemes = (outcome, sent)"
    by (cases "with_client apiClient getThemes")
  have fb: "field (spread_with getStaticThemeInfo ''warning'' w) ''success'' = JBool True
          \<and> field (spread_with getStaticThemeInfo ''warning'' w) ''mode'' = JStr ''static''" for w
    by (simp add: getStaticThemeInfo_def spread_with_def field_def)
  show ?thesis
  proof (cases outcome)
    case (Inl e)
    with False call fb show ?thesis
      by (simp add: hybrid_get_themes_execute_def bind_io_def return_io_def)
  next
    case (Inr themes)
    let ?o = "object_of
             [(''success'', Inr (JBool True)),
              (''data'', Inr themes),
              (''count'', member themes ''length''),
              (''mode'', Inr (JStr ''api''))]"
    show ?thesis
    proof (cases ?o)
      case ok: (Inr r)
      from themes_result_fields [OF ok] False call Inr ok show ?thesis
        by (simp add: hybrid_get_themes_execute_def bind_io_def lift_io_def)
    next
      case (Inl e)
      with False call Inr fb show ?thesis
        by (simp add: hybrid_get_themes_execute_def bind_io_def lift_io_def return_io_def)
    qed
  qed
qed

section \<open>The hybrid tools and the server\<close>

text \<open>
  The handlers of \<^verbatim>\<open>hybridUiTools\<close>, executed directly with a client that has no
  credential: none of them sends a request. \<^verbatim>\<open>abp_get_themes\<close> returns the static
  theme information; each of the other three validates its arguments, throws the
  validation error when they fail the schema, and otherwise returns a result with
  \<^verbatim>\<open>success\<close> true and \<^verbatim>\<open>mode\<close> \<^verbatim>\<open>static\<close> (for
  \<^verbatim>\<open>abp_generate_form\<close>: when the default values and option values can be converted
  to strings).
\<close>

lemma hybrid_execute_without_credential:
  assumes "isInfoOnlyMode apiClient"
  shows "map fst (hybridUiTools apiClient)
           = [''abp_generate_component'', ''abp_get_themes'', ''abp_generate_form'',
              ''abp_get_ui_examples'']
       \<and> map (\<lambda>(n, h). execute h) (hybridUiTools apiClient)
           = [hybrid_generate_component_execute apiClient, hybrid_get_themes_execute apiClient,
              hybrid_generate_form_execute apiClient, hybrid_get_ui_examples_execute]
       \<and> hybrid_get_themes_execute apiClient args = (Inr getStaticThemeInfo, [])
       \<and> field getStaticThemeInfo ''success'' = JBool True
       \<and> field getStaticThemeInfo ''mode'' = JStr ''static''
       \<and> (\<forall>v. parse get_ui_examples_schema args = Inr v \<longrightarrow>
             (\<exists>r. hybrid_get_ui_examples_execute args = (Inr r, [])
                  \<and> field r ''success'' = JBool True \<and> field r ''mode'' = JStr ''static''))
       \<and> (\<forall>v. parse hybrid_generate_component_schema args = Inr v \<longrightarrow>
             (\<exists>r. hybrid_generate_component_execute apiClient args = (Inr r, [])
                  \<and> field r ''success'' = JBool True \<and> field r ''mode'' = JStr ''static''))
       \<and> (\<forall>v. parse hybrid_generate_form_schema args = Inr v \<and> printable_form v \<longrightarrow>
             (\<exists>r. hybrid_generate_form_execute apiClient args = (Inr r, [])
                  \<and> field r ''success'' = JBool True \<and> field r ''mode'' = JStr ''static''))
       \<and> (\<forall>e. parse get_ui_examples_schema args = Inl e \<longrightarrow>
             hybrid_get_ui_examples_execute args = (Inl e, []))
       \<and> (\<forall>e. parse hybrid_generate_component_schema args = Inl e \<longrightarrow>
             hybrid_generate_component_execute apiClient args = (Inl e, []))
       \<and> (\<forall>e. parse hybrid_generate_form_schema args = Inl e \<longrightarrow>
             hybrid_generate_form_execute apiClient args = (Inl e, []))
       \<and> snd (hybrid_generate_component_execute apiClient args) = []
       \<and> snd (hybrid_generate_form_execute apiClient args) = []
       \<and> snd (hybrid_get_ui_examples_execute args) = []"
proof -
  have component: "hybrid_generate_component_execute apiClient args
      = bind_io (lift_io (parse hybrid_generate_component_schema args))
          (\<lambda>v. lift_io (generateStaticComponent v))"
    using assms by (simp add: hybrid_generate_component_execute_def)
  have form: "hybrid_generate_form_execute apiClient args
      = bind_io (lift_io (parse hybrid_generate_form_schema args))
          (\<lambda>v. lift_io (generateStaticForm v))"
    using assms by (simp add: hybrid_generate_form_execute_def)
  have c_ok: "\<exists>r. hybrid_generate_component_execute apiClient args = (Inr r, [])
                  \<and> field r ''success'' = JBool True \<and> field r ''mode'' = JStr ''static''"
    if "parse hybrid_generate_component_schema args = Inr v" for v
  proof -
    from parse_conforms [OF that wf_component_schema] ok_generateStaticComponent
    obtain r where "generateStaticComponent v = Inr r"
      and "field r ''success'' = JBool True \<and> field r ''mode'' = JStr ''static''"
      by blast
    with that show ?thesis
      by (simp add: component lift_io_Inr_eq)
  qed
  have f_ok: "\<exists>r. hybrid_generate_form_execute apiClient args = (Inr r, [])
                  \<and> field r ''success'' = JBool True \<and> field r ''mode'' = JStr ''static''"
    if "parse hybrid_generate_form_schema args = Inr v" and "printable_form v" for v
  proof -
    from parse_conforms [OF that(1) wf_form_schema] that(2) ok_generateStaticForm
    obtain r where "generateStaticForm v = Inr r"
      and "field r ''success'' = JBool True \<and> field r ''mode'' = JStr ''static''"
      by blast
    with that show ?thesis
      by (simp add: form lift_io_Inr_eq)
  qed
  have e_ok: "\<exists>r. hybrid_get_ui_examples_execute args = (Inr r, [])
                  \<and> field r ''success'' = JBool True \<and> field r ''mode'' = JStr ''static''"
    if "parse get_ui_examples_schema args = Inr v" for v
  proof -
    have "wf_zod get_ui_examples_schema"
      by (simp add: get_ui_examples_schema_def)
    from parse_conforms [OF that this] have c: "conforms get_ui_examples_schema v" .
    note c' = c [unfolded get_ui_examples_schema_def]
    from conforms_ZObject_obj [OF c'] obtain kvs where v: "v = JObj kvs" by blast
    have "conforms (ZDefault (ZEnum [''mvc'', ''angular'', ''blazor'', ''blazor-server'', ''all''])
            (JStr ''all'')) (field v ''framework'')"
      by (rule conforms_ZObjectD [OF c']) simp
    then obtain fw where fw: "field v ''framework'' = JStr fw"
      unfolding conforms.simps(9) conforms_ZEnum by blast
    have "conforms (ZDefault (ZEnum [''forms'', ''tables'', ''modals'', ''widgets'', ''navigation'', ''all''])
            (JStr ''all'')) (field v ''category'')"
      by (rule conforms_ZObjectD [OF c']) simp
    then obtain cat where cat: "field v ''category'' = JStr cat"
      unfolding conforms.simps(9) conforms_ZEnum by blast
    from ok_getUiExamples [of "JStr fw" fw "JStr cat" cat]
    obtain r where "getUiExamples (JStr fw) (JStr cat) = Inr r"
      and "field r ''success'' = JBool True \<and> field r ''mode'' = JStr ''static''"
      by blast
    with that fw cat show ?thesis
      unfolding v
      by (simp add: hybrid_get_ui_examples_execute_def member_JObj or_default_def lift_io_Inr_eq
            del: member.simps)
  qed
  have no_c: "snd (hybrid_generate_component_execute apiClient args) = []"
    by (cases "parse hybrid_generate_component_schema args")
       (simp_all add: component snd_bind_lift_io lift_io_Inr_eq)
  have no_f: "snd (hybrid_generate_form_execute apiClient args) = []"
    by (cases "parse hybrid_generate_form_schema args")
       (simp_all add: form snd_bind_lift_io lift_io_Inr_eq)
  have no_e: "snd (hybrid_get_ui_examples_execute args) = []"
    by (cases "parse get_ui_examples_schema args")
       (auto simp: hybrid_get_ui_examples_execute_def io_defs split: sum.splits prod.splits)
  show ?thesis
    using assms c_ok f_ok e_ok no_c no_f no_e theme_info_fields
    by (simp add: hybridUiTools_def hybrid_get_themes_execute_def return_io_def component form
          hybrid_get_ui_examples_execute_def)
qed

text \<open>
  The server resolves a name in \<^verbatim>\<open>toolHandlers\<close>, which is built from
  \<^verbatim>\<open>abpTools\<close>. In restricted mode the three names that survive the filter are bound
  to the handlers of \<^verbatim>\<open>uiTools\<close>, and a handler that is an own property of the tool
  set is executed inside the \<^verbatim>\<open>try\<close> block.
\<close>

lemma ui_component_valid:
  "parse ui_generate_component_schema sample_component_args = Inr sample_component_args"
  by (simp add: ui_generate_component_schema_def sample_component_args_def parse_eval)

lemma ui_form_valid:
  "parse ui_generate_form_schema sample_form_args = Inr sample_form_validated"
  by (simp add: ui_generate_form_schema_def form_field_schema_def sample_form_args_def
        sample_form_validated_def parse_eval)

lemma map_of_restricted_get_themes:
  assumes "infoOnlyMode opts"
  shows "map_of (main_toolHandlers others opts network) ''abp_get_themes''
          = Some \<lparr>name = ''abp_get_themes'',
                   description = ''Get all available ABP themes'',
                   inputSchema = no_arguments_inputSchema,
                   execute = ui_get_themes_execute (main_apiClient opts network)\<rparr>"
  using assms by (simp add: map_of_visible_restricted uiTools_def declared_def)

lemma map_of_restricted_generate_component:
  assumes "infoOnlyMode opts"
  shows "\<exists>d. map_of (main_toolHandlers others opts network) ''abp_generate_component''
          = Some \<lparr>name = ''abp_generate_component'',
                   description = d,
                   inputSchema = ui_generate_component_inputSchema,
                   execute = ui_generate_component_execute (main_apiClient opts network)\<rparr>"
  using assms by (simp add: map_of_visible_restricted uiTools_def declared_def)

lemma map_of_restricted_generate_form:
  assumes "infoOnlyMode opts"
  shows "\<exists>d. map_of (main_toolHandlers others opts network) ''abp_generate_form''
          = Some \<lparr>name = ''abp_generate_form'',
                   description = d,
                   inputSchema = ui_generate_form_inputSchema,
                   execute = ui_generate_form_execute (main_apiClient opts network)\<rparr>"
  using assms by (simp add: map_of_visible_restricted uiTools_def declared_def)

lemma call_tool_own:
  assumes "map_of handlers n = Some h"
    and "infoOnlyMode opts \<or> (optApiKey opts \<noteq> None \<and> optApiKey opts \<noteq> Some [])"
  shows "call_tool opts handlers n args =
     try_catch
       (bind_io (execute h (js_or args (JObj [])))
          (\<lambda>result. return_io \<lparr>content = [TextContent (Stringified result)], isError = None\<rparr>))
       (\<lambda>error. return_io \<lparr>content = [TextContent (ErrorMessage error)], isError = Some True\<rparr>)"
  using assms by (auto simp add: call_tool_def get_property_def)

text \<open>
  Claim C1 at the server started without a credential. \<^verbatim>\<open>abpTools\<close> does not spread
  \<^verbatim>\<open>hybridUiTools\<close>, so a call of a hybrid tool's name never reaches a hybrid handler
  and never returns a result with \<^verbatim>\<open>mode\<close> \<^verbatim>\<open>static\<close>. In restricted mode
  \<^verbatim>\<open>abp_get_themes\<close>, \<^verbatim>\<open>abp_generate_component\<close> and \<^verbatim>\<open>abp_generate_form\<close>,
  called with valid arguments, run the handlers of \<^verbatim>\<open>uiTools\<close>: each sends its
  request, and the result is marked \<^verbatim>\<open>isError\<close> when the request fails, or carries the
  remote data and no \<^verbatim>\<open>mode\<close> when it succeeds. \<^verbatim>\<open>abp_get_ui_examples\<close> throws
  \<^verbatim>\<open>Unknown tool\<close>. Outside restricted mode the call asks for an API key.
\<close>

theorem C1_server_never_static:
  "server_call_tool sample_others (sample_options None True) offline ''abp_get_themes'' (JObj [])
     = (Inr \<lparr>content = [TextContent (ErrorMessage (AxiosError ''Network Error''))],
             isError = Some True\<rparr>,
        [\<lparr>req_method = GET, req_url = ''/api/themes'', req_params = JUndefined,
          req_data = JUndefined\<rparr>])
   \<and> server_call_tool sample_others (sample_options None True) bare_array_network
        ''abp_get_themes'' (JObj [])
     = (Inr \<lparr>content = [TextContent (Stringified
               (JObj [(''success'', JBool True), (''data'', JArr []), (''count'', JNum 0)]))],
             isError = None\<rparr>,
        [\<lparr>req_method = GET, req_url = ''/api/themes'', req_params = JUndefined,
          req_data = JUndefined\<rparr>])
   \<and> server_call_tool sample_others (sample_options None True) offline
        ''abp_generate_component'' sample_component_args
     = (Inr \<lparr>content = [TextContent (ErrorMessage (AxiosError ''Network Error''))],
             isError = Some True\<rparr>,
        [\<lparr>req_method = POST, req_url = ''/api/suite/components'', req_params = JUndefined,
          req_data = sample_component_args\<rparr>])
   \<and> server_call_tool sample_others (sample_options None True) offline
        ''abp_generate_form'' sample_form_args
     = (Inr \<lparr>content = [TextContent (ErrorMessage (AxiosError ''Network Error''))],
             isError = Some True\<rparr>,
        [\<lparr>req_method = POST, req_url = ''/api/suite/forms'', req_params = JUndefined,
          req_data = sample_form_validated\<rparr>])
   \<and> server_call_tool sample_others (sample_options None True) offline
        ''abp_get_ui_examples'' (JObj [])
     = (Inl (Error ''Unknown tool: abp_get_ui_examples''), [])
   \<and> server_call_tool sample_others (sample_options None False) offline
        ''abp_get_themes'' (JObj [])
     = (Inr credential_required, [])"
proof -
  let ?r = "sample_options None True"
  have r: "infoOnlyMode ?r"
    by (simp add: sample_options_def)
  have r': "infoOnlyMode ?r \<or> (optApiKey ?r \<noteq> None \<and> optApiKey ?r \<noteq> Some [])"
    by (simp add: sample_options_def)
  have empty: "js_or (JObj []) (JObj []) = JObj []"
    by (simp add: js_or_def)
  have t1: "server_call_tool sample_others ?r offline ''abp_get_themes'' (JObj [])
     = (Inr \<lparr>content = [TextContent (ErrorMessage (AxiosError ''Network Error''))],
             isError = Some True\<rparr>,
        [\<lparr>req_method = GET, req_url = ''/api/themes'', req_params = JUndefined,
          req_data = JUndefined\<rparr>])"
    unfolding server_call_tool_def
      call_tool_own [OF map_of_restricted_get_themes [OF r] r']
    by (simp add: ui_get_themes_execute_def getThemes_def client_get_def main_apiClient_def
          offline_def io_defs)
  have t2: "server_call_tool sample_others ?r bare_array_network ''abp_get_themes'' (JObj [])
     = (Inr \<lparr>content = [TextContent (Stringified
               (JObj [(''success'', JBool True), (''data'', JArr []), (''count'', JNum 0)]))],
             isError = None\<rparr>,
        [\<lparr>req_method = GET, req_url = ''/api/themes'', req_params = JUndefined,
          req_data = JUndefined\<rparr>])"
    unfolding server_call_tool_def
      call_tool_own [OF map_of_restricted_get_themes [OF r] r']
    by (simp add: ui_get_themes_execute_def getThemes_def client_get_def main_apiClient_def
          bare_array_network_def items_or_empty_def io_defs js_or_def object_of_def res_defs)
  from map_of_restricted_generate_component [OF r] obtain d where
    c: "map_of (main_toolHandlers sample_others ?r offline) ''abp_generate_component''
          = Some \<lparr>name = ''abp_generate_component'', description = d,
                   inputSchema = ui_generate_component_inputSchema,
                   execute = ui_generate_component_execute (main_apiClient ?r offline)\<rparr>"
    by blast
  have args_c: "js_or sample_component_args (JObj []) = sample_component_args"
    by (simp add: js_or_def sample_component_args_def)
  have t3: "server_call_tool sample_others ?r offline ''abp_generate_component'' sample_component_args
     = (Inr \<lparr>content = [TextContent (ErrorMessage (AxiosError ''Network Error''))],
             isError = Some True\<rparr>,
        [\<lparr>req_method = POST, req_url = ''/api/suite/components'', req_params = JUndefined,
          req_data = sample_component_args\<rparr>])"
    unfolding server_call_tool_def call_tool_own [OF c r']
    by (simp add: args_c ui_generate_component_execute_def ui_component_valid generateComponent_def
          client_post_def main_apiClient_def offline_def io_defs)
  from map_of_restricted_generate_form [OF r] obtain d' where
    f: "map_of (main_toolHandlers sample_others ?r offline) ''abp_generate_form''
          = Some \<lparr>name = ''abp_generate_form'', description = d',
                   inputSchema = ui_generate_form_inputSchema,
                   execute = ui_generate_form_execute (main_apiClient ?r offline)\<rparr>"
    by blast
  have args_f: "js_or sample_form_args (JObj []) = sample_form_args"
    by (simp add: js_or_def sample_form_args_def)
  have t4: "server_call_tool sample_others ?r offline ''abp_generate_form'' sample_form_args
     = (Inr \<lparr>content = [TextContent (ErrorMessage (AxiosError ''Network Error''))],
             isError = Some True\<rparr>,
        [\<lparr>req_method = POST, req_url = ''/api/suite/forms'', req_params = JUndefined,
          req_data = sample_form_validated\<rparr>])"
    unfolding server_call_tool_def call_tool_own [OF f r']
    by (simp add: args_f ui_generate_form_execute_def ui_form_valid generateForm_def
          client_post_def main_apiClient_def offline_def io_defs)
  have t5: "server_call_tool sample_others ?r offline ''abp_get_ui_examples'' (JObj [])
     = (Inl (Error ''Unknown tool: abp_get_ui_examples''), [])"
    by (rule server_get_ui_examples_restricted [OF r])
  have t6: "server_call_tool sample_others (sample_options None False) offline
        ''abp_get_themes'' (JObj [])
     = (Inr credential_required, [])"
    by (rule server_hybrid_name_unrestricted) (simp_all add: sample_options_def)
  from t1 t2 t3 t4 t5 t6 show ?thesis
    by (intro conjI)
qed

text \<open>
  Claim C2. The restricted-mode filter applied to the registry that \<^verbatim>\<open>abpTools\<close>
  builds keeps exactly \<^verbatim>\<open>abp_generate_component\<close>, \<^verbatim>\<open>abp_get_themes\<close> and
  \<^verbatim>\<open>abp_generate_form\<close>, bound to the handlers of \<^verbatim>\<open>uiTools\<close>; the ten other
  names of the fixed list are not in the registry. The three handlers call the API: the
  theme handler sends its request on every call, the two generators as soon as the
  arguments pass validation, whether or not the client has a key.
\<close>

theorem C2_restricted_registry_of_abpTools:
  "own_keys (filterInfoOnlyTools (abpTools others apiClient))
     = {''abp_generate_component'', ''abp_get_themes'', ''abp_generate_form''}
   \<and> map_of (filterInfoOnlyTools (abpTools others apiClient)) ''abp_generate_component''
     = Some \<lparr>name = ''abp_generate_component'',
              description = ''Generate reusable UI components (widgets, modals, partials, directives, pipes)'',
              inputSchema = ui_generate_component_inputSchema,
              execute = ui_generate_component_execute apiClient\<rparr>
   \<and> map_of (filterInfoOnlyTools (abpTools others apiClient)) ''abp_get_themes''
     = Some \<lparr>name = ''abp_get_themes'',
              description = ''Get all available ABP themes'',
              inputSchema = no_arguments_inputSchema,
              execute = ui_get_themes_execute apiClient\<rparr>
   \<and> map_of (filterInfoOnlyTools (abpTools others apiClient)) ''abp_generate_form''
     = Some \<lparr>name = ''abp_generate_form'',
              description = ''Generate complex forms with validation'',
              inputSchema = ui_generate_form_inputSchema,
              execute = ui_generate_form_execute apiClient\<rparr>
   \<and> set [''abp_get_info'', ''abp_get_documentation'', ''abp_get_help'',
            ''abp_list_available_modules'', ''abp_list_ui_frameworks'',
            ''abp_list_database_providers'', ''abp_get_cli_commands'',
            ''abp_get_best_practices'', ''abp_get_troubleshooting_guide'',
            ''abp_get_ui_examples''] \<inter> own_keys (abpTools others apiClient) = {}
   \<and> snd (ui_get_themes_execute apiClient args)
     = [\<lparr>req_method = GET, req_url = ''/api/themes'', req_params = JUndefined,
         req_data = JUndefined\<rparr>]
   \<and> (parse ui_generate_component_schema args = Inr validated \<longrightarrow>
        snd (ui_generate_component_execute apiClient args)
          = [\<lparr>req_method = POST, req_url = ''/api/suite/components'', req_params = JUndefined,
              req_data = validated\<rparr>])
   \<and> (parse ui_generate_form_schema args = Inr validated \<longrightarrow>
        snd (ui_generate_form_execute apiClient args)
          = [\<lparr>req_method = POST, req_url = ''/api/suite/forms'', req_params = JUndefined,
              req_data = validated\<rparr>])"
proof (intro conjI impI)
  show "own_keys (filterInfoOnlyTools (abpTools others apiClient))
     = {''abp_generate_component'', ''abp_get_themes'', ''abp_generate_form''}"
    by (rule own_keys_visible_abpTools)
  show "map_of (filterInfoOnlyTools (abpTools others apiClient)) ''abp_generate_component''
     = Some \<lparr>name = ''abp_generate_component'',
              description = ''Generate reusable UI components (widgets, modals, partials, directives, pipes)'',
              inputSchema = ui_generate_component_inputSchema,
              execute = ui_generate_component_execute apiClient\<rparr>"
    by (simp add: map_of_visible_abpTools uiTools_def declared_def)
  show "map_of (filterInfoOnlyTools (abpTools others apiClient)) ''abp_get_themes''
     = Some \<lparr>name = ''abp_get_themes'',
              description = ''Get all available ABP themes'',
              inputSchema = no_arguments_inputSchema,
              execute = ui_get_themes_execute apiClient\<rparr>"
    by (simp add: map_of_visible_abpTools uiTools_def declared_def)
  show "map_of (filterInfoOnlyTools (abpTools others apiClient)) ''abp_generate_form''
     = Some \<lparr>name = ''abp_generate_form'',
              description = ''Generate complex forms with validation'',
              inputSchema = ui_generate_form_inputSchema,
              execute = ui_generate_form_execute apiClient\<rparr>"
    by (simp add: map_of_visible_abpTools uiTools_def declared_def)
  show "set [''abp_get_info'', ''abp_get_documentation'', ''abp_get_help'',
            ''abp_list_available_modules'', ''abp_list_ui_frameworks'',
            ''abp_list_database_providers'', ''abp_get_cli_commands'',
            ''abp_get_best_practices'', ''abp_get_troubleshooting_guide'',
            ''abp_get_ui_examples''] \<inter> own_keys (abpTools others apiClient) = {}"
    unfolding own_keys_abpTools by (simp add: registry_names_def)
  show "snd (ui_get_themes_execute apiClient args)
     = [\<lparr>req_method = GET, req_url = ''/api/themes'', req_params = JUndefined,
         req_data = JUndefined\<rparr>]"
    by (simp add: ui_get_themes_execute_def snd_bind_lift_io snd_getThemes)
next
  assume "parse ui_generate_component_schema args = Inr validated"
  then show "snd (ui_generate_component_execute apiClient args)
          = [\<lparr>req_method = POST, req_url = ''/api/suite/components'', req_params = JUndefined,
              req_data = validated\<rparr>]"
    by (simp add: ui_generate_component_execute_def generateComponent_def snd_bind_lift_io
          snd_client_post)
next
  assume "parse ui_generate_form_schema args = Inr validated"
  then show "snd (ui_generate_form_execute apiClient args)
          = [\<lparr>req_method = POST, req_url = ''/api/suite/forms'', req_params = JUndefined,
              req_data = validated\<rparr>]"
    by (simp add: ui_generate_form_execute_def generateForm_def snd_bind_lift_io
          snd_client_post)
qed

theorem C2_restricted_registry_of_abpTools_witness:
  "parse ui_generate_component_schema sample_component_args = Inr sample_component_args
   \<and> snd (ui_generate_component_execute (sample_client [] offline) sample_component_args)
       = [\<lparr>req_method = POST, req_url = ''/api/suite/components'', req_params = JUndefined,
           req_data = sample_component_args\<rparr>]
   \<and> parse ui_generate_form_schema sample_form_args
       = Inr (JObj [(''name'', JStr ''Login''),
                    (''fields'', JArr [JObj [(''name'', JStr ''user''), (''type'', JStr ''text''),
                                             (''label'', JStr ''User'')]]),
                    (''layout'', JStr ''vertical'')])
   \<and> snd (ui_generate_form_execute (sample_client [] offline) sample_form_args)
       = [\<lparr>req_method = POST, req_url = ''/api/suite/forms'', req_params = JUndefined,
           req_data = JObj [(''name'', JStr ''Login''),
                    (''fields'', JArr [JObj [(''name'', JStr ''user''), (''type'', JStr ''text''),
                                             (''label'', JStr ''User'')]]),
                    (''layout'', JStr ''vertical'')]\<rparr>]
   \<and> own_keys (filterInfoOnlyTools (abpTools sample_others (sample_client [] offline)))
       = {''abp_generate_component'', ''abp_get_themes'', ''abp_generate_form''}"
proof -
  have component: "parse ui_generate_component_schema sample_component_args = Inr sample_component_args"
    by (simp add: ui_generate_component_schema_def sample_component_args_def parse_eval)
  have form: "parse ui_generate_form_schema sample_form_args
       = Inr (JObj [(''name'', JStr ''Login''),
                    (''fields'', JArr [JObj [(''name'', JStr ''user''), (''type'', JStr ''text''),
                                             (''label'', JStr ''User'')]]),
                    (''layout'', JStr ''vertical'')])"
    by (simp add: ui_generate_form_schema_def form_field_schema_def sample_form_args_def parse_eval)
  from C2_restricted_registry_of_abpTools
         [of sample_others "sample_client [] offline" sample_component_args sample_component_args]
       C2_restricted_registry_of_abpTools
         [of sample_others "sample_client [] offline" sample_form_args
             "JObj [(''name'', JStr ''Login''),
                    (''fields'', JArr [JObj [(''name'', JStr ''user''), (''type'', JStr ''text''),
                                             (''label'', JStr ''User'')]]),
                    (''layout'', JStr ''vertical'')]"]
  show ?thesis
    using component form by simp
qed




text \<open>
  Claim C4. For every registry (an object: no key occurs twice), the restricted-mode
  filter returns an object whose keys are keys of the registry and names of the fixed
  list, and every name it keeps is bound to the very entry the registry binds it to.
\<close>

theorem C4_filter_subset_unmutated:
  assumes "distinct (map fst registry)"
  shows "own_keys (filterInfoOnlyTools registry) \<subseteq> own_keys registry
       \<and> own_keys (filterInfoOnlyTools registry) \<subseteq> set infoOnlyToolNames
       \<and> (\<forall>n \<in> own_keys (filterInfoOnlyTools registry).
             map_of (filterInfoOnlyTools registry) n = map_of registry n)"
  using assms
  by (simp add: own_keys_filterInfoOnlyTools map_of_filterInfoOnlyTools)

theorem C4_filter_subset_unmutated_witness:
  "distinct (map fst [(''abp_get_themes'', 1::nat), (''abp_get_users'', 2)])
   \<and> own_keys (filterInfoOnlyTools [(''abp_get_themes'', 1::nat), (''abp_get_users'', 2)])
       = {''abp_get_themes''}
   \<and> map_of (filterInfoOnlyTools [(''abp_get_themes'', 1::nat), (''abp_get_users'', 2)])
         ''abp_get_themes'' = Some 1"
  using C4_filter_subset_unmutated [of "[(''abp_get_themes'', 1::nat), (''abp_get_users'', 2)]"]
  by (simp add: own_keys_def infoOnlyToolNames_def filterInfoOnlyTools_def)

text \<open>
  Claim C5 at arguments that pass the schema of \<^verbatim>\<open>abp_generate_form\<close> and hold a
  default value which is an object with a key \<^verbatim>\<open>toString\<close>: with a credential
  configured and the remote call failing, the static generator called in the
  \<^verbatim>\<open>catch\<close> block throws a \<^verbatim>\<open>TypeError\<close>, which leaves \<^verbatim>\<open>execute\<close>.
\<close>

theorem C5_fallback_can_throw:
  "\<not> isInfoOnlyMode (Some (sample_client ''key'' offline))
   \<and> parse hybrid_generate_form_schema unprintable_form_args = Inr unprintable_form_validated
   \<and> client (sample_client ''key'' offline)
        \<lparr>req_method = POST, req_url = ''/api/suite/forms'', req_params = JUndefined,
         req_data = unprintable_form_validated\<rparr>
     = Inl (AxiosError ''Network Error'')
   \<and> hybrid_generate_form_execute (Some (sample_client ''key'' offline)) unprintable_form_args
     = (Inl (TypeError ''Cannot convert object to primitive value''),
        [\<lparr>req_method = POST, req_url = ''/api/suite/forms'', req_params = JUndefined,
          req_data = unprintable_form_validated\<rparr>])"
proof -
  have "generateAngularForm unprintable_form_validated
          = Inl (TypeError ''Cannot convert object to primitive value'')"
    by (simp add: generateAngularForm_def unprintable_form_validated_def res_defs js_or_def
          cong: lit_cong)
  then have "generateStaticForm unprintable_form_validated
          = Inl (TypeError ''Cannot convert object to primitive value'')"
    by (simp add: generateStaticForm_def object_of_def)
  then show ?thesis
    by (simp add: hybrid_generate_form_execute_def unprintable_valid isInfoOnlyMode_def
          sample_client_def offline_def with_client_def generateForm_def client_post_def io_defs)
qed

text \<open>
  Claim C6 at the name \<^verbatim>\<open>constructor\<close>, which no tool set holds: the lookup finds the
  built-in property of \<^verbatim>\<open>Object.prototype\<close>, so the call does not throw
  \<^verbatim>\<open>Unknown tool\<close>. It returns a result marked \<^verbatim>\<open>isError\<close> whose text is
  that of a \<^verbatim>\<open>TypeError\<close>, or the request for an API key.
\<close>

theorem C6_builtin_name_is_not_unknown:
  "server_call_tool sample_others (sample_options (Some ''key'') False) offline ''constructor'' (JObj [])
     = (Inr \<lparr>content = [TextContent (ErrorMessage (TypeError ''handler.execute is not a function''))],
             isError = Some True\<rparr>, [])
   \<and> server_call_tool sample_others (sample_options None True) offline ''constructor'' (JObj [])
     = (Inr \<lparr>content = [TextContent (ErrorMessage (TypeError ''handler.execute is not a function''))],
             isError = Some True\<rparr>, [])
   \<and> server_call_tool sample_others (sample_options None False) offline ''constructor'' (JObj [])
     = (Inr credential_required, [])"
proof -
  have builtin: "''constructor'' \<in> set object_prototype_names"
    by (simp add: object_prototype_names_def)
  have "''constructor'' \<notin> set registry_names"
    by (simp add: registry_names_def)
  then have "''constructor'' \<notin> fst ` set (abpTools sample_others c)" for c
    using own_keys_abpTools [of sample_others c] by (simp add: own_keys_def)
  then have "map_of (abpTools sample_others c) ''constructor'' = None" for c
    by (simp add: map_of_eq_None_iff)
  then have none: "map_of (main_toolHandlers sample_others opts offline) ''constructor'' = None" for opts
    by (simp add: map_of_visible_restricted)
  show ?thesis
    by (simp add: server_call_tool_def call_tool_builtin [OF none builtin] sample_options_def)
qed

text \<open>
  Claim C7. A name of the fixed list that the registry does not hold is skipped: the
  filter, a total function with no error branch, returns an object without that name, and
  so does the selection of the operative tool set in either mode.
\<close>

theorem C7_filter_skips_absent_names:
  assumes "n \<in> set infoOnlyToolNames" and "n \<notin> own_keys registry"
  shows "\<exists>visible. filterInfoOnlyTools registry = visible
           \<and> n \<notin> own_keys visible \<and> map_of visible n = None
           \<and> (\<forall>restricted. map_of (toolHandlers restricted registry) n = None)"
proof -
  from assms(2) have absent: "n \<notin> own_keys (filterInfoOnlyTools registry)"
    by (simp add: own_keys_filterInfoOnlyTools)
  then have "map_of (filterInfoOnlyTools registry) n = None"
    by (simp add: own_keys_def map_of_eq_None_iff)
  moreover from assms(2) have "map_of registry n = None"
    by (simp add: own_keys_def map_of_eq_None_iff)
  ultimately show ?thesis
    using absent by (simp add: toolHandlers_def)
qed

theorem C7_filter_skips_absent_names_witness:
  "''abp_get_info'' \<in> set infoOnlyToolNames
   \<and> ''abp_get_info'' \<notin> own_keys [(''abp_get_themes'', 1::nat), (''abp_get_users'', 2)]
   \<and> filterInfoOnlyTools [(''abp_get_themes'', 1::nat), (''abp_get_users'', 2)]
       = [(''abp_get_themes'', 1)]
   \<and> map_of (filterInfoOnlyTools [(''abp_get_themes'', 1::nat), (''abp_get_users'', 2)])
         ''abp_get_info'' = None"
  using C7_filter_skips_absent_names
          [of "''abp_get_info''" "[(''abp_get_themes'', 1::nat), (''abp_get_users'', 2)]"]
  by (simp add: own_keys_def infoOnlyToolNames_def filterInfoOnlyTools_def)

text \<open>
  Claim C8. When \<^verbatim>\<open>providerName\<close> is neither \<^verbatim>\<open>R\<close> nor \<^verbatim>\<open>U\<close>,
  \<^verbatim>\<open>abp_grant_permission\<close> throws a validation error and sends no request; a request
  is sent only when \<^verbatim>\<open>providerName\<close> is one of the two.
\<close>

theorem C8_grant_permission_validates_first:
  "(field args ''providerName'' \<notin> {JStr ''R'', JStr ''U''} \<longrightarrow>
      (\<exists>issues. abp_grant_permission_execute apiClient args = (Inl (ZodError issues), [])))
   \<and> (snd (abp_grant_permission_execute apiClient args) \<noteq> [] \<longrightarrow>
      field args ''providerName'' \<in> {JStr ''R'', JStr ''U''})"
proof -
  have reject: "\<exists>issues. abp_grant_permission_execute apiClient args = (Inl (ZodError issues), [])"
    if "field args ''providerName'' \<notin> {JStr ''R'', JStr ''U''}"
  proof -
    from that grant_permission_rejects [of args]
    obtain issues where "parse grant_permission_schema args = Inl (ZodError issues)"
      by auto
    then show ?thesis
      by (simp add: abp_grant_permission_execute_def io_defs)
  qed
  then show ?thesis by fastforce
qed

theorem C8_grant_permission_validates_first_witness:
  "field (JObj [(''providerName'', JStr ''X''), (''providerKey'', JStr ''admin''),
                (''permissionName'', JStr ''Users.Create'')]) ''providerName''
     \<notin> {JStr ''R'', JStr ''U''}
   \<and> abp_grant_permission_execute (sample_client ''key'' offline)
         (JObj [(''providerName'', JStr ''X''), (''providerKey'', JStr ''admin''),
                (''permissionName'', JStr ''Users.Create'')])
       = (Inl (ZodError [ZodIssue ''invalid_enum_value'' [Key ''providerName'']]), [])
   \<and> snd (abp_grant_permission_execute (sample_client ''key'' offline)
         (JObj [(''providerName'', JStr ''R''), (''providerKey'', JStr ''admin''),
                (''permissionName'', JStr ''Users.Create'')])) \<noteq> []
   \<and> field (JObj [(''providerName'', JStr ''R''), (''providerKey'', JStr ''admin''),
                (''permissionName'', JStr ''Users.Create'')]) ''providerName''
     \<in> {JStr ''R'', JStr ''U''}"
  using C8_grant_permission_validates_first
          [of "JObj [(''providerName'', JStr ''X''), (''providerKey'', JStr ''admin''),
                     (''permissionName'', JStr ''Users.Create'')]" "sample_client ''key'' offline"]
        C8_grant_permission_validates_first
          [of "JObj [(''providerName'', JStr ''R''), (''providerKey'', JStr ''admin''),
                     (''permissionName'', JStr ''Users.Create'')]" "sample_client ''key'' offline"]
  by (simp add: abp_grant_permission_execute_def grant_permission_schema_def parse_def
        issues_of_def finalObject_def field_def io_defs grantPermission_def client_post_def
        sample_client_def offline_def)

text \<open>
  Claim C9. The registry is the spread of the tool groups, each of them an object (no key
  occurs twice in a group). A name bound by a group and by no later group is bound in the
  merged object to that group's definition: the later group wins where two groups bind
  the same name, a name of one group only keeps its definition, and the merge has no
  error branch.
\<close>

theorem C9_later_group_wins:
  assumes "\<forall>g \<in> set groups. distinct (map fst g)"
    and "j < length groups"
    and "n \<in> own_keys (groups ! j)"
    and "\<forall>k. j < k \<and> k < length groups \<longrightarrow> n \<notin> own_keys (groups ! k)"
  shows "map_of (object_spread groups) n = map_of (groups ! j) n
       \<and> abpTools others apiClient = object_spread (tool_groups others apiClient)"
  using map_of_object_spread_last [OF assms] by (simp add: abpTools_def)

theorem C9_later_group_wins_witness:
  "distinct (map fst [(''abp_get_themes'', 1::nat), (''abp_get_users'', 2)])
   \<and> distinct (map fst [(''abp_get_themes'', 3::nat)])
   \<and> ''abp_get_themes'' \<in> own_keys ([[(''abp_get_themes'', 1::nat), (''abp_get_users'', 2)],
                                        [(''abp_get_themes'', 3)]] ! 1)
   \<and> ''abp_get_users'' \<in> own_keys ([[(''abp_get_themes'', 1::nat), (''abp_get_users'', 2)],
                                       [(''abp_get_themes'', 3)]] ! 0)
   \<and> map_of (object_spread [[(''abp_get_themes'', 1::nat), (''abp_get_users'', 2)],
                              [(''abp_get_themes'', 3)]]) ''abp_get_themes'' = Some 3
   \<and> map_of (object_spread [[(''abp_get_themes'', 1::nat), (''abp_get_users'', 2)],
                              [(''abp_get_themes'', 3)]]) ''abp_get_users'' = Some 2"
proof -
  let ?gs = "[[(''abp_get_themes'', 1::nat), (''abp_get_users'', 2)], [(''abp_get_themes'', 3)]]"
  have d: "\<forall>g \<in> set ?gs. distinct (map fst g)"
    by simp
  have l1: "1 < length ?gs" and l0: "0 < length ?gs"
    by simp_all
  have in1: "''abp_get_themes'' \<in> own_keys (?gs ! 1)"
    and in0: "''abp_get_users'' \<in> own_keys (?gs ! 0)"
    by (simp_all add: own_keys_def)
  have last1: "\<forall>k. 1 < k \<and> k < length ?gs \<longrightarrow> ''abp_get_themes'' \<notin> own_keys (?gs ! k)"
    by auto
  have last0: "\<forall>k. 0 < k \<and> k < length ?gs \<longrightarrow> ''abp_get_users'' \<notin> own_keys (?gs ! k)"
    by (auto simp: own_keys_def less_Suc_eq)
  from C9_later_group_wins [OF d l1 in1 last1] C9_later_group_wins [OF d l0 in0 last0]
  show ?thesis
    using d in1 in0 by simp
qed

text \<open>
  Claim C10 at a bare-array response: \<^verbatim>\<open>getThemes\<close> returns the empty list in place
  of the array, where \<^verbatim>\<open>getApplications\<close> returns the array.
\<close>

theorem C10_getThemes_discards_bare_array:
  "getThemes (sample_client ''key'' bare_array_network)
     = (Inr (JArr []),
        [\<lparr>req_method = GET, req_url = ''/api/themes'', req_params = JUndefined,
          req_data = JUndefined\<rparr>])
   \<and> getApplications (sample_client ''key'' bare_array_network)
     = (Inr (JArr [JObj [(''name'', JStr ''LeptonX'')]]),
        [\<lparr>req_method = GET, req_url = ''/api/app/applications'', req_params = JUndefined,
          req_data = JUndefined\<rparr>])"
  by (simp add: getThemes_def getApplications_def client_get_def sample_client_def
        bare_array_network_def items_or_empty_def items_or_data_def io_defs js_or_def)

end
